theory Spec2Isabelle
  imports Complex_Main
begin

section \<open>The soil module: vertical water transfer through three soil layers\<close>

text \<open>
  The module \<^verbatim>\<open>cwatm/hydrological_modules/soil.py\<close> holds one class with two
  methods: \<^verbatim>\<open>initial\<close>, which lays out the three soil layers, and \<^verbatim>\<open>dynamic\<close>,
  which advances the storages \<^verbatim>\<open>w1\<close>, \<^verbatim>\<open>w2\<close>, \<^verbatim>\<open>w3\<close> and \<^verbatim>\<open>topwater\<close> of every
  hydrological response unit by one time step.

  Conventions of the embedding.
  \<^item> All numpy statements of \<^verbatim>\<open>dynamic\<close> are elementwise, so the method is modelled for
    one cell (\<open>dynamic_cell\<close>) and then for the whole array (\<open>dynamic\<close>), which fails as
    soon as one cell fails: every \<^verbatim>\<open>assert (...).all()\<close> ranges over all cells.
  \<^item> A masked statement \<^verbatim>\<open>x[mask] = e\<close> is \<open>if mask then x := e else x\<close> for the cell.
    The masks of a cell do not change during the step, so each phase tests \<^verbatim>\<open>bioarea\<close>
    once, binds one local for each assignment of the source in the order of the source,
    and writes the fields of \<^verbatim>\<open>self.var\<close> and of the frame at the end of the phase. An
    assertion on the storages is checked on the values about to be written.
  \<^item> Numbers are real numbers: the \<^verbatim>\<open>float32\<close> rounding of numpy is not modelled, and
    neither are \<^verbatim>\<open>inf\<close> and \<^verbatim>\<open>nan\<close>. Where a divisor is zero numpy yields \<^verbatim>\<open>inf\<close> or
    \<^verbatim>\<open>nan\<close> while HOL yields \<open>0\<close>; the model agrees with the code on the inputs whose
    divisors are non-zero (\<open>par_ok\<close> below and a total potential evapotranspiration that is
    not negative imply that). The one \<^verbatim>\<open>nan\<close> that the code
    creates on purpose, the initial value of \<^verbatim>\<open>p\<close>, is modelled by \<open>None\<close>. The assertions
    \<^verbatim>\<open>assert not np.isnan(...)\<close> cannot fail on real numbers and have no branch.
  \<^item> An \<^verbatim>\<open>AssertionError\<close> is the value \<open>Inl AssertionError\<close>.
\<close>

datatype error = AssertionError

subsection \<open>Helpers from numpy and from the data handling module\<close>

text \<open>
  \<^verbatim>\<open>x ** y\<close> on floats: \<^verbatim>\<open>x ** 0\<close> is \<open>1\<close> for every \<open>x\<close>, \<^verbatim>\<open>0 ** y\<close> is \<open>0\<close> for
  \<open>y > 0\<close>, and \<^verbatim>\<open>x ** y\<close> is \<open>exp (y * ln x)\<close> for \<open>x > 0\<close>. A negative base, and a zero
  base with a negative exponent, give \<^verbatim>\<open>nan\<close> or \<^verbatim>\<open>inf\<close> in numpy and are outside the model.
\<close>

definition np_power :: "real \<Rightarrow> real \<Rightarrow> real" where
  "np_power x y = (if y = 0 then 1 else x powr y)"

definition np_square :: "real \<Rightarrow> real" where
  "np_square x = x * x"

text \<open>
  Modelled from the spec: \<^verbatim>\<open>divideValues\<close> is imported from
  \<^verbatim>\<open>cwatm.management_modules.data_handling\<close>, which is not among the sources. The
  specification describes its use as the ratio, "defaulting to 1 when the denominator is
  degenerate", where \<open>1\<close> is the argument \<^verbatim>\<open>default\<close>.
\<close>

definition divideValues :: "real \<Rightarrow> real \<Rightarrow> real \<Rightarrow> real" where
  "divideValues x y dflt = (if y = 0 then dflt else x / y)"

subsection \<open>Data\<close>

text \<open>The fields of \<^verbatim>\<open>self.var\<close> that \<^verbatim>\<open>dynamic\<close> reads or writes, for one cell.\<close>

record soilvar =
  land_use_type :: int
  w1 :: real
  w2 :: real
  w3 :: real
  topwater :: real
  ws1 :: real
  ws2 :: real
  ws3 :: real
  wres1 :: real
  wres2 :: real
  wres3 :: real
  wfc1 :: real
  wfc2 :: real
  wfc3 :: real
  wwp1 :: real
  wwp2 :: real
  wwp3 :: real
  KSat1 :: real
  KSat2 :: real
  KSat3 :: real
  lambda1 :: real
  lambda2 :: real
  lambda3 :: real
  kunSatFC12 :: real
  kunSatFC23 :: real
  arnoBeta :: real
  adjRoot0 :: real
  adjRoot1 :: real
  adjRoot2 :: real
  percolationImp :: real
  cropGroupNumber :: real
  capriseindex :: real
  cropKC :: real
  EWRef :: real
  FrostIndex :: real
  natural_available_water_infiltration :: real
  actual_irrigation_consumption :: real
  actualET :: real
  actTransTotal :: real
  actBareSoilEvap :: real

text \<open>
  The fields of \<^verbatim>\<open>self.var\<close> that the code uses without an index, one value for all
  cells: \<^verbatim>\<open>FrostIndexThreshold\<close>, \<^verbatim>\<open>maxtopwater\<close> and \<^verbatim>\<open>cPrefFlow\<close>.
\<close>

record scalars =
  FrostIndexThreshold :: real
  maxtopwater :: real
  cPrefFlow :: real

text \<open>
  The arguments of \<^verbatim>\<open>dynamic\<close>, for one cell. They are arrays of the caller;
  \<^verbatim>\<open>openWaterEvap\<close> and \<^verbatim>\<open>potBareSoilEvap\<close> are written in place on paddy cells.
\<close>

record soilarg =
  capillar :: real
  openWaterEvap :: real
  potTranspiration :: real
  potBareSoilEvap :: real
  totalPotET :: real

text \<open>
  The frame of \<^verbatim>\<open>dynamic\<close> for one cell: the arguments and the local arrays that live
  across phases. \<^verbatim>\<open>prefFlow\<close>, \<^verbatim>\<open>infiltration\<close>, \<^verbatim>\<open>directRunoff\<close>, \<^verbatim>\<open>perc3toGW\<close>,
  \<^verbatim>\<open>interflow\<close> and \<^verbatim>\<open>groundwater_recharge\<close> are created with
  \<^verbatim>\<open>full_compressed(0)\<close>, and \<^verbatim>\<open>perc1to2\<close> and \<^verbatim>\<open>perc2to3\<close> with \<^verbatim>\<open>zeros\<close>.
  \<^verbatim>\<open>saverunofffromGW\<close>, \<^verbatim>\<open>ta1\<close>, \<^verbatim>\<open>ta2\<close>, \<^verbatim>\<open>ta3\<close>, \<^verbatim>\<open>perc1to2\<close> and \<^verbatim>\<open>perc2to3\<close> have
  one entry for each cell of \<^verbatim>\<open>bioarea\<close> only; for another cell the frame keeps \<open>0\<close> there.
\<close>

record frame = soilarg +
  availWaterInfiltration :: real
  saverunofffromGW :: real
  ta1 :: real
  ta2 :: real
  ta3 :: real
  prefFlow :: real
  infiltration :: real
  directRunoff :: real
  perc1to2 :: real
  perc2to3 :: real
  perc3toGW :: real
  interflow :: real
  groundwater_recharge :: real

text \<open>The locals of the percolation loop (lines 440 to 517).\<close>

record percloc =
  availWater1 :: real
  availWater2 :: real
  availWater3 :: real
  capLayer2 :: real
  capLayer3 :: real
  wtemp1 :: real
  wtemp2 :: real
  wtemp3 :: real
  kUnSat1 :: real
  kUnSat2 :: real
  kUnSat3 :: real

subsection \<open>Masks\<close>

definition bioarea :: "soilvar \<Rightarrow> bool" where
  "bioarea v \<longleftrightarrow> land_use_type v < 4"

definition paddy_irrigated_land :: "soilvar \<Rightarrow> bool" where
  "paddy_irrigated_land v \<longleftrightarrow> land_use_type v = 2"

definition irrigated_land :: "soilvar \<Rightarrow> bool" where
  "irrigated_land v \<longleftrightarrow> land_use_type v = 2 \<or> land_use_type v = 3"

definition non_irrigated_bioland :: "soilvar \<Rightarrow> bool" where
  "non_irrigated_bioland v \<longleftrightarrow> land_use_type v = 0 \<or> land_use_type v = 1"

definition frozen :: "scalars \<Rightarrow> soilvar \<Rightarrow> bool" where
  "frozen g v \<longleftrightarrow> FrostIndex v > FrostIndexThreshold g"

definition bind_err :: "error + 'a \<Rightarrow> ('a \<Rightarrow> error + 'b) \<Rightarrow> error + 'b" where
  "bind_err r k = (case r of Inl e \<Rightarrow> Inl e | Inr x \<Rightarrow> k x)"

definition storages_nonneg :: "soilvar \<Rightarrow> bool" where
  "storages_nonneg v \<longleftrightarrow> w1 v \<ge> 0 \<and> w2 v \<ge> 0 \<and> w3 v \<ge> 0"

subsection \<open>Lines 183 to 185: the water available for infiltration\<close>

definition avail_water :: "soilvar \<Rightarrow> error + real" where
  "avail_water v =
     (let a = natural_available_water_infiltration v + actual_irrigation_consumption v
      in if a + 0.000001 \<ge> 0
         then Inr (if a < 0 then 0 else a)
         else Inl AssertionError)"

definition init_frame :: "soilarg \<Rightarrow> real \<Rightarrow> frame" where
  "init_frame a aw =
     \<lparr>capillar = capillar a, openWaterEvap = openWaterEvap a,
      potTranspiration = potTranspiration a, potBareSoilEvap = potBareSoilEvap a,
      totalPotET = totalPotET a,
      availWaterInfiltration = aw, saverunofffromGW = 0, ta1 = 0, ta2 = 0, ta3 = 0,
      prefFlow = 0, infiltration = 0, directRunoff = 0, perc1to2 = 0, perc2to3 = 0,
      perc3toGW = 0, interflow = 0, groundwater_recharge = 0\<rparr>"

subsection \<open>Lines 189 to 201: paddy ponding and open water evaporation\<close>

definition paddy_ponding :: "soilvar \<Rightarrow> frame \<Rightarrow> error + soilvar \<times> frame" where
  "paddy_ponding v f =
     (if paddy_irrigated_land v
      then
        (let tw = (if cropKC v > 0.75
                   then topwater v + availWaterInfiltration f
                   else topwater v);
             owe = min (max 0 tw) (EWRef v);
             tw = tw - owe
         in if tw \<ge> 0
            then Inr (v\<lparr>topwater := tw\<rparr>,
                      f\<lparr>openWaterEvap := owe,
                        availWaterInfiltration :=
                          (if cropKC v > 0.75 then tw else tw + availWaterInfiltration f),
                        potBareSoilEvap := max 0 (potBareSoilEvap f - owe)\<rparr>)
            else Inl AssertionError)
      else if topwater v \<ge> 0 then Inr (v, f) else Inl AssertionError)"

subsection \<open>Lines 205 to 218: capillary rise from groundwater and its overflow\<close>

definition capillar_cascade :: "soilvar \<Rightarrow> frame \<Rightarrow> error + soilvar \<times> frame" where
  "capillar_cascade v f =
     (if bioarea v
      then
        (let w3a = w3 v + capillar f;
             w2a = w2 v + (if w3a > ws3 v then w3a - ws3 v else 0);
             w3b = min (ws3 v) w3a;
             w1a = w1 v + (if w2a > ws2 v then w2a - ws2 v else 0);
             w2b = min (ws2 v) w2a;
             s = (if w1a > ws1 v then w1a - ws1 v else 0);
             w1b = min (ws1 v) w1a
         in if w1b \<ge> 0 \<and> w2b \<ge> 0 \<and> w3b \<ge> 0
            then Inr (v\<lparr>w1 := w1b, w2 := w2b, w3 := w3b\<rparr>, f\<lparr>saverunofffromGW := s\<rparr>)
            else Inl AssertionError)
      else if storages_nonneg v then Inr (v, f) else Inl AssertionError)"

subsection \<open>Lines 224 to 302: transpiration under water stress\<close>

definition etpotMax :: "frame \<Rightarrow> real" where
  "etpotMax f = min (0.1 * (totalPotET f * 1000)) 1"

text \<open>
  The depletion fraction \<^verbatim>\<open>p\<close> starts as \<^verbatim>\<open>nan\<close> (\<open>None\<close>) and is assigned on
  \<^verbatim>\<open>irrigated_land\<close> and on \<^verbatim>\<open>non_irrigated_bioland\<close>; line 256 clips it.
\<close>

definition depletion_p :: "soilvar \<Rightarrow> frame \<Rightarrow> real option" where
  "depletion_p v f =
     (let e = etpotMax f;
          p = (None :: real option);
          p = (if irrigated_land v then Some (1 / (0.76 + 1.5 * e) - 0.4) else p);
          p = (if irrigated_land v then map_option (\<lambda>p. p + (e - 0.6) / 4) p else p);
          p = (if non_irrigated_bioland v
               then Some (1 / (0.76 + 1.5 * e) - 0.10 * (5 - cropGroupNumber v))
               else p);
          p = (if non_irrigated_bioland v
               then map_option
                      (\<lambda>p. if cropGroupNumber v \<le> 2.5
                           then p + (e - 0.6) / (cropGroupNumber v * (cropGroupNumber v + 3))
                           else p) p
               else p)
      in map_option (\<lambda>p. max (min p 1) 0) p)"

definition wCrit :: "real \<Rightarrow> real \<Rightarrow> real \<Rightarrow> real" where
  "wCrit p wfc wwp = ((1 - p) * (wfc - wwp)) + wwp"

text \<open>Lines 267 to 276, for one layer: the reduction factor times the root fraction.\<close>

definition rws :: "real \<Rightarrow> real \<Rightarrow> real \<Rightarrow> real \<Rightarrow> real \<Rightarrow> real" where
  "rws p w wfc wwp adj =
     max (min 1 (divideValues (w - wwp) (wCrit p wfc wwp - wwp) 1)) 0 * adj"

text \<open>
  \<open>TaMax\<close> is \<^verbatim>\<open>nan\<close> (\<open>None\<close>) where \<^verbatim>\<open>p\<close> is and the soil is not frozen.
\<close>

definition TaMax :: "scalars \<Rightarrow> soilvar \<Rightarrow> frame \<Rightarrow> real option" where
  "TaMax g v f =
     (let t = map_option
                (\<lambda>p. potTranspiration f *
                      (rws p (w1 v) (wfc1 v) (wwp1 v) (adjRoot0 v) +
                       rws p (w2 v) (wfc2 v) (wwp2 v) (adjRoot1 v) +
                       rws p (w3 v) (wfc3 v) (wwp3 v) (adjRoot2 v)))
                (depletion_p v f)
      in if frozen g v then Some 0 else t)"

text \<open>
  With \<open>TaMax = nan\<close> the three extractions and then the storages are \<^verbatim>\<open>nan\<close>, and
  \<^verbatim>\<open>assert (self.var.w1 >= 0).all()\<close> of line 298 fails.
\<close>

definition transpiration :: "scalars \<Rightarrow> soilvar \<Rightarrow> frame \<Rightarrow> error + soilvar \<times> frame" where
  "transpiration g v f =
     (if bioarea v
      then (case TaMax g v f of
              None \<Rightarrow> Inl AssertionError
            | Some t \<Rightarrow>
               (let t1 = max (min (t * adjRoot0 v) (w1 v - wwp1 v)) 0;
                    t2 = max (min (t * adjRoot1 v) (w2 v - wwp2 v)) 0;
                    t3 = max (min (t * adjRoot2 v) (w3 v - wwp3 v)) 0
                in if w1 v - t1 \<ge> 0 \<and> w2 v - t2 \<ge> 0 \<and> w3 v - t3 \<ge> 0
                   then Inr (v\<lparr>w1 := w1 v - t1, w2 := w2 v - t2, w3 := w3 v - t3,
                               actTransTotal := t1 + t2 + t3\<rparr>,
                             f\<lparr>ta1 := t1, ta2 := t2, ta3 := t3\<rparr>)
                   else Inl AssertionError))
      else if storages_nonneg v then Inr (v, f) else Inl AssertionError)"

subsection \<open>Lines 309 to 316: bare soil evaporation\<close>

definition bare_soil_evaporation :: "scalars \<Rightarrow> soilvar \<Rightarrow> frame \<Rightarrow> soilvar" where
  "bare_soil_evaporation g v f =
     (if bioarea v
      then
        (let e = min (potBareSoilEvap f) (max 0 (w1 v - wres1 v));
             e = (if frozen g v then 0 else e);
             e = (if paddy_irrigated_land v then (if topwater v > 0 then 0 else e) else e)
         in v\<lparr>actBareSoilEvap := e, w1 := w1 v - e\<rparr>)
      else v)"

subsection \<open>Lines 321 to 387: infiltration, preferential flow and direct runoff\<close>

definition relSat :: "soilvar \<Rightarrow> real" where
  "relSat v = min ((w1 v + w2 v) / (ws1 v + ws2 v)) 1"

definition satAreaFrac :: "soilvar \<Rightarrow> real" where
  "satAreaFrac v = max (min (1 - np_power (1 - relSat v) (arnoBeta v)) 1) 0"

definition store :: "soilvar \<Rightarrow> real" where
  "store v = (ws1 v + ws2 v) / (arnoBeta v + 1)"

definition potBeta :: "soilvar \<Rightarrow> real" where
  "potBeta v = (arnoBeta v + 1) / arnoBeta v"

text \<open>Line 336, as a function of the three locals it reads.\<close>

definition potInf_expr :: "real \<Rightarrow> real \<Rightarrow> real \<Rightarrow> real" where
  "potInf_expr st saf pb = st - st * (1 - np_power (1 - saf) pb)"

definition potInf :: "soilvar \<Rightarrow> real" where
  "potInf v = potInf_expr (store v) (satAreaFrac v) (potBeta v)"

definition infiltration_runoff ::
  "scalars \<Rightarrow> soilvar \<Rightarrow> frame \<Rightarrow> error + soilvar \<times> frame" where
  "infiltration_runoff g v f =
     (if bioarea v
      then
        (let aw = availWaterInfiltration f;
             pf = aw * np_power (relSat v) (cPrefFlow g);
             pf = (if frozen g v then 0 else pf);
             pf = (if paddy_irrigated_land v then 0 else pf);
             pf = pf * (1 - capriseindex v);
             infl = min (potInf v) (aw - pf);
             infl = (if frozen g v then 0 else infl);
             dr = max 0 (aw - infl - pf);
             tw = (if paddy_irrigated_land v then max 0 (topwater v - infl) else topwater v);
             h = max 0 (tw - maxtopwater g);
             dr = (if paddy_irrigated_land v then (if cropKC v > 0.75 then h else dr) else dr);
             tw = (if paddy_irrigated_land v then max 0 (tw - dr) else tw);
             dr = dr + saverunofffromGW f;
             w1a = w1 v + infl;
             w2a = w2 v + (if w1a > ws1 v then w1a - ws1 v else 0);
             w1b = min (ws1 v) w1a
         in if w1b \<ge> 0 \<and> w2a \<ge> 0 \<and> w3 v \<ge> 0
            then Inr (v\<lparr>topwater := tw, w1 := w1b, w2 := w2a\<rparr>,
                      f\<lparr>prefFlow := pf, infiltration := infl, directRunoff := dr\<rparr>)
            else Inl AssertionError)
      else if storages_nonneg v then Inr (v, f) else Inl AssertionError)"

subsection \<open>Lines 390 to 433: capillary rise between the soil layers\<close>

text \<open>
  The unsaturated conductivity of Van Genuchten, which the code writes out eight times
  (lines 407, 408, 458 to 460 and 496 to 498).
\<close>

definition kUnSat :: "real \<Rightarrow> real \<Rightarrow> real \<Rightarrow> real" where
  "kUnSat KSat lam satTerm =
     KSat * sqrt satTerm *
     np_square (1 - np_power (1 - np_power satTerm (1 / (lam / (lam + 1)))) (lam / (lam + 1)))"

text \<open>Lines 397 to 400: \<^verbatim>\<open>satTerm[satTerm < 0] = 0\<close>, then \<^verbatim>\<open>satTerm[satTerm > 1] = 1\<close>.\<close>

definition satTerm_assign :: "real \<Rightarrow> real" where
  "satTerm_assign x = (let s = (if x < 0 then 0 else x) in if s > 1 then 1 else s)"

text \<open>Lines 453 to 455 and 491 to 493: \<^verbatim>\<open>np.maximum(np.minimum(satTerm, 1.0), 0)\<close>.\<close>

definition satTerm_clip :: "real \<Rightarrow> real" where
  "satTerm_clip x = max (min x 1) 0"

definition soil_capillary_rise :: "soilvar \<Rightarrow> frame \<Rightarrow> error + soilvar \<times> frame" where
  "soil_capillary_rise v f =
     (if bioarea v
      then
        (let aw2 = max 0 (w2 v - wres2 v);
             aw3 = max 0 (w3 v - wres3 v);
             satTerm2 = satTerm_assign (aw2 / (ws2 v - wres2 v));
             satTerm3 = satTerm_assign (aw3 / (ws3 v - wres3 v))
         in if (satTerm2 \<ge> 0 \<and> satTerm2 \<le> 1) \<and> (satTerm3 \<ge> 0 \<and> satTerm3 \<le> 1)
            then
              (let k2 = kUnSat (KSat2 v) (lambda2 v) satTerm2;
                   k3 = kUnSat (KSat3 v) (lambda3 v) satTerm3;
                   satTermFC1 = max 0 (w1 v - wres1 v) / (wfc1 v - wres1 v);
                   satTermFC2 = max 0 (w2 v - wres2 v) / (wfc2 v - wres2 v);
                   capRise1 = min (max 0 ((1 - satTermFC1) * k2)) (kunSatFC12 v);
                   capRise2 = min (max 0 ((1 - satTermFC2) * k3)) (kunSatFC23 v);
                   capRise2 = min capRise2 aw3
               in if storages_nonneg v
                  then
                    (if w1 v + capRise1 \<ge> 0 \<and> w2 v - capRise1 + capRise2 \<ge> 0 \<and>
                        w3 v - capRise2 \<ge> 0
                     then Inr (v\<lparr>w1 := w1 v + capRise1,
                                 w2 := w2 v - capRise1 + capRise2,
                                 w3 := w3 v - capRise2\<rparr>, f)
                     else Inl AssertionError)
                  else Inl AssertionError)
            else Inl AssertionError)
      else if storages_nonneg v then Inr (v, f) else Inl AssertionError)"

subsection \<open>Lines 440 to 565: percolation in three sub steps\<close>

definition NoSubSteps :: nat where
  "NoSubSteps = 3"

definition DtSub :: real where
  "DtSub = 1 / real NoSubSteps"

text \<open>Lines 440 to 470: the locals on entry to the loop.\<close>

definition perc_init :: "soilvar \<Rightarrow> percloc" where
  "perc_init v =
     (let aw1 = max 0 (w1 v - wres1 v);
          aw2 = max 0 (w2 v - wres2 v);
          aw3 = max 0 (w3 v - wres3 v)
      in \<lparr>availWater1 = aw1, availWater2 = aw2, availWater3 = aw3,
          capLayer2 = ws2 v - w2 v, capLayer3 = ws3 v - w3 v,
          wtemp1 = w1 v, wtemp2 = w2 v, wtemp3 = w3 v,
          kUnSat1 = kUnSat (KSat1 v) (lambda1 v) (satTerm_clip (aw1 / (ws1 v - wres1 v))),
          kUnSat2 = kUnSat (KSat2 v) (lambda2 v) (satTerm_clip (aw2 / (ws2 v - wres2 v))),
          kUnSat3 = kUnSat (KSat3 v) (lambda3 v) (satTerm_clip (aw3 / (ws3 v - wres3 v)))\<rparr>)"

text \<open>Lines 485 to 521: the body of the loop, for the sub step \<open>i\<close>.\<close>

definition substep :: "soilvar \<Rightarrow> nat \<Rightarrow> percloc \<times> frame \<Rightarrow> percloc \<times> frame" where
  "substep v i lf =
     (let l = fst lf;
          f = snd lf;
          k1 = (if i > 0
                then kUnSat (KSat1 v) (lambda1 v)
                       (satTerm_clip (max 0 (wtemp1 l - wres1 v) / (ws1 v - wres1 v)))
                else kUnSat1 l);
          k2 = (if i > 0
                then kUnSat (KSat2 v) (lambda2 v)
                       (satTerm_clip (max 0 (wtemp2 l - wres2 v) / (ws2 v - wres2 v)))
                else kUnSat2 l);
          k3 = (if i > 0
                then kUnSat (KSat3 v) (lambda3 v)
                       (satTerm_clip (max 0 (wtemp3 l - wres3 v) / (ws3 v - wres3 v)))
                else kUnSat3 l);
          subperc1to2 = min (availWater1 l) (min (k1 * DtSub) (capLayer2 l));
          subperc2to3 = min (availWater2 l) (min (k2 * DtSub) (capLayer3 l));
          subperc3toGW = min (availWater3 l) (min (k3 * DtSub) (availWater3 l))
                         * (1 - capriseindex v);
          aw1 = availWater1 l - subperc1to2;
          aw2 = availWater2 l + subperc1to2 - subperc2to3;
          aw3 = availWater3 l + subperc2to3 - subperc3toGW;
          wt1 = aw1 + wres1 v;
          wt2 = aw2 + wres2 v;
          wt3 = aw3 + wres3 v
      in (\<lparr>availWater1 = aw1, availWater2 = aw2, availWater3 = aw3,
           capLayer2 = ws2 v - wt2, capLayer3 = ws3 v - wt3,
           wtemp1 = wt1, wtemp2 = wt2, wtemp3 = wt3,
           kUnSat1 = k1, kUnSat2 = k2, kUnSat3 = k3\<rparr>,
          f\<lparr>perc1to2 := perc1to2 f + subperc1to2,
            perc2to3 := perc2to3 f + subperc2to3,
            perc3toGW := perc3toGW f + subperc3toGW\<rparr>))"

text \<open>\<^verbatim>\<open>for i in range(n)\<close>, counting \<open>i\<close> up while \<open>n\<close> iterations remain.\<close>

fun perc_loop :: "soilvar \<Rightarrow> nat \<Rightarrow> nat \<Rightarrow> percloc \<times> frame \<Rightarrow> percloc \<times> frame" where
  "perc_loop v i 0 lf = lf"
| "perc_loop v i (Suc n) lf = perc_loop v (Suc i) n (substep v i lf)"

definition percolation :: "scalars \<Rightarrow> soilvar \<Rightarrow> frame \<Rightarrow> error + soilvar \<times> frame" where
  "percolation g v f =
     (if bioarea v
      then
        (if storages_nonneg v
         then
           (let fl = snd (perc_loop v 0 NoSubSteps (perc_init v, f));
                p12 = (if frozen g v then 0 else perc1to2 fl);
                p23 = (if frozen g v then 0 else perc2to3 fl);
                p3 = perc3toGW fl
            in if w1 v \<ge> 0
               then
                 (if w1 v - p12 \<ge> 0
                  then
                    (if w2 v + p12 - p23 \<ge> 0
                     then
                       (if w3 v + p23 - p3 \<ge> 0
                        then Inr (v\<lparr>w1 := w1 v - p12, w2 := w2 v + p12 - p23,
                                    w3 := w3 v + p23 - p3\<rparr>,
                                  fl\<lparr>perc1to2 := p12, perc2to3 := p23\<rparr>)
                        else Inl AssertionError)
                     else Inl AssertionError)
                  else Inl AssertionError)
               else Inl AssertionError)
         else Inl AssertionError)
      else if storages_nonneg v then Inr (v, f) else Inl AssertionError)"

subsection \<open>Lines 584 to 600: actual evapotranspiration, interflow and recharge\<close>

definition et_and_recharge :: "soilvar \<Rightarrow> frame \<Rightarrow> soilvar \<times> frame" where
  "et_and_recharge v f =
     (if bioarea v
      then
        (let toGWorInterflow = perc3toGW f + prefFlow f
         in (v\<lparr>actualET := actualET v + actBareSoilEvap v + openWaterEvap f
                               + actTransTotal v\<rparr>,
             f\<lparr>interflow := percolationImp v * toGWorInterflow,
               groundwater_recharge := (1 - percolationImp v) * toGWorInterflow\<rparr>))
      else (v, f))"

subsection \<open>The method \<^verbatim>\<open>dynamic\<close>\<close>

text \<open>
  One cell. The result is the cell of \<^verbatim>\<open>self.var\<close> after the step and the frame at the
  \<^verbatim>\<open>return\<close>. The two calls of \<^verbatim>\<open>waterBalanceCheck\<close> (lines 605 to 622) belong to an
  option and to another module and are not part of the model; \<open>balance_error\<close> below is
  the quantity that the first of them compares with the tolerance.
\<close>

definition phases :: "scalars \<Rightarrow> soilvar \<Rightarrow> frame \<Rightarrow> error + soilvar \<times> frame" where
  "phases g v f =
     bind_err (paddy_ponding v f) (\<lambda>(v, f).
     bind_err (capillar_cascade v f) (\<lambda>(v, f).
     bind_err (transpiration g v f) (\<lambda>(v, f).
     bind_err (infiltration_runoff g (bare_soil_evaporation g v f) f) (\<lambda>(v, f).
     bind_err (soil_capillary_rise v f) (\<lambda>(v, f).
     bind_err (percolation g v f) (\<lambda>(v, f).
     Inr (et_and_recharge v f)))))))"

definition dynamic_cell :: "scalars \<Rightarrow> soilvar \<Rightarrow> soilarg \<Rightarrow> error + soilvar \<times> frame" where
  "dynamic_cell g v a = bind_err (avail_water v) (\<lambda>aw. phases g v (init_frame a aw))"

text \<open>The tuple that \<^verbatim>\<open>dynamic\<close> returns (line 626).\<close>

definition returned :: "frame \<Rightarrow> real \<times> real \<times> real \<times> real \<times> real \<times> real" where
  "returned f =
     (interflow f, directRunoff f, groundwater_recharge f, perc3toGW f, prefFlow f,
      openWaterEvap f)"

text \<open>All cells: the step fails when it fails for one cell.\<close>

fun all_cells :: "(error + 'a) list \<Rightarrow> error + 'a list" where
  "all_cells [] = Inr []"
| "all_cells (r # rs) =
     (case r of
        Inl e \<Rightarrow> Inl e
      | Inr x \<Rightarrow> (case all_cells rs of Inl e \<Rightarrow> Inl e | Inr xs \<Rightarrow> Inr (x # xs)))"

definition dynamic ::
  "scalars \<Rightarrow> (soilvar \<times> soilarg) list \<Rightarrow> error + (soilvar \<times> frame) list" where
  "dynamic g cells = all_cells (map (\<lambda>c. dynamic_cell g (fst c) (snd c)) cells)"

text \<open>
  The balance that the first \<^verbatim>\<open>waterBalanceCheck\<close> (lines 606 to 613) is given: the
  sum of the influxes, minus the sum of the outfluxes, minus the change of the four
  storages, for the cell before (\<open>v\<close>, \<open>a\<close>) and after (\<open>v'\<close>, \<open>f'\<close>) the step.
\<close>

definition influx_sum :: "soilvar \<Rightarrow> soilarg \<Rightarrow> real" where
  "influx_sum v a =
     natural_available_water_infiltration v + capillar a + actual_irrigation_consumption v"

definition outflux_sum :: "soilvar \<Rightarrow> frame \<Rightarrow> real" where
  "outflux_sum v' f' =
     directRunoff f' + perc3toGW f' + prefFlow f' + actTransTotal v' + actBareSoilEvap v'
     + openWaterEvap f'"

definition total_storage :: "soilvar \<Rightarrow> real" where
  "total_storage v = w1 v + w2 v + w3 v + topwater v"

definition balance_error :: "soilvar \<Rightarrow> soilarg \<Rightarrow> soilvar \<Rightarrow> frame \<Rightarrow> real" where
  "balance_error v a v' f' =
     influx_sum v a - outflux_sum v' f' - (total_storage v' - total_storage v)"

subsection \<open>Lines 143 to 160 of \<^verbatim>\<open>initial\<close>: the thickness of the soil layers\<close>

text \<open>
  An array over the cells is a function of the position of the cell here. The arguments
  \<open>stordepth1\<close>, \<open>stordepth2\<close> and \<open>soildepth_factor\<close> are what \<^verbatim>\<open>to_HRU\<close> and
  \<^verbatim>\<open>loadmap\<close> deliver (a scalar setting is a constant function). \<^verbatim>\<open>to_grid\<close> is a
  method of \<^verbatim>\<open>model.data\<close>, which is not among the sources, and is a parameter. The
  three rows of \<^verbatim>\<open>soildepth\<close> start as \<^verbatim>\<open>nan\<close> and are all assigned; the result is the
  list of the three rows and the state of the grid with \<^verbatim>\<open>soildepth_12\<close> written.
\<close>

record griddata =
  soildepth_12 :: "nat \<Rightarrow> real"

definition initial ::
  "((nat \<Rightarrow> real) \<Rightarrow> string \<Rightarrow> nat \<Rightarrow> real) \<Rightarrow> griddata \<Rightarrow>
   (nat \<Rightarrow> real) \<Rightarrow> (nat \<Rightarrow> real) \<Rightarrow> (nat \<Rightarrow> real) \<Rightarrow> (nat \<Rightarrow> real) list \<times> griddata" where
  "initial to_grid grid stordepth1 stordepth2 soildepth_factor =
     (let s0 = (\<lambda>i. 0.05);
          s1 = (\<lambda>i. max 0.05 (stordepth1 i - s0 i));
          s2 = (\<lambda>i. max 0.05 (stordepth2 i));
          s1 = (\<lambda>i. s1 i * soildepth_factor i);
          s2 = (\<lambda>i. s2 i * soildepth_factor i);
          grid = grid\<lparr>soildepth_12 := to_grid (\<lambda>i. s1 i + s2 i) ''mean''\<rparr>
      in ([s0, s1, s2], grid))"

subsection \<open>Well-formed parameters\<close>

text \<open>
  The invariants that the specification states for the parameters of a cell, and the
  ranges of the fractions. They make every divisor of \<^verbatim>\<open>dynamic\<close> non-zero and every
  base of a power non-negative. The examples below satisfy them.
\<close>

definition par_ok :: "soilvar \<Rightarrow> bool" where
  "par_ok v \<longleftrightarrow>
     0 \<le> wres1 v \<and> wres1 v \<le> wwp1 v \<and> wwp1 v \<le> wfc1 v \<and> wfc1 v \<le> ws1 v \<and> wres1 v < wfc1 v \<and>
     0 \<le> wres2 v \<and> wres2 v \<le> wwp2 v \<and> wwp2 v \<le> wfc2 v \<and> wfc2 v \<le> ws2 v \<and> wres2 v < wfc2 v \<and>
     0 \<le> wres3 v \<and> wres3 v \<le> wwp3 v \<and> wwp3 v \<le> wfc3 v \<and> wfc3 v \<le> ws3 v \<and> wres3 v < wfc3 v \<and>
     0 \<le> KSat1 v \<and> 0 \<le> KSat2 v \<and> 0 \<le> KSat3 v \<and>
     0 < lambda1 v \<and> 0 < lambda2 v \<and> 0 < lambda3 v \<and>
     0 \<le> kunSatFC12 v \<and> 0 \<le> kunSatFC23 v \<and> 0 < arnoBeta v \<and>
     0 \<le> adjRoot0 v \<and> 0 \<le> adjRoot1 v \<and> 0 \<le> adjRoot2 v \<and>
     0 \<le> percolationImp v \<and> percolationImp v \<le> 1 \<and>
     0 \<le> capriseindex v \<and> capriseindex v \<le> 1 \<and>
     0 < cropGroupNumber v \<and> 0 \<le> EWRef v"

text \<open>The bounds of the storages (section 8 of the specification).\<close>

definition state_ok :: "soilvar \<Rightarrow> bool" where
  "state_ok v \<longleftrightarrow>
     wres1 v \<le> w1 v \<and> w1 v \<le> ws1 v \<and> wres2 v \<le> w2 v \<and> w2 v \<le> ws2 v \<and>
     wres3 v \<le> w3 v \<and> w3 v \<le> ws3 v \<and> 0 \<le> topwater v"

subsection \<open>Example cells\<close>

text \<open>The scalars and the parameters that the examples share.\<close>

definition g0 :: scalars where
  "g0 = \<lparr>FrostIndexThreshold = 56, maxtopwater = 0.05, cPrefFlow = 4\<rparr>"

definition cell0 :: soilvar where
  "cell0 =
     \<lparr>land_use_type = 0,
      w1 = 0.01,
      w2 = 0.07,
      w3 = 0.07,
      topwater = 0,
      ws1 = 0.02,
      ws2 = 0.1,
      ws3 = 0.1,
      wres1 = 0.005,
      wres2 = 0.05,
      wres3 = 0.05,
      wfc1 = 0.015,
      wfc2 = 0.08,
      wfc3 = 0.08,
      wwp1 = 0.01,
      wwp2 = 0.06,
      wwp3 = 0.06,
      KSat1 = 0,
      KSat2 = 0,
      KSat3 = 0,
      lambda1 = 1,
      lambda2 = 1,
      lambda3 = 1,
      kunSatFC12 = 0.0005,
      kunSatFC23 = 0.0005,
      arnoBeta = 1,
      adjRoot0 = 0.5,
      adjRoot1 = 0.3,
      adjRoot2 = 0.2,
      percolationImp = 0.2,
      cropGroupNumber = 3,
      capriseindex = 0,
      cropKC = 1,
      EWRef = 0.003,
      FrostIndex = 0,
      natural_available_water_infiltration = 0.004,
      actual_irrigation_consumption = 0,
      actualET = 0.001,
      actTransTotal = 0,
      actBareSoilEvap = 0\<rparr>"

text \<open>The same scalars with a negative maximum of the ponded water.\<close>

definition g1 :: scalars where
  "g1 = \<lparr>FrostIndexThreshold = 56, maxtopwater = - 0.01, cPrefFlow = 4\<rparr>"

text \<open>A forest cell with frozen soil; \<open>x\<close> is the entry of the caller's array
  \<^verbatim>\<open>openWaterEvap\<close> for the cell.\<close>

definition frozen_cell :: "soilvar" where
  "frozen_cell = cell0\<lparr>FrostIndex := 100\<rparr>"

definition frozen_args :: "real \<Rightarrow> soilarg" where
  "frozen_args x =
     \<lparr>capillar = 0.002, openWaterEvap = x, potTranspiration = 0.003,
         potBareSoilEvap = 0.001, totalPotET = 0.004\<rparr>"

definition frozen_frame :: "real \<Rightarrow> frame" where
  "frozen_frame x = init_frame (frozen_args x) 0.004"

definition frozen_cell2 :: "soilvar" where
  "frozen_cell2 =
     frozen_cell\<lparr>w1 := 0.01, w2 := 0.07, w3 := 0.072\<rparr>"

definition frozen_frame2 :: "real \<Rightarrow> frame" where
  "frozen_frame2 x =
     (frozen_frame x)\<lparr>saverunofffromGW := 0\<rparr>"

definition frozen_cell3 :: "soilvar" where
  "frozen_cell3 =
     frozen_cell2\<lparr>w1 := 0.01, w2 := 0.07, w3 := 0.072, actTransTotal := 0\<rparr>"

definition frozen_frame3 :: "real \<Rightarrow> frame" where
  "frozen_frame3 x =
     (frozen_frame2 x)\<lparr>ta1 := 0, ta2 := 0, ta3 := 0\<rparr>"

definition frozen_cell4 :: "soilvar" where
  "frozen_cell4 =
     frozen_cell3\<lparr>actBareSoilEvap := 0, w1 := 0.01\<rparr>"

definition frozen_cell5 :: "soilvar" where
  "frozen_cell5 =
     frozen_cell4\<lparr>topwater := 0, w1 := 0.01, w2 := 0.07\<rparr>"

definition frozen_frame5 :: "real \<Rightarrow> frame" where
  "frozen_frame5 x =
     (frozen_frame3 x)\<lparr>prefFlow := 0, infiltration := 0, directRunoff := 0.004\<rparr>"

definition frozen_cell6 :: "soilvar" where
  "frozen_cell6 =
     frozen_cell5\<lparr>w1 := 0.01, w2 := 0.07, w3 := 0.072\<rparr>"

definition frozen_cell7 :: "soilvar" where
  "frozen_cell7 =
     frozen_cell6\<lparr>w1 := 0.01, w2 := 0.07, w3 := 0.072\<rparr>"

definition frozen_frame7 :: "real \<Rightarrow> frame" where
  "frozen_frame7 x =
     (frozen_frame5 x)\<lparr>perc1to2 := 0, perc2to3 := 0, perc3toGW := 0\<rparr>"

definition frozen_cell8 :: "real \<Rightarrow> soilvar" where
  "frozen_cell8 x =
     frozen_cell7\<lparr>actualET := 0.001 + x\<rparr>"

definition frozen_frame8 :: "real \<Rightarrow> frame" where
  "frozen_frame8 x =
     (frozen_frame7 x)\<lparr>interflow := 0, groundwater_recharge := 0\<rparr>"

text \<open>A forest cell whose first layer is at its residual storage below a saturated second
  layer, with no driving flux at all.\<close>

definition caprise_cell :: "soilvar" where
  "caprise_cell = cell0\<lparr>w1 := 0.005, w2 := 0.1, w3 := 0.05, KSat2 := 0.08,
      kunSatFC12 := 0.08, natural_available_water_infiltration := 0\<rparr>"

definition caprise_args :: "soilarg" where
  "caprise_args =
     \<lparr>capillar = 0, openWaterEvap = 0, potTranspiration = 0, potBareSoilEvap = 0,
         totalPotET = 0\<rparr>"

definition caprise_frame :: "frame" where
  "caprise_frame = init_frame caprise_args 0"

definition caprise_cell2 :: "soilvar" where
  "caprise_cell2 =
     caprise_cell\<lparr>w1 := 0.005, w2 := 0.1, w3 := 0.05\<rparr>"

definition caprise_frame2 :: "frame" where
  "caprise_frame2 =
     caprise_frame\<lparr>saverunofffromGW := 0\<rparr>"

definition caprise_cell3 :: "soilvar" where
  "caprise_cell3 =
     caprise_cell2\<lparr>w1 := 0.005, w2 := 0.1, w3 := 0.05, actTransTotal := 0\<rparr>"

definition caprise_frame3 :: "frame" where
  "caprise_frame3 =
     caprise_frame2\<lparr>ta1 := 0, ta2 := 0, ta3 := 0\<rparr>"

definition caprise_cell4 :: "soilvar" where
  "caprise_cell4 =
     caprise_cell3\<lparr>actBareSoilEvap := 0, w1 := 0.005\<rparr>"

definition caprise_cell5 :: "soilvar" where
  "caprise_cell5 =
     caprise_cell4\<lparr>topwater := 0, w1 := 0.005, w2 := 0.1\<rparr>"

definition caprise_frame5 :: "frame" where
  "caprise_frame5 =
     caprise_frame3\<lparr>prefFlow := 0, infiltration := 0, directRunoff := 0\<rparr>"

definition caprise_cell6 :: "soilvar" where
  "caprise_cell6 =
     caprise_cell5\<lparr>w1 := 0.085, w2 := 0.02, w3 := 0.05\<rparr>"

definition caprise_cell7 :: "soilvar" where
  "caprise_cell7 =
     caprise_cell6\<lparr>w1 := 0.085, w2 := 0.02, w3 := 0.05\<rparr>"

definition caprise_frame7 :: "frame" where
  "caprise_frame7 =
     caprise_frame5\<lparr>perc1to2 := 0, perc2to3 := 0, perc3toGW := 0\<rparr>"

definition caprise_cell8 :: "soilvar" where
  "caprise_cell8 =
     caprise_cell7\<lparr>actualET := 0.001\<rparr>"

definition caprise_frame8 :: "frame" where
  "caprise_frame8 =
     caprise_frame7\<lparr>interflow := 0, groundwater_recharge := 0\<rparr>"

text \<open>A flooded paddy cell (crop coefficient 1) with a saturated column, 0.04 of ponded water,
  0.02 of incoming water, no open water evaporation and 0.01 of capillary rise.\<close>

definition flooded_cell :: "soilvar" where
  "flooded_cell = cell0\<lparr>land_use_type := 2, topwater := 0.04, w1 := 0.02, w2 := 0.1,
      w3 := 0.1, natural_available_water_infiltration := 0.02, EWRef := 0\<rparr>"

definition flooded_args :: "soilarg" where
  "flooded_args =
     \<lparr>capillar = 0.01, openWaterEvap = 0, potTranspiration = 0, potBareSoilEvap = 0,
         totalPotET = 0\<rparr>"

definition flooded_frame :: "frame" where
  "flooded_frame = init_frame flooded_args 0.02"

definition flooded_cell1 :: "soilvar" where
  "flooded_cell1 =
     flooded_cell\<lparr>topwater := 0.06\<rparr>"

definition flooded_frame1 :: "frame" where
  "flooded_frame1 =
     flooded_frame\<lparr>openWaterEvap := 0, availWaterInfiltration := 0.06,
         potBareSoilEvap := 0\<rparr>"

definition flooded_cell2 :: "soilvar" where
  "flooded_cell2 =
     flooded_cell1\<lparr>w1 := 0.02, w2 := 0.1, w3 := 0.1\<rparr>"

definition flooded_frame2 :: "frame" where
  "flooded_frame2 =
     flooded_frame1\<lparr>saverunofffromGW := 0.01\<rparr>"

definition flooded_cell3 :: "soilvar" where
  "flooded_cell3 =
     flooded_cell2\<lparr>w1 := 0.02, w2 := 0.1, w3 := 0.1, actTransTotal := 0\<rparr>"

definition flooded_frame3 :: "frame" where
  "flooded_frame3 =
     flooded_frame2\<lparr>ta1 := 0, ta2 := 0, ta3 := 0\<rparr>"

definition flooded_cell4 :: "soilvar" where
  "flooded_cell4 =
     flooded_cell3\<lparr>actBareSoilEvap := 0, w1 := 0.02\<rparr>"

definition flooded_cell5 :: "soilvar" where
  "flooded_cell5 =
     flooded_cell4\<lparr>topwater := 0.05, w1 := 0.02, w2 := 0.1\<rparr>"

definition flooded_frame5 :: "frame" where
  "flooded_frame5 =
     flooded_frame3\<lparr>prefFlow := 0, infiltration := 0, directRunoff := 0.02\<rparr>"

definition flooded_cell6 :: "soilvar" where
  "flooded_cell6 =
     flooded_cell5\<lparr>w1 := 0.02, w2 := 0.1, w3 := 0.1\<rparr>"

definition flooded_cell7 :: "soilvar" where
  "flooded_cell7 =
     flooded_cell6\<lparr>w1 := 0.02, w2 := 0.1, w3 := 0.1\<rparr>"

definition flooded_frame7 :: "frame" where
  "flooded_frame7 =
     flooded_frame5\<lparr>perc1to2 := 0, perc2to3 := 0, perc3toGW := 0\<rparr>"

definition flooded_cell8 :: "soilvar" where
  "flooded_cell8 =
     flooded_cell7\<lparr>actualET := 0.001\<rparr>"

definition flooded_frame8 :: "frame" where
  "flooded_frame8 =
     flooded_frame7\<lparr>interflow := 0, groundwater_recharge := 0\<rparr>"

text \<open>The flooded paddy cell without capillary rise,
    for the scalars \<open>g1\<close>.\<close>

definition negmax_cell :: "soilvar" where
  "negmax_cell = cell0\<lparr>land_use_type := 2, topwater := 0.04, w1 := 0.02, w2 := 0.1,
      w3 := 0.1, natural_available_water_infiltration := 0.02, EWRef := 0\<rparr>"

definition negmax_args :: "soilarg" where
  "negmax_args =
     \<lparr>capillar = 0, openWaterEvap = 0, potTranspiration = 0, potBareSoilEvap = 0,
         totalPotET = 0\<rparr>"

definition negmax_frame :: "frame" where
  "negmax_frame = init_frame negmax_args 0.02"

definition negmax_cell1 :: "soilvar" where
  "negmax_cell1 =
     negmax_cell\<lparr>topwater := 0.06\<rparr>"

definition negmax_frame1 :: "frame" where
  "negmax_frame1 =
     negmax_frame\<lparr>openWaterEvap := 0, availWaterInfiltration := 0.06,
         potBareSoilEvap := 0\<rparr>"

definition negmax_cell2 :: "soilvar" where
  "negmax_cell2 =
     negmax_cell1\<lparr>w1 := 0.02, w2 := 0.1, w3 := 0.1\<rparr>"

definition negmax_frame2 :: "frame" where
  "negmax_frame2 =
     negmax_frame1\<lparr>saverunofffromGW := 0\<rparr>"

definition negmax_cell3 :: "soilvar" where
  "negmax_cell3 =
     negmax_cell2\<lparr>w1 := 0.02, w2 := 0.1, w3 := 0.1, actTransTotal := 0\<rparr>"

definition negmax_frame3 :: "frame" where
  "negmax_frame3 =
     negmax_frame2\<lparr>ta1 := 0, ta2 := 0, ta3 := 0\<rparr>"

definition negmax_cell4 :: "soilvar" where
  "negmax_cell4 =
     negmax_cell3\<lparr>actBareSoilEvap := 0, w1 := 0.02\<rparr>"

definition negmax_cell5 :: "soilvar" where
  "negmax_cell5 =
     negmax_cell4\<lparr>topwater := 0, w1 := 0.02, w2 := 0.1\<rparr>"

definition negmax_frame5 :: "frame" where
  "negmax_frame5 =
     negmax_frame3\<lparr>prefFlow := 0, infiltration := 0, directRunoff := 0.07\<rparr>"

definition negmax_cell6 :: "soilvar" where
  "negmax_cell6 =
     negmax_cell5\<lparr>w1 := 0.02, w2 := 0.1, w3 := 0.1\<rparr>"

definition negmax_cell7 :: "soilvar" where
  "negmax_cell7 =
     negmax_cell6\<lparr>w1 := 0.02, w2 := 0.1, w3 := 0.1\<rparr>"

definition negmax_frame7 :: "frame" where
  "negmax_frame7 =
     negmax_frame5\<lparr>perc1to2 := 0, perc2to3 := 0, perc3toGW := 0\<rparr>"

definition negmax_cell8 :: "soilvar" where
  "negmax_cell8 =
     negmax_cell7\<lparr>actualET := 0.001\<rparr>"

definition negmax_frame8 :: "frame" where
  "negmax_frame8 =
     negmax_frame7\<lparr>interflow := 0, groundwater_recharge := 0\<rparr>"

text \<open>A paddy cell that is not flooded (crop coefficient 0.5) with 0.04 of ponded water and
  0.02 of incoming water.\<close>

definition unflooded_cell :: "soilvar" where
  "unflooded_cell = cell0\<lparr>land_use_type := 2, cropKC := 0.5, topwater := 0.04,
      natural_available_water_infiltration := 0.02\<rparr>"

definition unflooded_args :: "soilarg" where
  "unflooded_args =
     \<lparr>capillar = 0, openWaterEvap = 0, potTranspiration = 0, potBareSoilEvap = 0,
         totalPotET = 0\<rparr>"

definition unflooded_frame :: "frame" where
  "unflooded_frame = init_frame unflooded_args 0.02"

definition unflooded_cell1 :: "soilvar" where
  "unflooded_cell1 =
     unflooded_cell\<lparr>topwater := 0.037\<rparr>"

definition unflooded_frame1 :: "frame" where
  "unflooded_frame1 =
     unflooded_frame\<lparr>openWaterEvap := 0.003, availWaterInfiltration := 0.057,
         potBareSoilEvap := 0\<rparr>"

definition unflooded_cell2 :: "soilvar" where
  "unflooded_cell2 =
     unflooded_cell1\<lparr>w1 := 0.01, w2 := 0.07, w3 := 0.07\<rparr>"

definition unflooded_frame2 :: "frame" where
  "unflooded_frame2 =
     unflooded_frame1\<lparr>saverunofffromGW := 0\<rparr>"

definition unflooded_cell3 :: "soilvar" where
  "unflooded_cell3 =
     unflooded_cell2\<lparr>w1 := 0.01, w2 := 0.07, w3 := 0.07, actTransTotal := 0\<rparr>"

definition unflooded_frame3 :: "frame" where
  "unflooded_frame3 =
     unflooded_frame2\<lparr>ta1 := 0, ta2 := 0, ta3 := 0\<rparr>"

definition unflooded_cell4 :: "soilvar" where
  "unflooded_cell4 =
     unflooded_cell3\<lparr>actBareSoilEvap := 0, w1 := 0.01\<rparr>"

definition unflooded_cell5 :: "soilvar" where
  "unflooded_cell5 =
     unflooded_cell4\<lparr>topwater := 0, w1 := 1 / 60, w2 := 0.07\<rparr>"

definition unflooded_frame5 :: "frame" where
  "unflooded_frame5 =
     unflooded_frame3\<lparr>prefFlow := 0, infiltration := 1 / 150,
         directRunoff := 151 / 3000\<rparr>"

definition unflooded_cell6 :: "soilvar" where
  "unflooded_cell6 =
     unflooded_cell5\<lparr>w1 := 1 / 60, w2 := 0.07, w3 := 0.07\<rparr>"

definition unflooded_cell7 :: "soilvar" where
  "unflooded_cell7 =
     unflooded_cell6\<lparr>w1 := 1 / 60, w2 := 0.07, w3 := 0.07\<rparr>"

definition unflooded_frame7 :: "frame" where
  "unflooded_frame7 =
     unflooded_frame5\<lparr>perc1to2 := 0, perc2to3 := 0, perc3toGW := 0\<rparr>"

definition unflooded_cell8 :: "soilvar" where
  "unflooded_cell8 =
     unflooded_cell7\<lparr>actualET := 0.004\<rparr>"

definition unflooded_frame8 :: "frame" where
  "unflooded_frame8 =
     unflooded_frame7\<lparr>interflow := 0, groundwater_recharge := 0\<rparr>"

text \<open>A cell of a land use type outside \<^verbatim>\<open>bioarea\<close>.\<close>

definition water_cell :: "soilvar" where
  "water_cell = cell0\<lparr>land_use_type := 5\<rparr>"

definition water_args :: "soilarg" where
  "water_args =
     \<lparr>capillar = 0.002, openWaterEvap = 0, potTranspiration = 0.003,
         potBareSoilEvap = 0.001, totalPotET = 0.004\<rparr>"

definition water_frame :: "frame" where
  "water_frame = init_frame water_args 0.004"

text \<open>A cell whose incoming water is below the tolerance.\<close>

definition negative_cell :: "soilvar" where
  "negative_cell = cell0\<lparr>natural_available_water_infiltration := - 0.001\<rparr>"

definition negative_args :: "soilarg" where
  "negative_args =
     \<lparr>capillar = 0, openWaterEvap = 0, potTranspiration = 0, potBareSoilEvap = 0,
         totalPotET = 0\<rparr>"

text \<open>
  Scenario C of the specification: the third layer is full and receives 0.005 of capillary
  rise; the second layer has room for it.
\<close>

definition scenario_c_cell :: soilvar where
  "scenario_c_cell = cell0\<lparr>w3 := 0.1\<rparr>"

definition scenario_c_frame :: frame where
  "scenario_c_frame =
     init_frame \<lparr>capillar = 0.005, openWaterEvap = 0, potTranspiration = 0,
                 potBareSoilEvap = 0, totalPotET = 0\<rparr> 0.004"

text \<open>The same with a second layer that is full as well.\<close>

definition full_column_cell :: soilvar where
  "full_column_cell = cell0\<lparr>w2 := 0.1, w3 := 0.1\<rparr>"

text \<open>A cell whose incoming water is negative within the tolerance.\<close>

definition noise_cell :: soilvar where
  "noise_cell = cell0\<lparr>natural_available_water_infiltration := - 0.0000005\<rparr>"

section \<open>Properties\<close>

subsection \<open>The phases of a step, one at a time\<close>

lemma paddy_bio: "paddy_irrigated_land v \<Longrightarrow> bioarea v"
  by (simp add: paddy_irrigated_land_def bioarea_def)

lemma avail_water_Inr:
  assumes "avail_water v = Inr aw"
  shows "aw = max 0 (natural_available_water_infiltration v + actual_irrigation_consumption v)"
    and "natural_available_water_infiltration v + actual_irrigation_consumption v + 0.000001 \<ge> 0"
  using assms by (auto simp: avail_water_def Let_def split: if_splits)

lemma paddy_ponding_nonpaddy:
  assumes "paddy_ponding v f = Inr (v', f')" and "\<not> paddy_irrigated_land v"
  shows "v' = v" and "f' = f" and "topwater v \<ge> 0"
  using assms by (auto simp: paddy_ponding_def split: if_splits)

lemma paddy_ponding_flooded:
  assumes "paddy_ponding v f = Inr (v', f')" and "paddy_irrigated_land v" and "cropKC v > 0.75"
  shows "\<exists>tw owe.
           v' = v\<lparr>topwater := tw\<rparr> \<and>
           f' = f\<lparr>openWaterEvap := owe, availWaterInfiltration := tw,
                  potBareSoilEvap := max 0 (potBareSoilEvap f - owe)\<rparr> \<and>
           tw \<ge> 0 \<and> owe = min (max 0 (topwater v + availWaterInfiltration f)) (EWRef v) \<and>
           tw = topwater v + availWaterInfiltration f - owe"
  using assms by (simp add: paddy_ponding_def Let_def split: if_splits)

lemma paddy_ponding_unflooded:
  assumes "paddy_ponding v f = Inr (v', f')" and "paddy_irrigated_land v" and "\<not> cropKC v > 0.75"
  shows "\<exists>tw owe.
           v' = v\<lparr>topwater := tw\<rparr> \<and>
           f' = f\<lparr>openWaterEvap := owe, availWaterInfiltration := tw + availWaterInfiltration f,
                  potBareSoilEvap := max 0 (potBareSoilEvap f - owe)\<rparr> \<and>
           tw \<ge> 0 \<and> owe = min (max 0 (topwater v)) (EWRef v) \<and>
           tw = topwater v - owe"
  using assms by (simp add: paddy_ponding_def Let_def split: if_splits)

lemma paddy_ponding_cases:
  assumes "paddy_ponding v f = Inr (v', f')"
  shows "\<exists>tw owe awi pb.
           v' = v\<lparr>topwater := tw\<rparr> \<and>
           f' = f\<lparr>openWaterEvap := owe, availWaterInfiltration := awi, potBareSoilEvap := pb\<rparr> \<and>
           tw \<ge> 0 \<and>
           (\<not> paddy_irrigated_land v \<longrightarrow>
              tw = topwater v \<and> owe = openWaterEvap f \<and> awi = availWaterInfiltration f) \<and>
           (paddy_irrigated_land v \<and> cropKC v > 0.75 \<longrightarrow>
              owe = min (max 0 (topwater v + availWaterInfiltration f)) (EWRef v) \<and>
              tw = topwater v + availWaterInfiltration f - owe \<and> awi = tw) \<and>
           (paddy_irrigated_land v \<and> \<not> cropKC v > 0.75 \<longrightarrow>
              owe = min (max 0 (topwater v)) (EWRef v) \<and>
              tw = topwater v - owe \<and> awi = tw + availWaterInfiltration f)"
proof (cases "paddy_irrigated_land v")
  case False
  from paddy_ponding_nonpaddy[OF assms False] have "v' = v" "f' = f" "topwater v \<ge> 0" .
  then show ?thesis using False
    by (intro exI[of _ "topwater v"] exI[of _ "openWaterEvap f"]
        exI[of _ "availWaterInfiltration f"] exI[of _ "potBareSoilEvap f"]) simp
next
  case True
  show ?thesis
  proof (cases "cropKC v > 0.75")
    case kc: True
    from paddy_ponding_flooded[OF assms True kc] obtain tw owe where
      "v' = v\<lparr>topwater := tw\<rparr>"
      "f' = f\<lparr>openWaterEvap := owe, availWaterInfiltration := tw,
             potBareSoilEvap := max 0 (potBareSoilEvap f - owe)\<rparr>"
      "tw \<ge> 0" "owe = min (max 0 (topwater v + availWaterInfiltration f)) (EWRef v)"
      "tw = topwater v + availWaterInfiltration f - owe" by blast
    then show ?thesis using True kc
      by (intro exI[of _ tw] exI[of _ owe] exI[of _ tw]
          exI[of _ "max 0 (potBareSoilEvap f - owe)"]) blast
  next
    case kc: False
    from paddy_ponding_unflooded[OF assms True kc] obtain tw owe where
      "v' = v\<lparr>topwater := tw\<rparr>"
      "f' = f\<lparr>openWaterEvap := owe, availWaterInfiltration := tw + availWaterInfiltration f,
             potBareSoilEvap := max 0 (potBareSoilEvap f - owe)\<rparr>"
      "tw \<ge> 0" "owe = min (max 0 (topwater v)) (EWRef v)" "tw = topwater v - owe" by blast
    then show ?thesis using True kc
      by (intro exI[of _ tw] exI[of _ owe] exI[of _ "tw + availWaterInfiltration f"]
          exI[of _ "max 0 (potBareSoilEvap f - owe)"]) blast
  qed
qed

lemma capillar_cascade_bio:
  assumes "capillar_cascade v f = Inr (v', f')" and "bioarea v"
  shows "\<exists>a b c s o3 o2.
           v' = v\<lparr>w1 := a, w2 := b, w3 := c\<rparr> \<and> f' = f\<lparr>saverunofffromGW := s\<rparr> \<and>
           0 \<le> a \<and> 0 \<le> b \<and> 0 \<le> c \<and>
           o3 = max 0 (w3 v + capillar f - ws3 v) \<and> c = w3 v + capillar f - o3 \<and>
           o2 = max 0 (w2 v + o3 - ws2 v) \<and> b = w2 v + o3 - o2 \<and>
           s = max 0 (w1 v + o2 - ws1 v) \<and> a = w1 v + o2 - s"
  using assms 
  by (simp add: capillar_cascade_def Let_def split: if_splits)

lemma capillar_cascade_balance:
  assumes "capillar_cascade v f = Inr (v', f')" and "bioarea v"
  shows "\<exists>a b c s.
           v' = v\<lparr>w1 := a, w2 := b, w3 := c\<rparr> \<and> f' = f\<lparr>saverunofffromGW := s\<rparr> \<and>
           a + b + c + s = w1 v + w2 v + w3 v + capillar f"
proof -
  from capillar_cascade_bio[OF assms] obtain a b c s o3 o2 where
    "v' = v\<lparr>w1 := a, w2 := b, w3 := c\<rparr>" "f' = f\<lparr>saverunofffromGW := s\<rparr>"
    "c = w3 v + capillar f - o3" "b = w2 v + o3 - o2" "a = w1 v + o2 - s" by blast
  then show ?thesis by (intro exI[of _ a] exI[of _ b] exI[of _ c] exI[of _ s]) simp
qed

lemma transpiration_bio:
  assumes "transpiration g v f = Inr (v', f')" and "bioarea v"
  shows "\<exists>t1 t2 t3.
           v' = v\<lparr>w1 := w1 v - t1, w2 := w2 v - t2, w3 := w3 v - t3,
                  actTransTotal := t1 + t2 + t3\<rparr> \<and>
           f' = f\<lparr>ta1 := t1, ta2 := t2, ta3 := t3\<rparr> \<and>
           (frozen g v \<longrightarrow> t1 = 0 \<and> t2 = 0 \<and> t3 = 0)"
  using assms
  by (auto simp: transpiration_def TaMax_def Let_def split: if_splits option.splits)

lemma bare_soil_evaporation_bio:
  assumes "bioarea v"
  shows "\<exists>e. bare_soil_evaporation g v f = v\<lparr>actBareSoilEvap := e, w1 := w1 v - e\<rparr> \<and>
             (frozen g v \<longrightarrow> e = 0)"
proof -
  let ?e = "actBareSoilEvap (bare_soil_evaporation g v f)"
  have "bare_soil_evaporation g v f = v\<lparr>actBareSoilEvap := ?e, w1 := w1 v - ?e\<rparr>"
    using assms by (simp add: bare_soil_evaporation_def Let_def)
  moreover have "frozen g v \<longrightarrow> ?e = 0"
    using assms by (simp add: bare_soil_evaporation_def Let_def)
  ultimately show ?thesis by blast
qed

lemma if_Inr_eq: "((if c then Inr x else Inl e) = Inr y) \<longleftrightarrow> (c \<and> x = y)"
  by simp

lemma infiltration_runoff_bio:
  assumes run: "infiltration_runoff g v f = Inr (v', f')" and bio: "bioarea v"
  shows "\<exists>tw a b pf infl dr.
           v' = v\<lparr>topwater := tw, w1 := a, w2 := b\<rparr> \<and>
           f' = f\<lparr>prefFlow := pf, infiltration := infl, directRunoff := dr + saverunofffromGW f\<rparr> \<and>
           a + b = w1 v + w2 v + infl \<and> 0 \<le> a \<and> 0 \<le> b \<and>
           (frozen g v \<longrightarrow> pf = 0 \<and> infl = 0) \<and>
           (paddy_irrigated_land v \<longrightarrow> pf = 0) \<and>
           (\<not> frozen g v \<longrightarrow> infl \<le> availWaterInfiltration f - pf) \<and>
           (\<not> paddy_irrigated_land v \<longrightarrow>
              tw = topwater v \<and> dr = max 0 (availWaterInfiltration f - infl - pf)) \<and>
           (paddy_irrigated_land v \<and> cropKC v > 0.75 \<longrightarrow>
              dr = max 0 (max 0 (topwater v - infl) - maxtopwater g) \<and>
              tw = max 0 (max 0 (topwater v - infl) - dr)) \<and>
           (paddy_irrigated_land v \<and> \<not> cropKC v > 0.75 \<longrightarrow>
              dr = max 0 (availWaterInfiltration f - infl) \<and>
              tw = max 0 (max 0 (topwater v - infl) - dr))"
proof -
  define aw where "aw = availWaterInfiltration f"
  define pf1 where "pf1 = aw * np_power (relSat v) (cPrefFlow g)"
  define pf2 where "pf2 = (if frozen g v then 0 else pf1)"
  define pf3 where "pf3 = (if paddy_irrigated_land v then 0 else pf2)"
  define pf where "pf = pf3 * (1 - capriseindex v)"
  define infl1 where "infl1 = min (potInf v) (aw - pf)"
  define infl where "infl = (if frozen g v then 0 else infl1)"
  define dr1 where "dr1 = max 0 (aw - infl - pf)"
  define tw1 where "tw1 = (if paddy_irrigated_land v then max 0 (topwater v - infl) else topwater v)"
  define h where "h = max 0 (tw1 - maxtopwater g)"
  define dr where "dr = (if paddy_irrigated_land v then (if cropKC v > 0.75 then h else dr1) else dr1)"
  define tw where "tw = (if paddy_irrigated_land v then max 0 (tw1 - dr) else tw1)"
  define w1a where "w1a = w1 v + infl"
  define b where "b = w2 v + (if w1a > ws1 v then w1a - ws1 v else 0)"
  define a where "a = min (ws1 v) w1a"
  have eq: "infiltration_runoff g v f =
      (if a \<ge> 0 \<and> b \<ge> 0 \<and> w3 v \<ge> 0
       then Inr (v\<lparr>topwater := tw, w1 := a, w2 := b\<rparr>,
                 f\<lparr>prefFlow := pf, infiltration := infl, directRunoff := dr + saverunofffromGW f\<rparr>)
       else Inl AssertionError)"
    unfolding infiltration_runoff_def Let_def a_def b_def w1a_def tw_def dr_def h_def tw1_def
      dr1_def infl_def infl1_def pf_def pf3_def pf2_def pf1_def aw_def
    using bio by (simp only: if_True)
  from run have 1: "a \<ge> 0" "b \<ge> 0" "v' = v\<lparr>topwater := tw, w1 := a, w2 := b\<rparr>"
      "f' = f\<lparr>prefFlow := pf, infiltration := infl, directRunoff := dr + saverunofffromGW f\<rparr>"
    unfolding eq if_Inr_eq by simp_all
  have 2: "a + b = w1 v + w2 v + infl"
    by (simp add: a_def b_def w1a_def min_def)
  have 3: "frozen g v \<longrightarrow> pf = 0 \<and> infl = 0" "paddy_irrigated_land v \<longrightarrow> pf = 0"
    by (simp_all add: pf_def pf3_def pf2_def infl_def)
  have 4: "\<not> frozen g v \<longrightarrow> infl \<le> availWaterInfiltration f - pf"
    by (simp add: infl_def infl1_def aw_def)
  have 5: "\<not> paddy_irrigated_land v \<longrightarrow>
              tw = topwater v \<and> dr = max 0 (availWaterInfiltration f - infl - pf)"
    by (simp add: tw_def tw1_def dr_def dr1_def aw_def)
  have 6: "paddy_irrigated_land v \<and> cropKC v > 0.75 \<longrightarrow>
              dr = max 0 (max 0 (topwater v - infl) - maxtopwater g) \<and>
              tw = max 0 (max 0 (topwater v - infl) - dr)"
    by (simp add: tw_def tw1_def dr_def h_def)
  have 7: "paddy_irrigated_land v \<and> \<not> cropKC v > 0.75 \<longrightarrow>
              dr = max 0 (availWaterInfiltration f - infl) \<and>
              tw = max 0 (max 0 (topwater v - infl) - dr)"
    using 3(2) by (simp add: tw_def tw1_def dr_def dr1_def aw_def)
  show ?thesis
    using 1 2 3 4 5 6 7
    by (intro exI[of _ tw] exI[of _ a] exI[of _ b] exI[of _ pf] exI[of _ infl] exI[of _ dr])
       blast
qed

lemma soil_capillary_rise_bio:
  assumes run: "soil_capillary_rise v f = Inr (v', f')" and bio: "bioarea v"
  shows "\<exists>c1 c2.
           v' = v\<lparr>w1 := w1 v + c1, w2 := w2 v - c1 + c2, w3 := w3 v - c2\<rparr> \<and> f' = f"
proof -
  define s2 where "s2 = satTerm_assign (max 0 (w2 v - wres2 v) / (ws2 v - wres2 v))"
  define s3 where "s3 = satTerm_assign (max 0 (w3 v - wres3 v) / (ws3 v - wres3 v))"
  define c1 where "c1 = min (max 0 ((1 - max 0 (w1 v - wres1 v) / (wfc1 v - wres1 v))
                      * kUnSat (KSat2 v) (lambda2 v) s2)) (kunSatFC12 v)"
  define c2 where "c2 = min (min (max 0 ((1 - max 0 (w2 v - wres2 v) / (wfc2 v - wres2 v))
                      * kUnSat (KSat3 v) (lambda3 v) s3)) (kunSatFC23 v)) (max 0 (w3 v - wres3 v))"
  have eq: "soil_capillary_rise v f =
      (if (s2 \<ge> 0 \<and> s2 \<le> 1) \<and> (s3 \<ge> 0 \<and> s3 \<le> 1)
       then if storages_nonneg v
            then if w1 v + c1 \<ge> 0 \<and> w2 v - c1 + c2 \<ge> 0 \<and> w3 v - c2 \<ge> 0
                 then Inr (v\<lparr>w1 := w1 v + c1, w2 := w2 v - c1 + c2, w3 := w3 v - c2\<rparr>, f)
                 else Inl AssertionError
            else Inl AssertionError
       else Inl AssertionError)"
    unfolding soil_capillary_rise_def Let_def c1_def c2_def s2_def s3_def
    using bio by (simp only: if_True)
  from run have "v' = v\<lparr>w1 := w1 v + c1, w2 := w2 v - c1 + c2, w3 := w3 v - c2\<rparr>" "f' = f"
    unfolding eq by (simp_all split: if_splits)
  then show ?thesis by blast
qed

lemma substep_frame:
  "\<exists>a b c. snd (substep v i (l, f)) = f\<lparr>perc1to2 := a, perc2to3 := b, perc3toGW := c\<rparr>"
  unfolding substep_def Let_def snd_conv by blast

lemma perc_loop_frame:
  "\<exists>a b c. snd (perc_loop v i n (l, f)) = f\<lparr>perc1to2 := a, perc2to3 := b, perc3toGW := c\<rparr>"
proof (induction n arbitrary: i l f)
  case 0
  have "f = f\<lparr>perc1to2 := perc1to2 f, perc2to3 := perc2to3 f, perc3toGW := perc3toGW f\<rparr>"
    by simp
  then show ?case by (simp only: perc_loop.simps snd_conv) blast
next
  case (Suc n)
  obtain l1 f1 where s: "substep v i (l, f) = (l1, f1)" by (cases "substep v i (l, f)")
  from substep_frame[of v i l f] s obtain a b c where
    f1: "f1 = f\<lparr>perc1to2 := a, perc2to3 := b, perc3toGW := c\<rparr>" by auto
  from Suc.IH[of "Suc i" l1 f1] obtain a' b' c' where
    "snd (perc_loop v (Suc i) n (l1, f1)) = f1\<lparr>perc1to2 := a', perc2to3 := b', perc3toGW := c'\<rparr>"
    by blast
  then have "snd (perc_loop v i (Suc n) (l, f)) = f\<lparr>perc1to2 := a', perc2to3 := b', perc3toGW := c'\<rparr>"
    by (simp add: s f1)
  then show ?case by blast
qed

lemma percolation_bio:
  assumes run: "percolation g v f = Inr (v', f')" and bio: "bioarea v"
  shows "\<exists>p12 p23 p3.
           v' = v\<lparr>w1 := w1 v - p12, w2 := w2 v + p12 - p23, w3 := w3 v + p23 - p3\<rparr> \<and>
           f' = f\<lparr>perc1to2 := p12, perc2to3 := p23, perc3toGW := p3\<rparr> \<and>
           (frozen g v \<longrightarrow> p12 = 0 \<and> p23 = 0)"
proof -
  obtain a b c where fl: "snd (perc_loop v 0 NoSubSteps (perc_init v, f)) =
      f\<lparr>perc1to2 := a, perc2to3 := b, perc3toGW := c\<rparr>"
    using perc_loop_frame by blast
  define p12 where "p12 = (if frozen g v then 0 else a)"
  define p23 where "p23 = (if frozen g v then 0 else b)"
  from run bio have "v' = v\<lparr>w1 := w1 v - p12, w2 := w2 v + p12 - p23, w3 := w3 v + p23 - c\<rparr>"
    "f' = f\<lparr>perc1to2 := p12, perc2to3 := p23, perc3toGW := c\<rparr>"
    by (auto simp: percolation_def Let_def fl p12_def p23_def split: if_splits)
  moreover have "frozen g v \<longrightarrow> p12 = 0 \<and> p23 = 0" by (simp add: p12_def p23_def)
  ultimately show ?thesis by blast
qed

lemma et_and_recharge_bio:
  assumes "bioarea v"
  shows "et_and_recharge v f =
     (v\<lparr>actualET := actualET v + actBareSoilEvap v + openWaterEvap f + actTransTotal v\<rparr>,
      f\<lparr>interflow := percolationImp v * (perc3toGW f + prefFlow f),
        groundwater_recharge := (1 - percolationImp v) * (perc3toGW f + prefFlow f)\<rparr>)"
  using assms by (simp add: et_and_recharge_def Let_def)

lemma bind_err_Inr: "bind_err r k = Inr y \<longleftrightarrow> (\<exists>x. r = Inr x \<and> k x = Inr y)"
  by (cases r) (simp_all add: bind_err_def)

lemma bind_err_pair_Inr:
  "bind_err r (\<lambda>(v, f). k v f) = Inr y \<longleftrightarrow> (\<exists>v f. r = Inr (v, f) \<and> k v f = Inr y)"
  by (cases r) (auto simp: bind_err_def)

lemma phases_Inr:
  assumes "phases g v f = Inr (v', f')"
  shows "\<exists>v1 f1 v2 f2 v3 f3 v5 f5 v6 f6 v7 f7.
           paddy_ponding v f = Inr (v1, f1) \<and>
           capillar_cascade v1 f1 = Inr (v2, f2) \<and>
           transpiration g v2 f2 = Inr (v3, f3) \<and>
           infiltration_runoff g (bare_soil_evaporation g v3 f3) f3 = Inr (v5, f5) \<and>
           soil_capillary_rise v5 f5 = Inr (v6, f6) \<and>
           percolation g v6 f6 = Inr (v7, f7) \<and>
           et_and_recharge v7 f7 = (v', f')"
  using assms unfolding phases_def bind_err_pair_Inr by (simp only: sum.inject) blast

lemma dynamic_cell_Inr:
  assumes "dynamic_cell g v a = Inr (v', f')"
  shows "\<exists>aw. avail_water v = Inr aw \<and> phases g v (init_frame a aw) = Inr (v', f')"
  using assms unfolding dynamic_cell_def bind_err_Inr by blast

lemma init_frame_sel:
  "capillar (init_frame a aw) = capillar a"
  "openWaterEvap (init_frame a aw) = openWaterEvap a"
  "potTranspiration (init_frame a aw) = potTranspiration a"
  "potBareSoilEvap (init_frame a aw) = potBareSoilEvap a"
  "totalPotET (init_frame a aw) = totalPotET a"
  "availWaterInfiltration (init_frame a aw) = aw"
  "saverunofffromGW (init_frame a aw) = 0"
  "ta1 (init_frame a aw) = 0"
  "ta2 (init_frame a aw) = 0"
  "ta3 (init_frame a aw) = 0"
  "prefFlow (init_frame a aw) = 0"
  "infiltration (init_frame a aw) = 0"
  "directRunoff (init_frame a aw) = 0"
  "perc1to2 (init_frame a aw) = 0"
  "perc2to3 (init_frame a aw) = 0"
  "perc3toGW (init_frame a aw) = 0"
  "interflow (init_frame a aw) = 0"
  "groundwater_recharge (init_frame a aw) = 0"
  by (simp_all add: init_frame_def)

lemmas mask_defs = bioarea_def paddy_irrigated_land_def irrigated_land_def
  non_irrigated_bioland_def frozen_def storages_nonneg_def

lemma dynamic_cell_bio:
  assumes run: "dynamic_cell g v a = Inr (v', f')" and bio: "bioarea v"
  shows "\<exists>aw tw owe awi pb a2 b2 c2 s t1 t2 t3 e tw5 a5 b5 pf infl dr r1 r2 p12 p23 p3g.
     avail_water v = Inr aw \<and>
     paddy_ponding v (init_frame a aw) =
       Inr (v\<lparr>topwater := tw\<rparr>,
            (init_frame a aw)\<lparr>openWaterEvap := owe, availWaterInfiltration := awi,
                              potBareSoilEvap := pb\<rparr>) \<and>
     v' = v\<lparr>topwater := tw5, w1 := a5 + r1 - p12, w2 := b5 - r1 + r2 + p12 - p23,
            w3 := c2 - t3 - r2 + p23 - p3g, actTransTotal := t1 + t2 + t3,
            actBareSoilEvap := e, actualET := actualET v + e + owe + (t1 + t2 + t3)\<rparr> \<and>
     f' = (init_frame a aw)\<lparr>openWaterEvap := owe, availWaterInfiltration := awi,
            potBareSoilEvap := pb, saverunofffromGW := s, ta1 := t1, ta2 := t2, ta3 := t3,
            prefFlow := pf, infiltration := infl, directRunoff := dr + s,
            perc1to2 := p12, perc2to3 := p23, perc3toGW := p3g,
            interflow := percolationImp v * (p3g + pf),
            groundwater_recharge := (1 - percolationImp v) * (p3g + pf)\<rparr> \<and>
     tw \<ge> 0 \<and>
     (\<not> paddy_irrigated_land v \<longrightarrow> tw = topwater v \<and> owe = openWaterEvap a \<and> awi = aw) \<and>
     (paddy_irrigated_land v \<and> cropKC v > 0.75 \<longrightarrow>
        owe = min (max 0 (topwater v + aw)) (EWRef v) \<and>
        tw = topwater v + aw - owe \<and> awi = tw) \<and>
     (paddy_irrigated_land v \<and> \<not> cropKC v > 0.75 \<longrightarrow>
        owe = min (max 0 (topwater v)) (EWRef v) \<and> tw = topwater v - owe \<and> awi = tw + aw) \<and>
     a2 + b2 + c2 + s = w1 v + w2 v + w3 v + capillar a \<and>
     a5 + b5 = (a2 - t1 - e) + (b2 - t2) + infl \<and>
     (frozen g v \<longrightarrow> t1 = 0 \<and> t2 = 0 \<and> t3 = 0 \<and> e = 0 \<and> pf = 0 \<and> infl = 0 \<and>
                    p12 = 0 \<and> p23 = 0) \<and>
     (paddy_irrigated_land v \<longrightarrow> pf = 0) \<and>
     (\<not> frozen g v \<longrightarrow> infl \<le> awi - pf) \<and>
     (\<not> paddy_irrigated_land v \<longrightarrow>
        tw5 = tw \<and> dr = max 0 (awi - infl - pf)) \<and>
     (paddy_irrigated_land v \<and> cropKC v > 0.75 \<longrightarrow>
        dr = max 0 (max 0 (tw - infl) - maxtopwater g) \<and>
        tw5 = max 0 (max 0 (tw - infl) - dr)) \<and>
     (paddy_irrigated_land v \<and> \<not> cropKC v > 0.75 \<longrightarrow>
        dr = max 0 (awi - infl) \<and> tw5 = max 0 (max 0 (tw - infl) - dr))"
proof -
  from dynamic_cell_Inr[OF run] obtain aw where
    aw: "avail_water v = Inr aw" and ph: "phases g v (init_frame a aw) = Inr (v', f')"
    by blast
  from phases_Inr[OF ph] obtain v1 f1 v2 f2 v3 f3 v5 f5 v6 f6 v7 f7 where
    p1: "paddy_ponding v (init_frame a aw) = Inr (v1, f1)" and
    p2: "capillar_cascade v1 f1 = Inr (v2, f2)" and
    p3: "transpiration g v2 f2 = Inr (v3, f3)" and
    p5: "infiltration_runoff g (bare_soil_evaporation g v3 f3) f3 = Inr (v5, f5)" and
    p6: "soil_capillary_rise v5 f5 = Inr (v6, f6)" and
    p7: "percolation g v6 f6 = Inr (v7, f7)" and
    p8: "et_and_recharge v7 f7 = (v', f')"
    by blast
  from paddy_ponding_cases[OF p1] obtain tw owe awi pb where
    v1: "v1 = v\<lparr>topwater := tw\<rparr>" and
    f1: "f1 = (init_frame a aw)\<lparr>openWaterEvap := owe, availWaterInfiltration := awi,
                                  potBareSoilEvap := pb\<rparr>" and
    tw0: "tw \<ge> 0" and
    c_np: "\<not> paddy_irrigated_land v \<longrightarrow>
             tw = topwater v \<and> owe = openWaterEvap a \<and> awi = aw" and
    c_fl: "paddy_irrigated_land v \<and> cropKC v > 0.75 \<longrightarrow>
             owe = min (max 0 (topwater v + aw)) (EWRef v) \<and>
             tw = topwater v + aw - owe \<and> awi = tw" and
    c_uf: "paddy_irrigated_land v \<and> \<not> cropKC v > 0.75 \<longrightarrow>
             owe = min (max 0 (topwater v)) (EWRef v) \<and> tw = topwater v - owe \<and>
             awi = tw + aw"
    unfolding init_frame_sel by blast
  have bio1: "bioarea v1" using bio by (simp add: v1 bioarea_def)
  from capillar_cascade_balance[OF p2 bio1] obtain a2 b2 c2 s where
    v2: "v2 = v1\<lparr>w1 := a2, w2 := b2, w3 := c2\<rparr>" and
    f2: "f2 = f1\<lparr>saverunofffromGW := s\<rparr>" and
    e2: "a2 + b2 + c2 + s = w1 v1 + w2 v1 + w3 v1 + capillar f1"
    by blast
  have e2': "a2 + b2 + c2 + s = w1 v + w2 v + w3 v + capillar a"
    using e2 by (simp add: v1 f1 init_frame_sel)
  have bio2: "bioarea v2" using bio by (simp add: v2 v1 bioarea_def)
  from transpiration_bio[OF p3 bio2] obtain t1 t2 t3 where
    v3: "v3 = v2\<lparr>w1 := w1 v2 - t1, w2 := w2 v2 - t2, w3 := w3 v2 - t3,
                  actTransTotal := t1 + t2 + t3\<rparr>" and
    f3: "f3 = f2\<lparr>ta1 := t1, ta2 := t2, ta3 := t3\<rparr>" and
    fr3: "frozen g v2 \<longrightarrow> t1 = 0 \<and> t2 = 0 \<and> t3 = 0"
    by blast
  have bio3: "bioarea v3" using bio by (simp add: v3 v2 v1 bioarea_def)
  from bare_soil_evaporation_bio[OF bio3, of g f3] obtain e where
    v4: "bare_soil_evaporation g v3 f3 = v3\<lparr>actBareSoilEvap := e, w1 := w1 v3 - e\<rparr>" and
    fr4: "frozen g v3 \<longrightarrow> e = 0"
    by blast
  define v4 where "v4 = v3\<lparr>actBareSoilEvap := e, w1 := w1 v3 - e\<rparr>"
  have bio4: "bioarea v4" using bio by (simp add: v4_def v3 v2 v1 bioarea_def)
  have p5': "infiltration_runoff g v4 f3 = Inr (v5, f5)" using p5 by (simp add: v4 v4_def)
  from infiltration_runoff_bio[OF p5' bio4] obtain tw5 a5 b5 pf infl dr where
    v5: "v5 = v4\<lparr>topwater := tw5, w1 := a5, w2 := b5\<rparr>" and
    f5: "f5 = f3\<lparr>prefFlow := pf, infiltration := infl,
                  directRunoff := dr + saverunofffromGW f3\<rparr>" and
    e5: "a5 + b5 = w1 v4 + w2 v4 + infl" and
    fr: "frozen g v4 \<longrightarrow> pf = 0 \<and> infl = 0" and
    pd: "paddy_irrigated_land v4 \<longrightarrow> pf = 0" and
    il: "\<not> frozen g v4 \<longrightarrow> infl \<le> availWaterInfiltration f3 - pf" and
    d_np: "\<not> paddy_irrigated_land v4 \<longrightarrow>
              tw5 = topwater v4 \<and> dr = max 0 (availWaterInfiltration f3 - infl - pf)" and
    d_fl: "paddy_irrigated_land v4 \<and> cropKC v4 > 0.75 \<longrightarrow>
              dr = max 0 (max 0 (topwater v4 - infl) - maxtopwater g) \<and>
              tw5 = max 0 (max 0 (topwater v4 - infl) - dr)" and
    d_uf: "paddy_irrigated_land v4 \<and> \<not> cropKC v4 > 0.75 \<longrightarrow>
              dr = max 0 (availWaterInfiltration f3 - infl) \<and>
              tw5 = max 0 (max 0 (topwater v4 - infl) - dr)"
    by blast
  have sel4: "paddy_irrigated_land v4 = paddy_irrigated_land v" "cropKC v4 = cropKC v"
    "topwater v4 = tw" "availWaterInfiltration f3 = awi" "saverunofffromGW f3 = s"
    "frozen g v4 = frozen g v" "frozen g v3 = frozen g v" "frozen g v2 = frozen g v"
    by (simp_all add: v4_def v3 v2 v1 f3 f2 f1 mask_defs)
  have bio5: "bioarea v5" using bio4 by (simp add: v5 bioarea_def)
  from soil_capillary_rise_bio[OF p6 bio5] obtain r1 r2 where
    v6: "v6 = v5\<lparr>w1 := w1 v5 + r1, w2 := w2 v5 - r1 + r2, w3 := w3 v5 - r2\<rparr>" and
    f6: "f6 = f5"
    by blast
  have bio6: "bioarea v6" using bio5 by (simp add: v6 bioarea_def)
  from percolation_bio[OF p7 bio6] obtain p12 p23 p3g where
    v7: "v7 = v6\<lparr>w1 := w1 v6 - p12, w2 := w2 v6 + p12 - p23, w3 := w3 v6 + p23 - p3g\<rparr>" and
    f7: "f7 = f6\<lparr>perc1to2 := p12, perc2to3 := p23, perc3toGW := p3g\<rparr>" and
    fr7: "frozen g v6 \<longrightarrow> p12 = 0 \<and> p23 = 0"
    by blast
  have sel6: "frozen g v6 = frozen g v"
    by (simp add: v6 v5 v4_def v3 v2 v1 mask_defs)
  have bio7: "bioarea v7" using bio6 by (simp add: v7 bioarea_def)
  from p8 et_and_recharge_bio[OF bio7, of f7] have
    v': "v' = v7\<lparr>actualET := actualET v7 + actBareSoilEvap v7 + openWaterEvap f7
                               + actTransTotal v7\<rparr>" and
    f': "f' = f7\<lparr>interflow := percolationImp v7 * (perc3toGW f7 + prefFlow f7),
                 groundwater_recharge := (1 - percolationImp v7) * (perc3toGW f7 + prefFlow f7)\<rparr>"
    by simp_all
  have V: "v' = v\<lparr>topwater := tw5, w1 := a5 + r1 - p12, w2 := b5 - r1 + r2 + p12 - p23,
            w3 := c2 - t3 - r2 + p23 - p3g, actTransTotal := t1 + t2 + t3,
            actBareSoilEvap := e, actualET := actualET v + e + owe + (t1 + t2 + t3)\<rparr>"
    by (simp add: v' v7 f7 v6 f6 v5 f5 v4_def v3 f3 v2 f2 v1 f1)
  have F: "f' = (init_frame a aw)\<lparr>openWaterEvap := owe, availWaterInfiltration := awi,
            potBareSoilEvap := pb, saverunofffromGW := s, ta1 := t1, ta2 := t2, ta3 := t3,
            prefFlow := pf, infiltration := infl, directRunoff := dr + s,
            perc1to2 := p12, perc2to3 := p23, perc3toGW := p3g,
            interflow := percolationImp v * (p3g + pf),
            groundwater_recharge := (1 - percolationImp v) * (p3g + pf)\<rparr>"
    by (simp add: f' v7 f7 v6 f6 v5 f5 v4_def v3 f3 v2 f2 v1 f1)
  have e5': "a5 + b5 = (a2 - t1 - e) + (b2 - t2) + infl"
    using e5 by (simp add: v4_def v3 v2 v1)
  have FR: "frozen g v \<longrightarrow> t1 = 0 \<and> t2 = 0 \<and> t3 = 0 \<and> e = 0 \<and> pf = 0 \<and> infl = 0 \<and>
                    p12 = 0 \<and> p23 = 0"
    using fr3 fr4 fr fr7 by (simp add: sel4 sel6)
  show ?thesis
    apply (rule exI[of _ aw], rule exI[of _ tw], rule exI[of _ owe], rule exI[of _ awi],
           rule exI[of _ pb], rule exI[of _ a2], rule exI[of _ b2], rule exI[of _ c2],
           rule exI[of _ s], rule exI[of _ t1], rule exI[of _ t2], rule exI[of _ t3],
           rule exI[of _ e], rule exI[of _ tw5], rule exI[of _ a5], rule exI[of _ b5],
           rule exI[of _ pf], rule exI[of _ infl], rule exI[of _ dr], rule exI[of _ r1],
           rule exI[of _ r2], rule exI[of _ p12], rule exI[of _ p23], rule exI[of _ p3g])
    using aw p1[unfolded v1 f1] V F tw0 c_np c_fl c_uf e2' e5' FR pd il d_np d_fl d_uf
    unfolding sel4 by (intro conjI) assumption+
qed

lemma dynamic_cell_nonbio:
  assumes run: "dynamic_cell g v a = Inr (v', f')" and nb: "\<not> bioarea v"
  shows "v' = v \<and> (\<exists>aw. avail_water v = Inr aw \<and> f' = init_frame a aw)"
proof -
  from dynamic_cell_Inr[OF run] obtain aw where
    aw: "avail_water v = Inr aw" and ph: "phases g v (init_frame a aw) = Inr (v', f')"
    by blast
  from phases_Inr[OF ph] obtain v1 f1 v2 f2 v3 f3 v5 f5 v6 f6 v7 f7 where
    p1: "paddy_ponding v (init_frame a aw) = Inr (v1, f1)" and
    p2: "capillar_cascade v1 f1 = Inr (v2, f2)" and
    p3: "transpiration g v2 f2 = Inr (v3, f3)" and
    p5: "infiltration_runoff g (bare_soil_evaporation g v3 f3) f3 = Inr (v5, f5)" and
    p6: "soil_capillary_rise v5 f5 = Inr (v6, f6)" and
    p7: "percolation g v6 f6 = Inr (v7, f7)" and
    p8: "et_and_recharge v7 f7 = (v', f')"
    by blast
  have np: "\<not> paddy_irrigated_land v" using nb paddy_bio by blast
  from paddy_ponding_nonpaddy[OF p1 np] have 1: "v1 = v" "f1 = init_frame a aw" by simp_all
  from p2 nb have 2: "v2 = v" "f2 = init_frame a aw"
    by (simp_all add: 1 capillar_cascade_def split: if_splits)
  from p3 nb have 3: "v3 = v" "f3 = init_frame a aw"
    by (simp_all add: 2 transpiration_def split: if_splits)
  have 4: "bare_soil_evaporation g v f = v" for f
    using nb by (simp add: bare_soil_evaporation_def)
  from p5 nb have 5: "v5 = v" "f5 = init_frame a aw"
    by (simp_all add: 3 4 infiltration_runoff_def split: if_splits)
  from p6 nb have 6: "v6 = v" "f6 = init_frame a aw"
    by (simp_all add: 5 soil_capillary_rise_def split: if_splits)
  from p7 nb have 7: "v7 = v" "f7 = init_frame a aw"
    by (simp_all add: 6 percolation_def split: if_splits)
  from p8 nb have "v' = v" "f' = init_frame a aw"
    by (simp_all add: 7 et_and_recharge_def)
  with aw show ?thesis by blast
qed

lemma all_cells_Inr:
  "all_cells rs = Inr xs \<Longrightarrow> length xs = length rs \<and> (\<forall>i < length rs. rs ! i = Inr (xs ! i))"
proof (induction rs arbitrary: xs)
  case Nil
  then show ?case by simp
next
  case (Cons r rs)
  from Cons.prems obtain x ys where r: "r = Inr x" and ys: "all_cells rs = Inr ys"
    and xs: "xs = x # ys"
    by (auto split: sum.splits)
  from Cons.IH[OF ys] have ih: "length ys = length rs" "\<forall>i < length rs. rs ! i = Inr (ys ! i)"
    by simp_all
  show ?case
  proof (intro conjI allI impI)
    show "length xs = length (r # rs)" using ih xs by simp
  next
    fix i assume "i < length (r # rs)"
    then show "(r # rs) ! i = Inr (xs ! i)"
      using ih r xs by (cases i) simp_all
  qed
qed

lemma all_cells_Inl:
  "Inl e \<in> set rs \<Longrightarrow> all_cells rs = Inl AssertionError"
proof (induction rs)
  case Nil
  then show ?case by simp
next
  case (Cons r rs)
  show ?case
  proof (cases r)
    case (Inl e')
    then show ?thesis by (cases e') simp
  next
    case (Inr x)
    with Cons.prems have "Inl e \<in> set rs" by auto
    from Cons.IH[OF this] Inr show ?thesis by simp
  qed
qed

subsection \<open>The steps of the example cells\<close>

lemma g0_sel:
  "FrostIndexThreshold g0 = 56" "maxtopwater g0 = 1 / 20" "cPrefFlow g0 = 4"
  by (simp_all add: g0_def)

lemma g1_sel:
  "FrostIndexThreshold g1 = 56" "maxtopwater g1 = - (1 / 100)" "cPrefFlow g1 = 4"
  by (simp_all add: g1_def)

lemma cell0_sel:
  "land_use_type cell0 = 0" "w1 cell0 = 1 / 100" "w2 cell0 = 7 / 100" "w3 cell0 = 7 / 100"
  "topwater cell0 = 0" "ws1 cell0 = 1 / 50" "ws2 cell0 = 1 / 10" "ws3 cell0 = 1 / 10"
  "wres1 cell0 = 1 / 200" "wres2 cell0 = 1 / 20" "wres3 cell0 = 1 / 20" "wfc1 cell0 = 3 / 200"
  "wfc2 cell0 = 2 / 25" "wfc3 cell0 = 2 / 25" "wwp1 cell0 = 1 / 100" "wwp2 cell0 = 3 / 50"
  "wwp3 cell0 = 3 / 50" "KSat1 cell0 = 0" "KSat2 cell0 = 0" "KSat3 cell0 = 0"
  "lambda1 cell0 = 1" "lambda2 cell0 = 1" "lambda3 cell0 = 1" "kunSatFC12 cell0 = 1 / 2000"
  "kunSatFC23 cell0 = 1 / 2000" "arnoBeta cell0 = 1" "adjRoot0 cell0 = 1 / 2"
  "adjRoot1 cell0 = 3 / 10" "adjRoot2 cell0 = 1 / 5" "percolationImp cell0 = 1 / 5"
  "cropGroupNumber cell0 = 3" "capriseindex cell0 = 0" "cropKC cell0 = 1"
  "EWRef cell0 = 3 / 1000" "FrostIndex cell0 = 0"
  "natural_available_water_infiltration cell0 = 1 / 250"
  "actual_irrigation_consumption cell0 = 0" "actualET cell0 = 1 / 1000"
  "actTransTotal cell0 = 0" "actBareSoilEvap cell0 = 0"
  by (simp_all add: cell0_def)

lemma frozen_avail:
  "avail_water frozen_cell = Inr (1 / 250)"
  by (simp add:
      avail_water_def frozen_args_def frozen_cell_def cell0_sel g0_sel init_frame_sel mask_defs
      Let_def min_def max_def power_divide)

lemma frozen_frame_eq:
  "init_frame (frozen_args x) (1 / 250) = frozen_frame x"
  by (simp add: frozen_frame_def)

lemma frozen_phase1:
  "paddy_ponding frozen_cell (frozen_frame x) =
     Inr (frozen_cell, frozen_frame x)"
  by (simp add:
      paddy_ponding_def frozen_frame_def frozen_args_def frozen_cell_def cell0_sel g0_sel
      init_frame_sel mask_defs Let_def min_def max_def power_divide)

lemma frozen_phase2:
  "capillar_cascade frozen_cell (frozen_frame x) =
     Inr (frozen_cell2, frozen_frame2 x)"
  by (simp add:
      capillar_cascade_def frozen_cell2_def frozen_frame2_def frozen_frame_def frozen_args_def
      frozen_cell_def cell0_sel g0_sel init_frame_sel mask_defs Let_def min_def max_def
      power_divide)

lemma frozen_phase3:
  "transpiration g0 frozen_cell2 (frozen_frame2 x) =
     Inr (frozen_cell3, frozen_frame3 x)"
  by (simp add:
      transpiration_def TaMax_def depletion_p_def etpotMax_def rws_def wCrit_def
      divideValues_def frozen_cell3_def frozen_frame3_def frozen_frame2_def frozen_cell2_def
      frozen_frame_def frozen_args_def frozen_cell_def cell0_sel g0_sel init_frame_sel
      mask_defs Let_def min_def max_def power_divide)

lemma frozen_phase4:
  "bare_soil_evaporation g0 frozen_cell3 (frozen_frame3 x) =
     frozen_cell4"
  by (simp add:
      bare_soil_evaporation_def frozen_cell4_def frozen_frame3_def frozen_cell3_def
      frozen_frame2_def frozen_cell2_def frozen_frame_def frozen_args_def frozen_cell_def
      cell0_sel g0_sel init_frame_sel mask_defs Let_def min_def max_def power_divide)

lemma frozen_phase5:
  "infiltration_runoff g0 frozen_cell4 (frozen_frame3 x) =
     Inr (frozen_cell5, frozen_frame5 x)"
  by (simp add:
      infiltration_runoff_def potInf_def potInf_expr_def relSat_def satAreaFrac_def store_def
      potBeta_def np_power_def frozen_cell5_def frozen_frame5_def frozen_cell4_def
      frozen_frame3_def frozen_cell3_def frozen_frame2_def frozen_cell2_def frozen_frame_def
      frozen_args_def frozen_cell_def cell0_sel g0_sel init_frame_sel mask_defs Let_def min_def
      max_def power_divide)

lemma frozen_phase6:
  "soil_capillary_rise frozen_cell5 (frozen_frame5 x) =
     Inr (frozen_cell6, frozen_frame5 x)"
  by (simp add:
      soil_capillary_rise_def satTerm_assign_def kUnSat_def np_power_def np_square_def
      frozen_cell6_def frozen_frame5_def frozen_cell5_def frozen_cell4_def frozen_frame3_def
      frozen_cell3_def frozen_frame2_def frozen_cell2_def frozen_frame_def frozen_args_def
      frozen_cell_def cell0_sel g0_sel init_frame_sel mask_defs Let_def min_def max_def
      power_divide)

lemma frozen_perc_init:
  "perc_init frozen_cell6 =
     \<lparr>availWater1 = 1 / 200, availWater2 = 1 / 50, availWater3 = 11 / 500, capLayer2 = 3 / 100, capLayer3 = 7 / 250, wtemp1 = 1 / 100, wtemp2 = 7 / 100, wtemp3 = 9 / 125, kUnSat1 = 0, kUnSat2 = 0, kUnSat3 = 0\<rparr>"
  by (simp add:
      perc_init_def satTerm_clip_def kUnSat_def np_power_def np_square_def frozen_cell6_def
      frozen_frame5_def frozen_cell5_def frozen_cell4_def frozen_frame3_def frozen_cell3_def
      frozen_frame2_def frozen_cell2_def frozen_frame_def frozen_args_def frozen_cell_def
      cell0_sel g0_sel init_frame_sel mask_defs Let_def min_def max_def power_divide)

lemma frozen_substep0:
  "substep frozen_cell6 0
     (\<lparr>availWater1 = 1 / 200, availWater2 = 1 / 50, availWater3 = 11 / 500, capLayer2 = 3 / 100, capLayer3 = 7 / 250, wtemp1 = 1 / 100, wtemp2 = 7 / 100, wtemp3 = 9 / 125, kUnSat1 = 0, kUnSat2 = 0, kUnSat3 = 0\<rparr>,
      (frozen_frame5 x)) =
     (\<lparr>availWater1 = 1 / 200, availWater2 = 1 / 50, availWater3 = 11 / 500, capLayer2 = 3 / 100, capLayer3 = 7 / 250, wtemp1 = 1 / 100, wtemp2 = 7 / 100, wtemp3 = 9 / 125, kUnSat1 = 0, kUnSat2 = 0, kUnSat3 = 0\<rparr>,
      (frozen_frame5 x)\<lparr>perc1to2 := 0, perc2to3 := 0, perc3toGW := 0\<rparr>)"
  by (simp add:
      substep_def DtSub_def NoSubSteps_def satTerm_clip_def kUnSat_def np_power_def
      np_square_def frozen_cell6_def frozen_frame5_def frozen_cell5_def frozen_cell4_def
      frozen_frame3_def frozen_cell3_def frozen_frame2_def frozen_cell2_def frozen_frame_def
      frozen_args_def frozen_cell_def cell0_sel g0_sel init_frame_sel mask_defs Let_def min_def
      max_def power_divide)

lemma frozen_substep1:
  "substep frozen_cell6 (Suc 0)
     (\<lparr>availWater1 = 1 / 200, availWater2 = 1 / 50, availWater3 = 11 / 500, capLayer2 = 3 / 100, capLayer3 = 7 / 250, wtemp1 = 1 / 100, wtemp2 = 7 / 100, wtemp3 = 9 / 125, kUnSat1 = 0, kUnSat2 = 0, kUnSat3 = 0\<rparr>,
      (frozen_frame5 x)\<lparr>perc1to2 := 0, perc2to3 := 0, perc3toGW := 0\<rparr>) =
     (\<lparr>availWater1 = 1 / 200, availWater2 = 1 / 50, availWater3 = 11 / 500, capLayer2 = 3 / 100, capLayer3 = 7 / 250, wtemp1 = 1 / 100, wtemp2 = 7 / 100, wtemp3 = 9 / 125, kUnSat1 = 0, kUnSat2 = 0, kUnSat3 = 0\<rparr>,
      (frozen_frame5 x)\<lparr>perc1to2 := 0, perc2to3 := 0, perc3toGW := 0\<rparr>)"
  by (simp add:
      substep_def DtSub_def NoSubSteps_def satTerm_clip_def kUnSat_def np_power_def
      np_square_def frozen_cell6_def frozen_frame5_def frozen_cell5_def frozen_cell4_def
      frozen_frame3_def frozen_cell3_def frozen_frame2_def frozen_cell2_def frozen_frame_def
      frozen_args_def frozen_cell_def cell0_sel g0_sel init_frame_sel mask_defs Let_def min_def
      max_def power_divide)

lemma frozen_substep2:
  "substep frozen_cell6 (Suc (Suc 0))
     (\<lparr>availWater1 = 1 / 200, availWater2 = 1 / 50, availWater3 = 11 / 500, capLayer2 = 3 / 100, capLayer3 = 7 / 250, wtemp1 = 1 / 100, wtemp2 = 7 / 100, wtemp3 = 9 / 125, kUnSat1 = 0, kUnSat2 = 0, kUnSat3 = 0\<rparr>,
      (frozen_frame5 x)\<lparr>perc1to2 := 0, perc2to3 := 0, perc3toGW := 0\<rparr>) =
     (\<lparr>availWater1 = 1 / 200, availWater2 = 1 / 50, availWater3 = 11 / 500, capLayer2 = 3 / 100, capLayer3 = 7 / 250, wtemp1 = 1 / 100, wtemp2 = 7 / 100, wtemp3 = 9 / 125, kUnSat1 = 0, kUnSat2 = 0, kUnSat3 = 0\<rparr>,
      (frozen_frame5 x)\<lparr>perc1to2 := 0, perc2to3 := 0, perc3toGW := 0\<rparr>)"
  by (simp add:
      substep_def DtSub_def NoSubSteps_def satTerm_clip_def kUnSat_def np_power_def
      np_square_def frozen_cell6_def frozen_frame5_def frozen_cell5_def frozen_cell4_def
      frozen_frame3_def frozen_cell3_def frozen_frame2_def frozen_cell2_def frozen_frame_def
      frozen_args_def frozen_cell_def cell0_sel g0_sel init_frame_sel mask_defs Let_def min_def
      max_def power_divide)

lemma frozen_cell6_sel:
  "land_use_type frozen_cell6 = 0" "w1 frozen_cell6 = 1 / 100" "w2 frozen_cell6 = 7 / 100"
  "w3 frozen_cell6 = 9 / 125" "FrostIndex frozen_cell6 = 100"
  by (simp_all add: frozen_cell6_def frozen_frame5_def frozen_cell5_def frozen_cell4_def frozen_frame3_def frozen_cell3_def frozen_frame2_def frozen_cell2_def frozen_frame_def frozen_args_def frozen_cell_def cell0_sel)

lemma frozen_phase7:
  "percolation g0 frozen_cell6 (frozen_frame5 x) =
     Inr (frozen_cell7, frozen_frame7 x)"
  by (simp add:
      percolation_def NoSubSteps_def numeral_3_eq_3 frozen_perc_init frozen_substep0
      frozen_substep1 frozen_substep2 frozen_cell6_sel frozen_cell7_def frozen_frame7_def
      g0_sel mask_defs Let_def)

lemma frozen_phase8:
  "et_and_recharge frozen_cell7 (frozen_frame7 x) =
     (frozen_cell8 x, frozen_frame8 x)"
  by (simp add:
      et_and_recharge_def frozen_cell8_def frozen_frame8_def frozen_frame7_def frozen_cell7_def
      frozen_cell6_def frozen_frame5_def frozen_cell5_def frozen_cell4_def frozen_frame3_def
      frozen_cell3_def frozen_frame2_def frozen_cell2_def frozen_frame_def frozen_args_def
      frozen_cell_def cell0_sel g0_sel init_frame_sel mask_defs Let_def min_def max_def
      power_divide)

lemma frozen_run:
  "dynamic_cell g0 frozen_cell (frozen_args x) =
     Inr (frozen_cell8 x, frozen_frame8 x)"
  by (simp add: dynamic_cell_def phases_def bind_err_def frozen_frame_eq
      frozen_avail frozen_phase1 frozen_phase2 frozen_phase3 frozen_phase4 frozen_phase5
      frozen_phase6 frozen_phase7 frozen_phase8)

lemmas frozen_defs =
      frozen_frame8_def frozen_cell8_def frozen_frame7_def frozen_cell7_def frozen_cell6_def
      frozen_frame5_def frozen_cell5_def frozen_cell4_def frozen_frame3_def frozen_cell3_def
      frozen_frame2_def frozen_cell2_def frozen_frame_def frozen_args_def frozen_cell_def

lemma caprise_avail:
  "avail_water caprise_cell = Inr 0"
  by (simp add:
      avail_water_def caprise_args_def caprise_cell_def cell0_sel g0_sel init_frame_sel
      mask_defs Let_def min_def max_def power_divide)

lemma caprise_frame_eq:
  "init_frame caprise_args 0 = caprise_frame"
  by (simp add: caprise_frame_def)

lemma caprise_phase1:
  "paddy_ponding caprise_cell caprise_frame =
     Inr (caprise_cell, caprise_frame)"
  by (simp add:
      paddy_ponding_def caprise_frame_def caprise_args_def caprise_cell_def cell0_sel g0_sel
      init_frame_sel mask_defs Let_def min_def max_def power_divide)

lemma caprise_phase2:
  "capillar_cascade caprise_cell caprise_frame =
     Inr (caprise_cell2, caprise_frame2)"
  by (simp add:
      capillar_cascade_def caprise_cell2_def caprise_frame2_def caprise_frame_def
      caprise_args_def caprise_cell_def cell0_sel g0_sel init_frame_sel mask_defs Let_def
      min_def max_def power_divide)

lemma caprise_phase3:
  "transpiration g0 caprise_cell2 caprise_frame2 =
     Inr (caprise_cell3, caprise_frame3)"
  by (simp add:
      transpiration_def TaMax_def depletion_p_def etpotMax_def rws_def wCrit_def
      divideValues_def caprise_cell3_def caprise_frame3_def caprise_frame2_def
      caprise_cell2_def caprise_frame_def caprise_args_def caprise_cell_def cell0_sel g0_sel
      init_frame_sel mask_defs Let_def min_def max_def power_divide)

lemma caprise_phase4:
  "bare_soil_evaporation g0 caprise_cell3 caprise_frame3 =
     caprise_cell4"
  by (simp add:
      bare_soil_evaporation_def caprise_cell4_def caprise_frame3_def caprise_cell3_def
      caprise_frame2_def caprise_cell2_def caprise_frame_def caprise_args_def caprise_cell_def
      cell0_sel g0_sel init_frame_sel mask_defs Let_def min_def max_def power_divide)

lemma caprise_phase5:
  "infiltration_runoff g0 caprise_cell4 caprise_frame3 =
     Inr (caprise_cell5, caprise_frame5)"
  by (simp add:
      infiltration_runoff_def potInf_def potInf_expr_def relSat_def satAreaFrac_def store_def
      potBeta_def np_power_def caprise_cell5_def caprise_frame5_def caprise_cell4_def
      caprise_frame3_def caprise_cell3_def caprise_frame2_def caprise_cell2_def
      caprise_frame_def caprise_args_def caprise_cell_def cell0_sel g0_sel init_frame_sel
      mask_defs Let_def min_def max_def power_divide)

lemma caprise_phase6:
  "soil_capillary_rise caprise_cell5 caprise_frame5 =
     Inr (caprise_cell6, caprise_frame5)"
  by (simp add:
      soil_capillary_rise_def satTerm_assign_def kUnSat_def np_power_def np_square_def
      caprise_cell6_def caprise_frame5_def caprise_cell5_def caprise_cell4_def
      caprise_frame3_def caprise_cell3_def caprise_frame2_def caprise_cell2_def
      caprise_frame_def caprise_args_def caprise_cell_def cell0_sel g0_sel init_frame_sel
      mask_defs Let_def min_def max_def power_divide)

lemma caprise_perc_init:
  "perc_init caprise_cell6 =
     \<lparr>availWater1 = 2 / 25, availWater2 = 0, availWater3 = 0, capLayer2 = 2 / 25, capLayer3 = 1 / 20, wtemp1 = 17 / 200, wtemp2 = 1 / 50, wtemp3 = 1 / 20, kUnSat1 = 0, kUnSat2 = 0, kUnSat3 = 0\<rparr>"
  by (simp add:
      perc_init_def satTerm_clip_def kUnSat_def np_power_def np_square_def caprise_cell6_def
      caprise_frame5_def caprise_cell5_def caprise_cell4_def caprise_frame3_def
      caprise_cell3_def caprise_frame2_def caprise_cell2_def caprise_frame_def caprise_args_def
      caprise_cell_def cell0_sel g0_sel init_frame_sel mask_defs Let_def min_def max_def
      power_divide)

lemma caprise_substep0:
  "substep caprise_cell6 0
     (\<lparr>availWater1 = 2 / 25, availWater2 = 0, availWater3 = 0, capLayer2 = 2 / 25, capLayer3 = 1 / 20, wtemp1 = 17 / 200, wtemp2 = 1 / 50, wtemp3 = 1 / 20, kUnSat1 = 0, kUnSat2 = 0, kUnSat3 = 0\<rparr>,
      caprise_frame5) =
     (\<lparr>availWater1 = 2 / 25, availWater2 = 0, availWater3 = 0, capLayer2 = 1 / 20, capLayer3 = 1 / 20, wtemp1 = 17 / 200, wtemp2 = 1 / 20, wtemp3 = 1 / 20, kUnSat1 = 0, kUnSat2 = 0, kUnSat3 = 0\<rparr>,
      caprise_frame5\<lparr>perc1to2 := 0, perc2to3 := 0, perc3toGW := 0\<rparr>)"
  by (simp add:
      substep_def DtSub_def NoSubSteps_def satTerm_clip_def kUnSat_def np_power_def
      np_square_def caprise_cell6_def caprise_frame5_def caprise_cell5_def caprise_cell4_def
      caprise_frame3_def caprise_cell3_def caprise_frame2_def caprise_cell2_def
      caprise_frame_def caprise_args_def caprise_cell_def cell0_sel g0_sel init_frame_sel
      mask_defs Let_def min_def max_def power_divide)

lemma caprise_substep1:
  "substep caprise_cell6 (Suc 0)
     (\<lparr>availWater1 = 2 / 25, availWater2 = 0, availWater3 = 0, capLayer2 = 1 / 20, capLayer3 = 1 / 20, wtemp1 = 17 / 200, wtemp2 = 1 / 20, wtemp3 = 1 / 20, kUnSat1 = 0, kUnSat2 = 0, kUnSat3 = 0\<rparr>,
      caprise_frame5\<lparr>perc1to2 := 0, perc2to3 := 0, perc3toGW := 0\<rparr>) =
     (\<lparr>availWater1 = 2 / 25, availWater2 = 0, availWater3 = 0, capLayer2 = 1 / 20, capLayer3 = 1 / 20, wtemp1 = 17 / 200, wtemp2 = 1 / 20, wtemp3 = 1 / 20, kUnSat1 = 0, kUnSat2 = 0, kUnSat3 = 0\<rparr>,
      caprise_frame5\<lparr>perc1to2 := 0, perc2to3 := 0, perc3toGW := 0\<rparr>)"
  by (simp add:
      substep_def DtSub_def NoSubSteps_def satTerm_clip_def kUnSat_def np_power_def
      np_square_def caprise_cell6_def caprise_frame5_def caprise_cell5_def caprise_cell4_def
      caprise_frame3_def caprise_cell3_def caprise_frame2_def caprise_cell2_def
      caprise_frame_def caprise_args_def caprise_cell_def cell0_sel g0_sel init_frame_sel
      mask_defs Let_def min_def max_def power_divide)

lemma caprise_substep2:
  "substep caprise_cell6 (Suc (Suc 0))
     (\<lparr>availWater1 = 2 / 25, availWater2 = 0, availWater3 = 0, capLayer2 = 1 / 20, capLayer3 = 1 / 20, wtemp1 = 17 / 200, wtemp2 = 1 / 20, wtemp3 = 1 / 20, kUnSat1 = 0, kUnSat2 = 0, kUnSat3 = 0\<rparr>,
      caprise_frame5\<lparr>perc1to2 := 0, perc2to3 := 0, perc3toGW := 0\<rparr>) =
     (\<lparr>availWater1 = 2 / 25, availWater2 = 0, availWater3 = 0, capLayer2 = 1 / 20, capLayer3 = 1 / 20, wtemp1 = 17 / 200, wtemp2 = 1 / 20, wtemp3 = 1 / 20, kUnSat1 = 0, kUnSat2 = 0, kUnSat3 = 0\<rparr>,
      caprise_frame5\<lparr>perc1to2 := 0, perc2to3 := 0, perc3toGW := 0\<rparr>)"
  by (simp add:
      substep_def DtSub_def NoSubSteps_def satTerm_clip_def kUnSat_def np_power_def
      np_square_def caprise_cell6_def caprise_frame5_def caprise_cell5_def caprise_cell4_def
      caprise_frame3_def caprise_cell3_def caprise_frame2_def caprise_cell2_def
      caprise_frame_def caprise_args_def caprise_cell_def cell0_sel g0_sel init_frame_sel
      mask_defs Let_def min_def max_def power_divide)

lemma caprise_cell6_sel:
  "land_use_type caprise_cell6 = 0" "w1 caprise_cell6 = 17 / 200" "w2 caprise_cell6 = 1 / 50"
  "w3 caprise_cell6 = 1 / 20" "FrostIndex caprise_cell6 = 0"
  by (simp_all add: caprise_cell6_def caprise_frame5_def caprise_cell5_def caprise_cell4_def caprise_frame3_def caprise_cell3_def caprise_frame2_def caprise_cell2_def caprise_frame_def caprise_args_def caprise_cell_def cell0_sel)

lemma caprise_phase7:
  "percolation g0 caprise_cell6 caprise_frame5 =
     Inr (caprise_cell7, caprise_frame7)"
  by (simp add:
      percolation_def NoSubSteps_def numeral_3_eq_3 caprise_perc_init caprise_substep0
      caprise_substep1 caprise_substep2 caprise_cell6_sel caprise_cell7_def caprise_frame7_def
      g0_sel mask_defs Let_def)

lemma caprise_phase8:
  "et_and_recharge caprise_cell7 caprise_frame7 =
     (caprise_cell8, caprise_frame8)"
  by (simp add:
      et_and_recharge_def caprise_cell8_def caprise_frame8_def caprise_frame7_def
      caprise_cell7_def caprise_cell6_def caprise_frame5_def caprise_cell5_def
      caprise_cell4_def caprise_frame3_def caprise_cell3_def caprise_frame2_def
      caprise_cell2_def caprise_frame_def caprise_args_def caprise_cell_def cell0_sel g0_sel
      init_frame_sel mask_defs Let_def min_def max_def power_divide)

lemma caprise_run:
  "dynamic_cell g0 caprise_cell caprise_args =
     Inr (caprise_cell8, caprise_frame8)"
  by (simp add: dynamic_cell_def phases_def bind_err_def caprise_frame_eq
      caprise_avail caprise_phase1 caprise_phase2 caprise_phase3 caprise_phase4 caprise_phase5
      caprise_phase6 caprise_phase7 caprise_phase8)

lemmas caprise_defs =
      caprise_frame8_def caprise_cell8_def caprise_frame7_def caprise_cell7_def
      caprise_cell6_def caprise_frame5_def caprise_cell5_def caprise_cell4_def
      caprise_frame3_def caprise_cell3_def caprise_frame2_def caprise_cell2_def
      caprise_frame_def caprise_args_def caprise_cell_def

lemma flooded_avail:
  "avail_water flooded_cell = Inr (1 / 50)"
  by (simp add:
      avail_water_def flooded_args_def flooded_cell_def cell0_sel g0_sel init_frame_sel
      mask_defs Let_def min_def max_def power_divide)

lemma flooded_frame_eq:
  "init_frame flooded_args (1 / 50) = flooded_frame"
  by (simp add: flooded_frame_def)

lemma flooded_phase1:
  "paddy_ponding flooded_cell flooded_frame =
     Inr (flooded_cell1, flooded_frame1)"
  by (simp add:
      paddy_ponding_def flooded_cell1_def flooded_frame1_def flooded_frame_def flooded_args_def
      flooded_cell_def cell0_sel g0_sel init_frame_sel mask_defs Let_def min_def max_def
      power_divide)

lemma flooded_phase2:
  "capillar_cascade flooded_cell1 flooded_frame1 =
     Inr (flooded_cell2, flooded_frame2)"
  by (simp add:
      capillar_cascade_def flooded_cell2_def flooded_frame2_def flooded_frame1_def
      flooded_cell1_def flooded_frame_def flooded_args_def flooded_cell_def cell0_sel g0_sel
      init_frame_sel mask_defs Let_def min_def max_def power_divide)

lemma flooded_phase3:
  "transpiration g0 flooded_cell2 flooded_frame2 =
     Inr (flooded_cell3, flooded_frame3)"
  by (simp add:
      transpiration_def TaMax_def depletion_p_def etpotMax_def rws_def wCrit_def
      divideValues_def flooded_cell3_def flooded_frame3_def flooded_frame2_def
      flooded_cell2_def flooded_frame1_def flooded_cell1_def flooded_frame_def flooded_args_def
      flooded_cell_def cell0_sel g0_sel init_frame_sel mask_defs Let_def min_def max_def
      power_divide)

lemma flooded_phase4:
  "bare_soil_evaporation g0 flooded_cell3 flooded_frame3 =
     flooded_cell4"
  by (simp add:
      bare_soil_evaporation_def flooded_cell4_def flooded_frame3_def flooded_cell3_def
      flooded_frame2_def flooded_cell2_def flooded_frame1_def flooded_cell1_def
      flooded_frame_def flooded_args_def flooded_cell_def cell0_sel g0_sel init_frame_sel
      mask_defs Let_def min_def max_def power_divide)

lemma flooded_phase5:
  "infiltration_runoff g0 flooded_cell4 flooded_frame3 =
     Inr (flooded_cell5, flooded_frame5)"
  by (simp add:
      infiltration_runoff_def potInf_def potInf_expr_def relSat_def satAreaFrac_def store_def
      potBeta_def np_power_def flooded_cell5_def flooded_frame5_def flooded_cell4_def
      flooded_frame3_def flooded_cell3_def flooded_frame2_def flooded_cell2_def
      flooded_frame1_def flooded_cell1_def flooded_frame_def flooded_args_def flooded_cell_def
      cell0_sel g0_sel init_frame_sel mask_defs Let_def min_def max_def power_divide)

lemma flooded_phase6:
  "soil_capillary_rise flooded_cell5 flooded_frame5 =
     Inr (flooded_cell6, flooded_frame5)"
  by (simp add:
      soil_capillary_rise_def satTerm_assign_def kUnSat_def np_power_def np_square_def
      flooded_cell6_def flooded_frame5_def flooded_cell5_def flooded_cell4_def
      flooded_frame3_def flooded_cell3_def flooded_frame2_def flooded_cell2_def
      flooded_frame1_def flooded_cell1_def flooded_frame_def flooded_args_def flooded_cell_def
      cell0_sel g0_sel init_frame_sel mask_defs Let_def min_def max_def power_divide)

lemma flooded_perc_init:
  "perc_init flooded_cell6 =
     \<lparr>availWater1 = 3 / 200, availWater2 = 1 / 20, availWater3 = 1 / 20, capLayer2 = 0, capLayer3 = 0, wtemp1 = 1 / 50, wtemp2 = 1 / 10, wtemp3 = 1 / 10, kUnSat1 = 0, kUnSat2 = 0, kUnSat3 = 0\<rparr>"
  by (simp add:
      perc_init_def satTerm_clip_def kUnSat_def np_power_def np_square_def flooded_cell6_def
      flooded_frame5_def flooded_cell5_def flooded_cell4_def flooded_frame3_def
      flooded_cell3_def flooded_frame2_def flooded_cell2_def flooded_frame1_def
      flooded_cell1_def flooded_frame_def flooded_args_def flooded_cell_def cell0_sel g0_sel
      init_frame_sel mask_defs Let_def min_def max_def power_divide)

lemma flooded_substep0:
  "substep flooded_cell6 0
     (\<lparr>availWater1 = 3 / 200, availWater2 = 1 / 20, availWater3 = 1 / 20, capLayer2 = 0, capLayer3 = 0, wtemp1 = 1 / 50, wtemp2 = 1 / 10, wtemp3 = 1 / 10, kUnSat1 = 0, kUnSat2 = 0, kUnSat3 = 0\<rparr>,
      flooded_frame5) =
     (\<lparr>availWater1 = 3 / 200, availWater2 = 1 / 20, availWater3 = 1 / 20, capLayer2 = 0, capLayer3 = 0, wtemp1 = 1 / 50, wtemp2 = 1 / 10, wtemp3 = 1 / 10, kUnSat1 = 0, kUnSat2 = 0, kUnSat3 = 0\<rparr>,
      flooded_frame5\<lparr>perc1to2 := 0, perc2to3 := 0, perc3toGW := 0\<rparr>)"
  by (simp add:
      substep_def DtSub_def NoSubSteps_def satTerm_clip_def kUnSat_def np_power_def
      np_square_def flooded_cell6_def flooded_frame5_def flooded_cell5_def flooded_cell4_def
      flooded_frame3_def flooded_cell3_def flooded_frame2_def flooded_cell2_def
      flooded_frame1_def flooded_cell1_def flooded_frame_def flooded_args_def flooded_cell_def
      cell0_sel g0_sel init_frame_sel mask_defs Let_def min_def max_def power_divide)

lemma flooded_substep1:
  "substep flooded_cell6 (Suc 0)
     (\<lparr>availWater1 = 3 / 200, availWater2 = 1 / 20, availWater3 = 1 / 20, capLayer2 = 0, capLayer3 = 0, wtemp1 = 1 / 50, wtemp2 = 1 / 10, wtemp3 = 1 / 10, kUnSat1 = 0, kUnSat2 = 0, kUnSat3 = 0\<rparr>,
      flooded_frame5\<lparr>perc1to2 := 0, perc2to3 := 0, perc3toGW := 0\<rparr>) =
     (\<lparr>availWater1 = 3 / 200, availWater2 = 1 / 20, availWater3 = 1 / 20, capLayer2 = 0, capLayer3 = 0, wtemp1 = 1 / 50, wtemp2 = 1 / 10, wtemp3 = 1 / 10, kUnSat1 = 0, kUnSat2 = 0, kUnSat3 = 0\<rparr>,
      flooded_frame5\<lparr>perc1to2 := 0, perc2to3 := 0, perc3toGW := 0\<rparr>)"
  by (simp add:
      substep_def DtSub_def NoSubSteps_def satTerm_clip_def kUnSat_def np_power_def
      np_square_def flooded_cell6_def flooded_frame5_def flooded_cell5_def flooded_cell4_def
      flooded_frame3_def flooded_cell3_def flooded_frame2_def flooded_cell2_def
      flooded_frame1_def flooded_cell1_def flooded_frame_def flooded_args_def flooded_cell_def
      cell0_sel g0_sel init_frame_sel mask_defs Let_def min_def max_def power_divide)

lemma flooded_substep2:
  "substep flooded_cell6 (Suc (Suc 0))
     (\<lparr>availWater1 = 3 / 200, availWater2 = 1 / 20, availWater3 = 1 / 20, capLayer2 = 0, capLayer3 = 0, wtemp1 = 1 / 50, wtemp2 = 1 / 10, wtemp3 = 1 / 10, kUnSat1 = 0, kUnSat2 = 0, kUnSat3 = 0\<rparr>,
      flooded_frame5\<lparr>perc1to2 := 0, perc2to3 := 0, perc3toGW := 0\<rparr>) =
     (\<lparr>availWater1 = 3 / 200, availWater2 = 1 / 20, availWater3 = 1 / 20, capLayer2 = 0, capLayer3 = 0, wtemp1 = 1 / 50, wtemp2 = 1 / 10, wtemp3 = 1 / 10, kUnSat1 = 0, kUnSat2 = 0, kUnSat3 = 0\<rparr>,
      flooded_frame5\<lparr>perc1to2 := 0, perc2to3 := 0, perc3toGW := 0\<rparr>)"
  by (simp add:
      substep_def DtSub_def NoSubSteps_def satTerm_clip_def kUnSat_def np_power_def
      np_square_def flooded_cell6_def flooded_frame5_def flooded_cell5_def flooded_cell4_def
      flooded_frame3_def flooded_cell3_def flooded_frame2_def flooded_cell2_def
      flooded_frame1_def flooded_cell1_def flooded_frame_def flooded_args_def flooded_cell_def
      cell0_sel g0_sel init_frame_sel mask_defs Let_def min_def max_def power_divide)

lemma flooded_cell6_sel:
  "land_use_type flooded_cell6 = 2" "w1 flooded_cell6 = 1 / 50" "w2 flooded_cell6 = 1 / 10"
  "w3 flooded_cell6 = 1 / 10" "FrostIndex flooded_cell6 = 0"
  by (simp_all add: flooded_cell6_def flooded_frame5_def flooded_cell5_def flooded_cell4_def flooded_frame3_def flooded_cell3_def flooded_frame2_def flooded_cell2_def flooded_frame1_def flooded_cell1_def flooded_frame_def flooded_args_def flooded_cell_def cell0_sel)

lemma flooded_phase7:
  "percolation g0 flooded_cell6 flooded_frame5 =
     Inr (flooded_cell7, flooded_frame7)"
  by (simp add:
      percolation_def NoSubSteps_def numeral_3_eq_3 flooded_perc_init flooded_substep0
      flooded_substep1 flooded_substep2 flooded_cell6_sel flooded_cell7_def flooded_frame7_def
      g0_sel mask_defs Let_def)

lemma flooded_phase8:
  "et_and_recharge flooded_cell7 flooded_frame7 =
     (flooded_cell8, flooded_frame8)"
  by (simp add:
      et_and_recharge_def flooded_cell8_def flooded_frame8_def flooded_frame7_def
      flooded_cell7_def flooded_cell6_def flooded_frame5_def flooded_cell5_def
      flooded_cell4_def flooded_frame3_def flooded_cell3_def flooded_frame2_def
      flooded_cell2_def flooded_frame1_def flooded_cell1_def flooded_frame_def flooded_args_def
      flooded_cell_def cell0_sel g0_sel init_frame_sel mask_defs Let_def min_def max_def
      power_divide)

lemma flooded_run:
  "dynamic_cell g0 flooded_cell flooded_args =
     Inr (flooded_cell8, flooded_frame8)"
  by (simp add: dynamic_cell_def phases_def bind_err_def flooded_frame_eq
      flooded_avail flooded_phase1 flooded_phase2 flooded_phase3 flooded_phase4 flooded_phase5
      flooded_phase6 flooded_phase7 flooded_phase8)

lemmas flooded_defs =
      flooded_frame8_def flooded_cell8_def flooded_frame7_def flooded_cell7_def
      flooded_cell6_def flooded_frame5_def flooded_cell5_def flooded_cell4_def
      flooded_frame3_def flooded_cell3_def flooded_frame2_def flooded_cell2_def
      flooded_frame1_def flooded_cell1_def flooded_frame_def flooded_args_def flooded_cell_def

lemma negmax_avail:
  "avail_water negmax_cell = Inr (1 / 50)"
  by (simp add:
      avail_water_def negmax_args_def negmax_cell_def cell0_sel g1_sel init_frame_sel mask_defs
      Let_def min_def max_def power_divide)

lemma negmax_frame_eq:
  "init_frame negmax_args (1 / 50) = negmax_frame"
  by (simp add: negmax_frame_def)

lemma negmax_phase1:
  "paddy_ponding negmax_cell negmax_frame =
     Inr (negmax_cell1, negmax_frame1)"
  by (simp add:
      paddy_ponding_def negmax_cell1_def negmax_frame1_def negmax_frame_def negmax_args_def
      negmax_cell_def cell0_sel g1_sel init_frame_sel mask_defs Let_def min_def max_def
      power_divide)

lemma negmax_phase2:
  "capillar_cascade negmax_cell1 negmax_frame1 =
     Inr (negmax_cell2, negmax_frame2)"
  by (simp add:
      capillar_cascade_def negmax_cell2_def negmax_frame2_def negmax_frame1_def
      negmax_cell1_def negmax_frame_def negmax_args_def negmax_cell_def cell0_sel g1_sel
      init_frame_sel mask_defs Let_def min_def max_def power_divide)

lemma negmax_phase3:
  "transpiration g1 negmax_cell2 negmax_frame2 =
     Inr (negmax_cell3, negmax_frame3)"
  by (simp add:
      transpiration_def TaMax_def depletion_p_def etpotMax_def rws_def wCrit_def
      divideValues_def negmax_cell3_def negmax_frame3_def negmax_frame2_def negmax_cell2_def
      negmax_frame1_def negmax_cell1_def negmax_frame_def negmax_args_def negmax_cell_def
      cell0_sel g1_sel init_frame_sel mask_defs Let_def min_def max_def power_divide)

lemma negmax_phase4:
  "bare_soil_evaporation g1 negmax_cell3 negmax_frame3 =
     negmax_cell4"
  by (simp add:
      bare_soil_evaporation_def negmax_cell4_def negmax_frame3_def negmax_cell3_def
      negmax_frame2_def negmax_cell2_def negmax_frame1_def negmax_cell1_def negmax_frame_def
      negmax_args_def negmax_cell_def cell0_sel g1_sel init_frame_sel mask_defs Let_def min_def
      max_def power_divide)

lemma negmax_phase5:
  "infiltration_runoff g1 negmax_cell4 negmax_frame3 =
     Inr (negmax_cell5, negmax_frame5)"
  by (simp add:
      infiltration_runoff_def potInf_def potInf_expr_def relSat_def satAreaFrac_def store_def
      potBeta_def np_power_def negmax_cell5_def negmax_frame5_def negmax_cell4_def
      negmax_frame3_def negmax_cell3_def negmax_frame2_def negmax_cell2_def negmax_frame1_def
      negmax_cell1_def negmax_frame_def negmax_args_def negmax_cell_def cell0_sel g1_sel
      init_frame_sel mask_defs Let_def min_def max_def power_divide)

lemma negmax_phase6:
  "soil_capillary_rise negmax_cell5 negmax_frame5 =
     Inr (negmax_cell6, negmax_frame5)"
  by (simp add:
      soil_capillary_rise_def satTerm_assign_def kUnSat_def np_power_def np_square_def
      negmax_cell6_def negmax_frame5_def negmax_cell5_def negmax_cell4_def negmax_frame3_def
      negmax_cell3_def negmax_frame2_def negmax_cell2_def negmax_frame1_def negmax_cell1_def
      negmax_frame_def negmax_args_def negmax_cell_def cell0_sel g1_sel init_frame_sel
      mask_defs Let_def min_def max_def power_divide)

lemma negmax_perc_init:
  "perc_init negmax_cell6 =
     \<lparr>availWater1 = 3 / 200, availWater2 = 1 / 20, availWater3 = 1 / 20, capLayer2 = 0, capLayer3 = 0, wtemp1 = 1 / 50, wtemp2 = 1 / 10, wtemp3 = 1 / 10, kUnSat1 = 0, kUnSat2 = 0, kUnSat3 = 0\<rparr>"
  by (simp add:
      perc_init_def satTerm_clip_def kUnSat_def np_power_def np_square_def negmax_cell6_def
      negmax_frame5_def negmax_cell5_def negmax_cell4_def negmax_frame3_def negmax_cell3_def
      negmax_frame2_def negmax_cell2_def negmax_frame1_def negmax_cell1_def negmax_frame_def
      negmax_args_def negmax_cell_def cell0_sel g1_sel init_frame_sel mask_defs Let_def min_def
      max_def power_divide)

lemma negmax_substep0:
  "substep negmax_cell6 0
     (\<lparr>availWater1 = 3 / 200, availWater2 = 1 / 20, availWater3 = 1 / 20, capLayer2 = 0, capLayer3 = 0, wtemp1 = 1 / 50, wtemp2 = 1 / 10, wtemp3 = 1 / 10, kUnSat1 = 0, kUnSat2 = 0, kUnSat3 = 0\<rparr>,
      negmax_frame5) =
     (\<lparr>availWater1 = 3 / 200, availWater2 = 1 / 20, availWater3 = 1 / 20, capLayer2 = 0, capLayer3 = 0, wtemp1 = 1 / 50, wtemp2 = 1 / 10, wtemp3 = 1 / 10, kUnSat1 = 0, kUnSat2 = 0, kUnSat3 = 0\<rparr>,
      negmax_frame5\<lparr>perc1to2 := 0, perc2to3 := 0, perc3toGW := 0\<rparr>)"
  by (simp add:
      substep_def DtSub_def NoSubSteps_def satTerm_clip_def kUnSat_def np_power_def
      np_square_def negmax_cell6_def negmax_frame5_def negmax_cell5_def negmax_cell4_def
      negmax_frame3_def negmax_cell3_def negmax_frame2_def negmax_cell2_def negmax_frame1_def
      negmax_cell1_def negmax_frame_def negmax_args_def negmax_cell_def cell0_sel g1_sel
      init_frame_sel mask_defs Let_def min_def max_def power_divide)

lemma negmax_substep1:
  "substep negmax_cell6 (Suc 0)
     (\<lparr>availWater1 = 3 / 200, availWater2 = 1 / 20, availWater3 = 1 / 20, capLayer2 = 0, capLayer3 = 0, wtemp1 = 1 / 50, wtemp2 = 1 / 10, wtemp3 = 1 / 10, kUnSat1 = 0, kUnSat2 = 0, kUnSat3 = 0\<rparr>,
      negmax_frame5\<lparr>perc1to2 := 0, perc2to3 := 0, perc3toGW := 0\<rparr>) =
     (\<lparr>availWater1 = 3 / 200, availWater2 = 1 / 20, availWater3 = 1 / 20, capLayer2 = 0, capLayer3 = 0, wtemp1 = 1 / 50, wtemp2 = 1 / 10, wtemp3 = 1 / 10, kUnSat1 = 0, kUnSat2 = 0, kUnSat3 = 0\<rparr>,
      negmax_frame5\<lparr>perc1to2 := 0, perc2to3 := 0, perc3toGW := 0\<rparr>)"
  by (simp add:
      substep_def DtSub_def NoSubSteps_def satTerm_clip_def kUnSat_def np_power_def
      np_square_def negmax_cell6_def negmax_frame5_def negmax_cell5_def negmax_cell4_def
      negmax_frame3_def negmax_cell3_def negmax_frame2_def negmax_cell2_def negmax_frame1_def
      negmax_cell1_def negmax_frame_def negmax_args_def negmax_cell_def cell0_sel g1_sel
      init_frame_sel mask_defs Let_def min_def max_def power_divide)

lemma negmax_substep2:
  "substep negmax_cell6 (Suc (Suc 0))
     (\<lparr>availWater1 = 3 / 200, availWater2 = 1 / 20, availWater3 = 1 / 20, capLayer2 = 0, capLayer3 = 0, wtemp1 = 1 / 50, wtemp2 = 1 / 10, wtemp3 = 1 / 10, kUnSat1 = 0, kUnSat2 = 0, kUnSat3 = 0\<rparr>,
      negmax_frame5\<lparr>perc1to2 := 0, perc2to3 := 0, perc3toGW := 0\<rparr>) =
     (\<lparr>availWater1 = 3 / 200, availWater2 = 1 / 20, availWater3 = 1 / 20, capLayer2 = 0, capLayer3 = 0, wtemp1 = 1 / 50, wtemp2 = 1 / 10, wtemp3 = 1 / 10, kUnSat1 = 0, kUnSat2 = 0, kUnSat3 = 0\<rparr>,
      negmax_frame5\<lparr>perc1to2 := 0, perc2to3 := 0, perc3toGW := 0\<rparr>)"
  by (simp add:
      substep_def DtSub_def NoSubSteps_def satTerm_clip_def kUnSat_def np_power_def
      np_square_def negmax_cell6_def negmax_frame5_def negmax_cell5_def negmax_cell4_def
      negmax_frame3_def negmax_cell3_def negmax_frame2_def negmax_cell2_def negmax_frame1_def
      negmax_cell1_def negmax_frame_def negmax_args_def negmax_cell_def cell0_sel g1_sel
      init_frame_sel mask_defs Let_def min_def max_def power_divide)

lemma negmax_cell6_sel:
  "land_use_type negmax_cell6 = 2" "w1 negmax_cell6 = 1 / 50" "w2 negmax_cell6 = 1 / 10"
  "w3 negmax_cell6 = 1 / 10" "FrostIndex negmax_cell6 = 0"
  by (simp_all add: negmax_cell6_def negmax_frame5_def negmax_cell5_def negmax_cell4_def negmax_frame3_def negmax_cell3_def negmax_frame2_def negmax_cell2_def negmax_frame1_def negmax_cell1_def negmax_frame_def negmax_args_def negmax_cell_def cell0_sel)

lemma negmax_phase7:
  "percolation g1 negmax_cell6 negmax_frame5 =
     Inr (negmax_cell7, negmax_frame7)"
  by (simp add:
      percolation_def NoSubSteps_def numeral_3_eq_3 negmax_perc_init negmax_substep0
      negmax_substep1 negmax_substep2 negmax_cell6_sel negmax_cell7_def negmax_frame7_def
      g1_sel mask_defs Let_def)

lemma negmax_phase8:
  "et_and_recharge negmax_cell7 negmax_frame7 =
     (negmax_cell8, negmax_frame8)"
  by (simp add:
      et_and_recharge_def negmax_cell8_def negmax_frame8_def negmax_frame7_def negmax_cell7_def
      negmax_cell6_def negmax_frame5_def negmax_cell5_def negmax_cell4_def negmax_frame3_def
      negmax_cell3_def negmax_frame2_def negmax_cell2_def negmax_frame1_def negmax_cell1_def
      negmax_frame_def negmax_args_def negmax_cell_def cell0_sel g1_sel init_frame_sel
      mask_defs Let_def min_def max_def power_divide)

lemma negmax_run:
  "dynamic_cell g1 negmax_cell negmax_args =
     Inr (negmax_cell8, negmax_frame8)"
  by (simp add: dynamic_cell_def phases_def bind_err_def negmax_frame_eq
      negmax_avail negmax_phase1 negmax_phase2 negmax_phase3 negmax_phase4 negmax_phase5
      negmax_phase6 negmax_phase7 negmax_phase8)

lemmas negmax_defs =
      negmax_frame8_def negmax_cell8_def negmax_frame7_def negmax_cell7_def negmax_cell6_def
      negmax_frame5_def negmax_cell5_def negmax_cell4_def negmax_frame3_def negmax_cell3_def
      negmax_frame2_def negmax_cell2_def negmax_frame1_def negmax_cell1_def negmax_frame_def
      negmax_args_def negmax_cell_def

lemma unflooded_avail:
  "avail_water unflooded_cell = Inr (1 / 50)"
  by (simp add:
      avail_water_def unflooded_args_def unflooded_cell_def cell0_sel g0_sel init_frame_sel
      mask_defs Let_def min_def max_def power_divide)

lemma unflooded_frame_eq:
  "init_frame unflooded_args (1 / 50) = unflooded_frame"
  by (simp add: unflooded_frame_def)

lemma unflooded_phase1:
  "paddy_ponding unflooded_cell unflooded_frame =
     Inr (unflooded_cell1, unflooded_frame1)"
  by (simp add:
      paddy_ponding_def unflooded_cell1_def unflooded_frame1_def unflooded_frame_def
      unflooded_args_def unflooded_cell_def cell0_sel g0_sel init_frame_sel mask_defs Let_def
      min_def max_def power_divide)

lemma unflooded_phase2:
  "capillar_cascade unflooded_cell1 unflooded_frame1 =
     Inr (unflooded_cell2, unflooded_frame2)"
  by (simp add:
      capillar_cascade_def unflooded_cell2_def unflooded_frame2_def unflooded_frame1_def
      unflooded_cell1_def unflooded_frame_def unflooded_args_def unflooded_cell_def cell0_sel
      g0_sel init_frame_sel mask_defs Let_def min_def max_def power_divide)

lemma unflooded_phase3:
  "transpiration g0 unflooded_cell2 unflooded_frame2 =
     Inr (unflooded_cell3, unflooded_frame3)"
  by (simp add:
      transpiration_def TaMax_def depletion_p_def etpotMax_def rws_def wCrit_def
      divideValues_def unflooded_cell3_def unflooded_frame3_def unflooded_frame2_def
      unflooded_cell2_def unflooded_frame1_def unflooded_cell1_def unflooded_frame_def
      unflooded_args_def unflooded_cell_def cell0_sel g0_sel init_frame_sel mask_defs Let_def
      min_def max_def power_divide)

lemma unflooded_phase4:
  "bare_soil_evaporation g0 unflooded_cell3 unflooded_frame3 =
     unflooded_cell4"
  by (simp add:
      bare_soil_evaporation_def unflooded_cell4_def unflooded_frame3_def unflooded_cell3_def
      unflooded_frame2_def unflooded_cell2_def unflooded_frame1_def unflooded_cell1_def
      unflooded_frame_def unflooded_args_def unflooded_cell_def cell0_sel g0_sel init_frame_sel
      mask_defs Let_def min_def max_def power_divide)

lemma unflooded_phase5:
  "infiltration_runoff g0 unflooded_cell4 unflooded_frame3 =
     Inr (unflooded_cell5, unflooded_frame5)"
  by (simp add:
      infiltration_runoff_def potInf_def potInf_expr_def relSat_def satAreaFrac_def store_def
      potBeta_def np_power_def unflooded_cell5_def unflooded_frame5_def unflooded_cell4_def
      unflooded_frame3_def unflooded_cell3_def unflooded_frame2_def unflooded_cell2_def
      unflooded_frame1_def unflooded_cell1_def unflooded_frame_def unflooded_args_def
      unflooded_cell_def cell0_sel g0_sel init_frame_sel mask_defs Let_def min_def max_def
      power_divide)

lemma unflooded_phase6:
  "soil_capillary_rise unflooded_cell5 unflooded_frame5 =
     Inr (unflooded_cell6, unflooded_frame5)"
  by (simp add:
      soil_capillary_rise_def satTerm_assign_def kUnSat_def np_power_def np_square_def
      unflooded_cell6_def unflooded_frame5_def unflooded_cell5_def unflooded_cell4_def
      unflooded_frame3_def unflooded_cell3_def unflooded_frame2_def unflooded_cell2_def
      unflooded_frame1_def unflooded_cell1_def unflooded_frame_def unflooded_args_def
      unflooded_cell_def cell0_sel g0_sel init_frame_sel mask_defs Let_def min_def max_def
      power_divide)

lemma unflooded_perc_init:
  "perc_init unflooded_cell6 =
     \<lparr>availWater1 = 7 / 600, availWater2 = 1 / 50, availWater3 = 1 / 50, capLayer2 = 3 / 100, capLayer3 = 3 / 100, wtemp1 = 1 / 60, wtemp2 = 7 / 100, wtemp3 = 7 / 100, kUnSat1 = 0, kUnSat2 = 0, kUnSat3 = 0\<rparr>"
  by (simp add:
      perc_init_def satTerm_clip_def kUnSat_def np_power_def np_square_def unflooded_cell6_def
      unflooded_frame5_def unflooded_cell5_def unflooded_cell4_def unflooded_frame3_def
      unflooded_cell3_def unflooded_frame2_def unflooded_cell2_def unflooded_frame1_def
      unflooded_cell1_def unflooded_frame_def unflooded_args_def unflooded_cell_def cell0_sel
      g0_sel init_frame_sel mask_defs Let_def min_def max_def power_divide)

lemma unflooded_substep0:
  "substep unflooded_cell6 0
     (\<lparr>availWater1 = 7 / 600, availWater2 = 1 / 50, availWater3 = 1 / 50, capLayer2 = 3 / 100, capLayer3 = 3 / 100, wtemp1 = 1 / 60, wtemp2 = 7 / 100, wtemp3 = 7 / 100, kUnSat1 = 0, kUnSat2 = 0, kUnSat3 = 0\<rparr>,
      unflooded_frame5) =
     (\<lparr>availWater1 = 7 / 600, availWater2 = 1 / 50, availWater3 = 1 / 50, capLayer2 = 3 / 100, capLayer3 = 3 / 100, wtemp1 = 1 / 60, wtemp2 = 7 / 100, wtemp3 = 7 / 100, kUnSat1 = 0, kUnSat2 = 0, kUnSat3 = 0\<rparr>,
      unflooded_frame5\<lparr>perc1to2 := 0, perc2to3 := 0, perc3toGW := 0\<rparr>)"
  by (simp add:
      substep_def DtSub_def NoSubSteps_def satTerm_clip_def kUnSat_def np_power_def
      np_square_def unflooded_cell6_def unflooded_frame5_def unflooded_cell5_def
      unflooded_cell4_def unflooded_frame3_def unflooded_cell3_def unflooded_frame2_def
      unflooded_cell2_def unflooded_frame1_def unflooded_cell1_def unflooded_frame_def
      unflooded_args_def unflooded_cell_def cell0_sel g0_sel init_frame_sel mask_defs Let_def
      min_def max_def power_divide)

lemma unflooded_substep1:
  "substep unflooded_cell6 (Suc 0)
     (\<lparr>availWater1 = 7 / 600, availWater2 = 1 / 50, availWater3 = 1 / 50, capLayer2 = 3 / 100, capLayer3 = 3 / 100, wtemp1 = 1 / 60, wtemp2 = 7 / 100, wtemp3 = 7 / 100, kUnSat1 = 0, kUnSat2 = 0, kUnSat3 = 0\<rparr>,
      unflooded_frame5\<lparr>perc1to2 := 0, perc2to3 := 0, perc3toGW := 0\<rparr>) =
     (\<lparr>availWater1 = 7 / 600, availWater2 = 1 / 50, availWater3 = 1 / 50, capLayer2 = 3 / 100, capLayer3 = 3 / 100, wtemp1 = 1 / 60, wtemp2 = 7 / 100, wtemp3 = 7 / 100, kUnSat1 = 0, kUnSat2 = 0, kUnSat3 = 0\<rparr>,
      unflooded_frame5\<lparr>perc1to2 := 0, perc2to3 := 0, perc3toGW := 0\<rparr>)"
  by (simp add:
      substep_def DtSub_def NoSubSteps_def satTerm_clip_def kUnSat_def np_power_def
      np_square_def unflooded_cell6_def unflooded_frame5_def unflooded_cell5_def
      unflooded_cell4_def unflooded_frame3_def unflooded_cell3_def unflooded_frame2_def
      unflooded_cell2_def unflooded_frame1_def unflooded_cell1_def unflooded_frame_def
      unflooded_args_def unflooded_cell_def cell0_sel g0_sel init_frame_sel mask_defs Let_def
      min_def max_def power_divide)

lemma unflooded_substep2:
  "substep unflooded_cell6 (Suc (Suc 0))
     (\<lparr>availWater1 = 7 / 600, availWater2 = 1 / 50, availWater3 = 1 / 50, capLayer2 = 3 / 100, capLayer3 = 3 / 100, wtemp1 = 1 / 60, wtemp2 = 7 / 100, wtemp3 = 7 / 100, kUnSat1 = 0, kUnSat2 = 0, kUnSat3 = 0\<rparr>,
      unflooded_frame5\<lparr>perc1to2 := 0, perc2to3 := 0, perc3toGW := 0\<rparr>) =
     (\<lparr>availWater1 = 7 / 600, availWater2 = 1 / 50, availWater3 = 1 / 50, capLayer2 = 3 / 100, capLayer3 = 3 / 100, wtemp1 = 1 / 60, wtemp2 = 7 / 100, wtemp3 = 7 / 100, kUnSat1 = 0, kUnSat2 = 0, kUnSat3 = 0\<rparr>,
      unflooded_frame5\<lparr>perc1to2 := 0, perc2to3 := 0, perc3toGW := 0\<rparr>)"
  by (simp add:
      substep_def DtSub_def NoSubSteps_def satTerm_clip_def kUnSat_def np_power_def
      np_square_def unflooded_cell6_def unflooded_frame5_def unflooded_cell5_def
      unflooded_cell4_def unflooded_frame3_def unflooded_cell3_def unflooded_frame2_def
      unflooded_cell2_def unflooded_frame1_def unflooded_cell1_def unflooded_frame_def
      unflooded_args_def unflooded_cell_def cell0_sel g0_sel init_frame_sel mask_defs Let_def
      min_def max_def power_divide)

lemma unflooded_cell6_sel:
  "land_use_type unflooded_cell6 = 2" "w1 unflooded_cell6 = 1 / 60"
  "w2 unflooded_cell6 = 7 / 100" "w3 unflooded_cell6 = 7 / 100" "FrostIndex unflooded_cell6 = 0"
  by (simp_all add: unflooded_cell6_def unflooded_frame5_def unflooded_cell5_def unflooded_cell4_def unflooded_frame3_def unflooded_cell3_def unflooded_frame2_def unflooded_cell2_def unflooded_frame1_def unflooded_cell1_def unflooded_frame_def unflooded_args_def unflooded_cell_def cell0_sel)

lemma unflooded_phase7:
  "percolation g0 unflooded_cell6 unflooded_frame5 =
     Inr (unflooded_cell7, unflooded_frame7)"
  by (simp add:
      percolation_def NoSubSteps_def numeral_3_eq_3 unflooded_perc_init unflooded_substep0
      unflooded_substep1 unflooded_substep2 unflooded_cell6_sel unflooded_cell7_def
      unflooded_frame7_def g0_sel mask_defs Let_def)

lemma unflooded_phase8:
  "et_and_recharge unflooded_cell7 unflooded_frame7 =
     (unflooded_cell8, unflooded_frame8)"
  by (simp add:
      et_and_recharge_def unflooded_cell8_def unflooded_frame8_def unflooded_frame7_def
      unflooded_cell7_def unflooded_cell6_def unflooded_frame5_def unflooded_cell5_def
      unflooded_cell4_def unflooded_frame3_def unflooded_cell3_def unflooded_frame2_def
      unflooded_cell2_def unflooded_frame1_def unflooded_cell1_def unflooded_frame_def
      unflooded_args_def unflooded_cell_def cell0_sel g0_sel init_frame_sel mask_defs Let_def
      min_def max_def power_divide)

lemma unflooded_run:
  "dynamic_cell g0 unflooded_cell unflooded_args =
     Inr (unflooded_cell8, unflooded_frame8)"
  by (simp add: dynamic_cell_def phases_def bind_err_def unflooded_frame_eq
      unflooded_avail unflooded_phase1 unflooded_phase2 unflooded_phase3 unflooded_phase4
      unflooded_phase5 unflooded_phase6 unflooded_phase7 unflooded_phase8)

lemmas unflooded_defs =
      unflooded_frame8_def unflooded_cell8_def unflooded_frame7_def unflooded_cell7_def
      unflooded_cell6_def unflooded_frame5_def unflooded_cell5_def unflooded_cell4_def
      unflooded_frame3_def unflooded_cell3_def unflooded_frame2_def unflooded_cell2_def
      unflooded_frame1_def unflooded_cell1_def unflooded_frame_def unflooded_args_def
      unflooded_cell_def

lemma water_avail:
  "avail_water water_cell = Inr (1 / 250)"
  by (simp add:
      avail_water_def water_args_def water_cell_def cell0_sel g0_sel init_frame_sel mask_defs
      Let_def min_def max_def power_divide)

lemma water_frame_eq:
  "init_frame water_args (1 / 250) = water_frame"
  by (simp add: water_frame_def)

lemma water_phase1:
  "paddy_ponding water_cell water_frame =
     Inr (water_cell, water_frame)"
  by (simp add:
      paddy_ponding_def water_frame_def water_args_def water_cell_def cell0_sel g0_sel
      init_frame_sel mask_defs Let_def min_def max_def power_divide)

lemma water_phase2:
  "capillar_cascade water_cell water_frame =
     Inr (water_cell, water_frame)"
  by (simp add:
      capillar_cascade_def water_frame_def water_args_def water_cell_def cell0_sel g0_sel
      init_frame_sel mask_defs Let_def min_def max_def power_divide)

lemma water_phase3:
  "transpiration g0 water_cell water_frame =
     Inr (water_cell, water_frame)"
  by (simp add:
      transpiration_def TaMax_def depletion_p_def etpotMax_def rws_def wCrit_def
      divideValues_def water_frame_def water_args_def water_cell_def cell0_sel g0_sel
      init_frame_sel mask_defs Let_def min_def max_def power_divide)

lemma water_phase4:
  "bare_soil_evaporation g0 water_cell water_frame =
     water_cell"
  by (simp add:
      bare_soil_evaporation_def water_frame_def water_args_def water_cell_def cell0_sel g0_sel
      init_frame_sel mask_defs Let_def min_def max_def power_divide)

lemma water_phase5:
  "infiltration_runoff g0 water_cell water_frame =
     Inr (water_cell, water_frame)"
  by (simp add:
      infiltration_runoff_def potInf_def potInf_expr_def relSat_def satAreaFrac_def store_def
      potBeta_def np_power_def water_frame_def water_args_def water_cell_def cell0_sel g0_sel
      init_frame_sel mask_defs Let_def min_def max_def power_divide)

lemma water_phase6:
  "soil_capillary_rise water_cell water_frame =
     Inr (water_cell, water_frame)"
  by (simp add:
      soil_capillary_rise_def satTerm_assign_def kUnSat_def np_power_def np_square_def
      water_frame_def water_args_def water_cell_def cell0_sel g0_sel init_frame_sel mask_defs
      Let_def min_def max_def power_divide)

lemma water_phase7:
  "percolation g0 water_cell water_frame =
     Inr (water_cell, water_frame)"
  by (simp add:
      percolation_def water_frame_def water_args_def water_cell_def cell0_sel g0_sel
      init_frame_sel mask_defs Let_def min_def max_def power_divide)

lemma water_phase8:
  "et_and_recharge water_cell water_frame =
     (water_cell, water_frame)"
  by (simp add:
      et_and_recharge_def water_frame_def water_args_def water_cell_def cell0_sel g0_sel
      init_frame_sel mask_defs Let_def min_def max_def power_divide)

lemma water_run:
  "dynamic_cell g0 water_cell water_args =
     Inr (water_cell, water_frame)"
  by (simp add: dynamic_cell_def phases_def bind_err_def water_frame_eq
      water_avail water_phase1 water_phase2 water_phase3 water_phase4 water_phase5 water_phase6
      water_phase7 water_phase8)

lemmas water_defs =
      water_frame_def water_args_def water_cell_def

lemma negative_avail:
  "avail_water negative_cell = Inl AssertionError"
  by (simp add:
      avail_water_def negative_args_def negative_cell_def cell0_sel g0_sel init_frame_sel
      mask_defs Let_def min_def max_def power_divide)

lemma negative_run:
  "dynamic_cell g0 negative_cell negative_args = Inl AssertionError"
  by (simp add: dynamic_cell_def bind_err_def negative_avail)

lemmas negative_defs =
      negative_cell_def negative_args_def

subsection \<open>The potential infiltration (line 336)\<close>

text \<open>
  Claim C6. The expression that the code computes for the potential infiltration,
  \<^verbatim>\<open>store - store * (1 - (1 - satAreaFrac) ** potBeta)\<close>, equals
  \<^verbatim>\<open>store * (1 - satAreaFrac) ** potBeta\<close> over the real numbers, whatever the three
  values are; in particular for a store that is not negative, a saturated fraction between
  0 and 1 and a positive exponent. The same holds for the potential infiltration of a cell.
\<close>

theorem potInf_simplified:
  "potInf_expr st saf pb = st * np_power (1 - saf) pb \<and>
   potInf v = store v * np_power (1 - satAreaFrac v) (potBeta v)"
  by (simp add: potInf_def potInf_expr_def algebra_simps)

subsection \<open>The thickness of the layers\<close>

text \<open>
  Claim C7. For every cell \<open>i\<close>, \<^verbatim>\<open>initial\<close> returns the thickness 0.05 for the first
  layer, \<open>max 0.05 (stordepth1 - 0.05)\<close> times the calibration factor for the second and
  \<open>max 0.05 stordepth2\<close> times the same factor for the third, and it writes
  \<^verbatim>\<open>to_grid\<close> of the sum of the second and the third thickness, aggregated with
  \<^verbatim>\<open>'mean'\<close>, into \<^verbatim>\<open>soildepth_12\<close> of the grid.
\<close>

theorem initial_soildepth:
  "fst (initial to_grid grid stordepth1 stordepth2 soildepth_factor) ! 0 = (\<lambda>i. 0.05) \<and>
   fst (initial to_grid grid stordepth1 stordepth2 soildepth_factor) ! 1 =
     (\<lambda>i. max 0.05 (stordepth1 i - 0.05) * soildepth_factor i) \<and>
   fst (initial to_grid grid stordepth1 stordepth2 soildepth_factor) ! 2 =
     (\<lambda>i. max 0.05 (stordepth2 i) * soildepth_factor i) \<and>
   length (fst (initial to_grid grid stordepth1 stordepth2 soildepth_factor)) = 3 \<and>
   snd (initial to_grid grid stordepth1 stordepth2 soildepth_factor) =
     grid\<lparr>soildepth_12 :=
       to_grid (\<lambda>i. (fst (initial to_grid grid stordepth1 stordepth2 soildepth_factor) ! 1) i +
                     (fst (initial to_grid grid stordepth1 stordepth2 soildepth_factor) ! 2) i)
               ''mean''\<rparr>"
  by (simp add: initial_def Let_def)

subsection \<open>The water balance of a step\<close>

text \<open>
  Claim C1, as amended. Let a step succeed for a cell of \<^verbatim>\<open>bioarea\<close>, let the configured
  maximum of the ponded water be not negative, and let the caller pass 0 as the entry
  of \<^verbatim>\<open>openWaterEvap\<close> when the cell is no paddy cell (the step assigns that entry on paddy
  cells only, and hands it back as it came otherwise). Then the sum of the influxes
  (natural available water, capillary rise, irrigation consumption) minus the sum of the
  outfluxes (direct runoff, percolation to groundwater, preferential flow, transpiration,
  bare soil evaporation, open water evaporation) differs from the change of
  \<open>w1 + w2 + w3 + topwater\<close> by at most \<open>10\<^sup>-\<^sup>6\<close>. The difference is the negative incoming
  water that line 185 replaces by 0.
\<close>

theorem water_balance:
  assumes run: "dynamic_cell g v a = Inr (v', f')"
    and bio: "bioarea v"
    and mt: "maxtopwater g \<ge> 0"
    and owe0: "\<not> paddy_irrigated_land v \<Longrightarrow> openWaterEvap a = 0"
  shows "\<bar>balance_error v a v' f'\<bar> \<le> 0.000001"
proof -
  from dynamic_cell_bio[OF run bio] obtain
    aw tw owe awi pb a2 b2 c2 s t1 t2 t3 e tw5 a5 b5 pf infl dr r1 r2 p12 p23 p3g where
    aw: "avail_water v = Inr aw" and
    V: "v' = v\<lparr>topwater := tw5, w1 := a5 + r1 - p12, w2 := b5 - r1 + r2 + p12 - p23,
            w3 := c2 - t3 - r2 + p23 - p3g, actTransTotal := t1 + t2 + t3,
            actBareSoilEvap := e, actualET := actualET v + e + owe + (t1 + t2 + t3)\<rparr>" and
    F: "f' = (init_frame a aw)\<lparr>openWaterEvap := owe, availWaterInfiltration := awi,
            potBareSoilEvap := pb, saverunofffromGW := s, ta1 := t1, ta2 := t2, ta3 := t3,
            prefFlow := pf, infiltration := infl, directRunoff := dr + s,
            perc1to2 := p12, perc2to3 := p23, perc3toGW := p3g,
            interflow := percolationImp v * (p3g + pf),
            groundwater_recharge := (1 - percolationImp v) * (p3g + pf)\<rparr>" and
    tw0: "tw \<ge> 0" and
    c_np: "\<not> paddy_irrigated_land v \<longrightarrow> tw = topwater v \<and> owe = openWaterEvap a \<and> awi = aw" and
    c_fl: "paddy_irrigated_land v \<and> cropKC v > 0.75 \<longrightarrow>
        owe = min (max 0 (topwater v + aw)) (EWRef v) \<and>
        tw = topwater v + aw - owe \<and> awi = tw" and
    c_uf: "paddy_irrigated_land v \<and> \<not> cropKC v > 0.75 \<longrightarrow>
        owe = min (max 0 (topwater v)) (EWRef v) \<and> tw = topwater v - owe \<and> awi = tw + aw" and
    e2: "a2 + b2 + c2 + s = w1 v + w2 v + w3 v + capillar a" and
    e5: "a5 + b5 = (a2 - t1 - e) + (b2 - t2) + infl" and
    fr: "frozen g v \<longrightarrow> t1 = 0 \<and> t2 = 0 \<and> t3 = 0 \<and> e = 0 \<and> pf = 0 \<and> infl = 0 \<and>
                    p12 = 0 \<and> p23 = 0" and
    pd: "paddy_irrigated_land v \<longrightarrow> pf = 0" and
    il: "\<not> frozen g v \<longrightarrow> infl \<le> awi - pf" and
    d_np: "\<not> paddy_irrigated_land v \<longrightarrow> tw5 = tw \<and> dr = max 0 (awi - infl - pf)" and
    d_fl: "paddy_irrigated_land v \<and> cropKC v > 0.75 \<longrightarrow>
        dr = max 0 (max 0 (tw - infl) - maxtopwater g) \<and>
        tw5 = max 0 (max 0 (tw - infl) - dr)" and
    d_uf: "paddy_irrigated_land v \<and> \<not> cropKC v > 0.75 \<longrightarrow>
        dr = max 0 (awi - infl) \<and> tw5 = max 0 (max 0 (tw - infl) - dr)"
    by (elim exE conjE) (rule that; assumption)
  let ?n = "natural_available_water_infiltration v + actual_irrigation_consumption v"
  from avail_water_Inr[OF aw] have awv: "aw = max 0 ?n" "?n + 0.000001 \<ge> 0" .
  have aw0: "aw \<ge> 0" and awd: "\<bar>?n - aw\<bar> \<le> 0.000001"
    using awv by (auto simp: max_def)
  have key: "tw5 + dr + pf + infl + owe = topwater v + aw"
  proof (cases "paddy_irrigated_land v")
    case False
    with d_np c_np owe0 have 1: "tw5 = topwater v" "dr = max 0 (aw - infl - pf)" "owe = 0"
      by simp_all
    have "infl + pf \<le> aw"
    proof (cases "frozen g v")
      case True with fr aw0 show ?thesis by simp
    next
      case False with il c_np \<open>\<not> paddy_irrigated_land v\<close> show ?thesis by simp
    qed
    with 1 show ?thesis by (simp add: max_def)
  next
    case True
    then have pf0: "pf = 0" using pd by simp
    have awi0: "awi \<ge> 0" using True c_fl c_uf aw0 tw0 by (cases "cropKC v > 0.75") auto
    have il': "infl \<le> awi"
    proof (cases "frozen g v")
      case True with fr awi0 show ?thesis by simp
    next
      case False with il pf0 show ?thesis by simp
    qed
    show ?thesis
    proof (cases "cropKC v > 0.75")
      case kc: True
      with True c_fl d_fl have 1: "tw + owe = topwater v + aw" "awi = tw"
        "dr = max 0 (max 0 (tw - infl) - maxtopwater g)"
        "tw5 = max 0 (max 0 (tw - infl) - dr)"
        by simp_all
      from 1 il' mt have "tw5 + dr = tw - infl" by (simp add: max_def)
      with 1(1) pf0 show ?thesis by linarith
    next
      case kc: False
      with True c_uf d_uf have 1: "tw + owe = topwater v" "awi = tw + aw"
        "dr = max 0 (awi - infl)"
        "tw5 = max 0 (max 0 (tw - infl) - dr)"
        by simp_all
      from 1 il' aw0 have "dr = tw + aw - infl" "tw5 = 0" by (simp_all add: max_def)
      with 1(1) pf0 show ?thesis by linarith
    qed
  qed
  have st: "total_storage v' = a5 + b5 + (c2 - t3) - p3g + tw5"
    by (simp add: total_storage_def V)
  have out: "outflux_sum v' f' = (dr + s) + p3g + pf + (t1 + t2 + t3) + e + owe"
    by (simp add: outflux_sum_def V F)
  have "balance_error v a v' f' = ?n - aw"
    unfolding balance_error_def st out influx_sum_def
    using e5 e2 key by (simp add: total_storage_def)
  with awd show ?thesis by simp
qed

text \<open>The frozen forest cell, with 0 passed as the entry of \<^verbatim>\<open>openWaterEvap\<close>.\<close>

theorem water_balance_witness:
  "dynamic_cell g0 frozen_cell (frozen_args 0) = Inr (frozen_cell8 0, frozen_frame8 0) \<and>
   bioarea frozen_cell \<and> maxtopwater g0 \<ge> 0 \<and>
   \<not> paddy_irrigated_land frozen_cell \<and> openWaterEvap (frozen_args 0) = 0 \<and>
   \<bar>balance_error frozen_cell (frozen_args 0) (frozen_cell8 0) (frozen_frame8 0)\<bar> \<le> 0.000001"
proof -
  have r: "dynamic_cell g0 frozen_cell (frozen_args 0) = Inr (frozen_cell8 0, frozen_frame8 0)"
    by (rule frozen_run)
  have b: "bioarea frozen_cell" by (simp add: bioarea_def frozen_cell_def cell0_sel)
  have m: "maxtopwater g0 \<ge> 0" by (simp add: g0_sel)
  have o: "openWaterEvap (frozen_args 0) = 0" by (simp add: frozen_args_def)
  have p: "\<not> paddy_irrigated_land frozen_cell"
    by (simp add: paddy_irrigated_land_def frozen_cell_def cell0_sel)
  from water_balance[OF r b m o] show ?thesis using r b m o p by simp
qed

text \<open>
  Claim C1 as stated, for every invocation, fails. For the frozen forest cell the caller
  passes 0.001 as the entry of \<^verbatim>\<open>openWaterEvap\<close>: the step hands the entry back, the
  balance is off by that entry. For the flooded paddy cell and a maximum of the ponded water
  of -0.01, 0.07 run off from 0.06 of ponded water, and the balance is off by 0.01.
\<close>

theorem water_balance_counterexample:
  "bioarea frozen_cell \<and> \<not> paddy_irrigated_land frozen_cell \<and>
   dynamic_cell g0 frozen_cell (frozen_args 0.001) =
     Inr (frozen_cell8 0.001, frozen_frame8 0.001) \<and>
   balance_error frozen_cell (frozen_args 0.001) (frozen_cell8 0.001) (frozen_frame8 0.001)
     = - 0.001 \<and>
   \<not> \<bar>balance_error frozen_cell (frozen_args 0.001) (frozen_cell8 0.001)
         (frozen_frame8 0.001)\<bar> \<le> 0.000001 \<and>
   bioarea negmax_cell \<and>
   dynamic_cell g1 negmax_cell negmax_args = Inr (negmax_cell8, negmax_frame8) \<and>
   balance_error negmax_cell negmax_args negmax_cell8 negmax_frame8 = - 0.01 \<and>
   \<not> \<bar>balance_error negmax_cell negmax_args negmax_cell8 negmax_frame8\<bar> \<le> 0.000001"
proof -
  have r: "dynamic_cell g0 frozen_cell (frozen_args 0.001) =
     Inr (frozen_cell8 0.001, frozen_frame8 0.001)"
    by (rule frozen_run)
  have b: "bioarea frozen_cell" "\<not> paddy_irrigated_land frozen_cell"
    by (simp_all add: mask_defs frozen_cell_def cell0_sel)
  have e: "balance_error frozen_cell (frozen_args 0.001) (frozen_cell8 0.001)
      (frozen_frame8 0.001) = - 0.001"
    by (simp add: balance_error_def influx_sum_def outflux_sum_def total_storage_def
        frozen_defs cell0_sel init_frame_sel)
  have r': "dynamic_cell g1 negmax_cell negmax_args = Inr (negmax_cell8, negmax_frame8)"
    by (rule negmax_run)
  have b': "bioarea negmax_cell"
    by (simp add: mask_defs negmax_cell_def cell0_sel)
  have e': "balance_error negmax_cell negmax_args negmax_cell8 negmax_frame8 = - 0.01"
    by (simp add: balance_error_def influx_sum_def outflux_sum_def total_storage_def
        negmax_defs cell0_sel init_frame_sel)
  show ?thesis using r b r' b' e e' by simp
qed

subsection \<open>The bounds of the storages\<close>

text \<open>
  Claim C2 does not hold for the code. The capillary rise from the second into the first
  layer (line 415) is limited by the conductivity \<^verbatim>\<open>kunSatFC12\<close> only, not by the water
  that the second layer holds above its residual storage, whereas the rise from the third
  layer is limited by \<^verbatim>\<open>availWater3\<close> (line 418). For the cell \<open>caprise_cell\<close>, whose
  parameters and storages are well-formed and which receives no water at all, the step
  succeeds, takes the second layer from 0.1 down to 0.02, below its residual storage 0.05,
  and fills the first layer to 0.085, above its capacity 0.02. The phase that does it is
  the capillary rise between the layers.
\<close>

theorem capillary_rise_leaves_bounds:
  "par_ok caprise_cell \<and> state_ok caprise_cell \<and>
   dynamic_cell g0 caprise_cell caprise_args = Inr (caprise_cell8, caprise_frame8) \<and>
   w1 caprise_cell8 = 0.085 \<and> ws1 caprise_cell8 = 0.02 \<and>
   w2 caprise_cell8 = 0.02 \<and> wres2 caprise_cell8 = 0.05 \<and>
   \<not> state_ok caprise_cell8 \<and>
   state_ok caprise_cell5 \<and>
   soil_capillary_rise caprise_cell5 caprise_frame5 = Inr (caprise_cell6, caprise_frame5) \<and>
   \<not> state_ok caprise_cell6"
proof -
  have 1: "par_ok caprise_cell" "state_ok caprise_cell"
    by (simp_all add: par_ok_def state_ok_def caprise_defs cell0_sel)
  have 2: "w1 caprise_cell8 = 0.085" "ws1 caprise_cell8 = 0.02"
    "w2 caprise_cell8 = 0.02" "wres2 caprise_cell8 = 0.05"
    by (simp_all add: caprise_defs cell0_sel)
  have 3: "\<not> state_ok caprise_cell8" "state_ok caprise_cell5" "\<not> state_ok caprise_cell6"
    by (simp_all add: state_ok_def caprise_defs cell0_sel)
  show ?thesis using 1 2 3 caprise_run caprise_phase6 by simp
qed

subsection \<open>Frozen soil\<close>

text \<open>
  Claim C3. When a step succeeds for a cell of \<^verbatim>\<open>bioarea\<close> whose frost index exceeds the
  threshold, the three extractions \<^verbatim>\<open>ta1\<close>, \<^verbatim>\<open>ta2\<close>, \<^verbatim>\<open>ta3\<close> and their total, the bare
  soil evaporation, the preferential flow, the infiltration and the percolation from layer
  1 to 2 and from layer 2 to 3 are all 0.
\<close>

theorem frost_gating:
  assumes run: "dynamic_cell g v a = Inr (v', f')"
    and bio: "bioarea v"
    and frost: "FrostIndex v > FrostIndexThreshold g"
  shows "ta1 f' = 0 \<and> ta2 f' = 0 \<and> ta3 f' = 0 \<and> actTransTotal v' = 0 \<and>
         actBareSoilEvap v' = 0 \<and> prefFlow f' = 0 \<and> infiltration f' = 0 \<and>
         perc1to2 f' = 0 \<and> perc2to3 f' = 0"
proof -
  from dynamic_cell_bio[OF run bio] obtain
    aw owe awi pb s t1 t2 t3 e tw5 a5 b5 c2 pf infl dr r1 r2 p12 p23 p3g where
    V: "v' = v\<lparr>topwater := tw5, w1 := a5 + r1 - p12, w2 := b5 - r1 + r2 + p12 - p23,
            w3 := c2 - t3 - r2 + p23 - p3g, actTransTotal := t1 + t2 + t3,
            actBareSoilEvap := e, actualET := actualET v + e + owe + (t1 + t2 + t3)\<rparr>" and
    F: "f' = (init_frame a aw)\<lparr>openWaterEvap := owe, availWaterInfiltration := awi,
            potBareSoilEvap := pb, saverunofffromGW := s, ta1 := t1, ta2 := t2, ta3 := t3,
            prefFlow := pf, infiltration := infl, directRunoff := dr + s,
            perc1to2 := p12, perc2to3 := p23, perc3toGW := p3g,
            interflow := percolationImp v * (p3g + pf),
            groundwater_recharge := (1 - percolationImp v) * (p3g + pf)\<rparr>" and
    fr: "frozen g v \<longrightarrow> t1 = 0 \<and> t2 = 0 \<and> t3 = 0 \<and> e = 0 \<and> pf = 0 \<and> infl = 0 \<and>
                    p12 = 0 \<and> p23 = 0"
    by (elim exE conjE) (rule that; assumption)
  from fr frost have "t1 = 0" "t2 = 0" "t3 = 0" "e = 0" "pf = 0" "infl = 0" "p12 = 0" "p23 = 0"
    by (simp_all add: frozen_def)
  then show ?thesis by (simp add: V F)
qed

text \<open>The frozen forest cell.\<close>

theorem frost_gating_witness:
  "dynamic_cell g0 frozen_cell (frozen_args 0) = Inr (frozen_cell8 0, frozen_frame8 0) \<and>
   bioarea frozen_cell \<and> FrostIndex frozen_cell > FrostIndexThreshold g0 \<and>
   ta1 (frozen_frame8 0) = 0 \<and> ta2 (frozen_frame8 0) = 0 \<and> ta3 (frozen_frame8 0) = 0 \<and>
   actTransTotal (frozen_cell8 0) = 0 \<and> actBareSoilEvap (frozen_cell8 0) = 0 \<and>
   prefFlow (frozen_frame8 0) = 0 \<and> infiltration (frozen_frame8 0) = 0 \<and>
   perc1to2 (frozen_frame8 0) = 0 \<and> perc2to3 (frozen_frame8 0) = 0"
proof -
  have r: "dynamic_cell g0 frozen_cell (frozen_args 0) = Inr (frozen_cell8 0, frozen_frame8 0)"
    by (rule frozen_run)
  have b: "bioarea frozen_cell" by (simp add: bioarea_def frozen_cell_def cell0_sel)
  have f: "FrostIndex frozen_cell > FrostIndexThreshold g0"
    by (simp add: frozen_cell_def g0_sel)
  from frost_gating[OF r b f] show ?thesis using r b f by simp
qed

subsection \<open>Capillary rise from groundwater\<close>

text \<open>
  Claim C4, as amended. For a cell of \<^verbatim>\<open>bioarea\<close> the phase of lines 205 to 218 adds the
  capillary rise to layer 3, passes what exceeds \<open>ws3\<close> to layer 2, what exceeds \<open>ws2\<close>
  there to layer 1, and what exceeds \<open>ws1\<close> there to \<^verbatim>\<open>saverunofffromGW\<close>. After it
  \<open>w1 + w2 + w3 + saverunofffromGW\<close> is the former \<open>w1 + w2 + w3\<close> plus the capillary rise,
  and no layer holds more than its capacity. For a cell with \<open>w3 = ws3\<close> that receives
  0.005, layer 3 stays at \<open>ws3\<close> and layer 2 ends at \<open>min ws2 (w2 + 0.005)\<close>: all of the
  0.005 ends up in layer 2 exactly if layer 2 has room for it.
\<close>

theorem capillar_cascade_conserves:
  assumes run: "capillar_cascade v f = Inr (v', f')" and bio: "bioarea v"
  shows "w1 v' + w2 v' + w3 v' + saverunofffromGW f' = w1 v + w2 v + w3 v + capillar f \<and>
         w1 v' \<le> ws1 v \<and> w2 v' \<le> ws2 v \<and> w3 v' \<le> ws3 v \<and>
         ws1 v' = ws1 v \<and> ws2 v' = ws2 v \<and> ws3 v' = ws3 v \<and>
         w3 v' = min (ws3 v) (w3 v + capillar f) \<and>
         w2 v' = min (ws2 v) (w2 v + max 0 (w3 v + capillar f - ws3 v)) \<and>
         w1 v' = min (ws1 v)
                   (w1 v + max 0 (w2 v + max 0 (w3 v + capillar f - ws3 v) - ws2 v)) \<and>
         saverunofffromGW f' =
           max 0 (w1 v + max 0 (w2 v + max 0 (w3 v + capillar f - ws3 v) - ws2 v) - ws1 v) \<and>
         (w3 v = ws3 v \<and> capillar f = 0.005 \<longrightarrow>
            w3 v' = ws3 v \<and> w2 v' = min (ws2 v) (w2 v + 0.005) \<and>
            (w2 v + 0.005 \<le> ws2 v \<longrightarrow> w2 v' = w2 v + 0.005 \<and> w1 v' = min (ws1 v) (w1 v)))"
proof -
  from capillar_cascade_bio[OF run bio] obtain a b c s o3 o2 where
    V: "v' = v\<lparr>w1 := a, w2 := b, w3 := c\<rparr>" and F: "f' = f\<lparr>saverunofffromGW := s\<rparr>" and
    o3: "o3 = max 0 (w3 v + capillar f - ws3 v)" and c: "c = w3 v + capillar f - o3" and
    o2: "o2 = max 0 (w2 v + o3 - ws2 v)" and b: "b = w2 v + o3 - o2" and
    s: "s = max 0 (w1 v + o2 - ws1 v)" and a: "a = w1 v + o2 - s"
    by blast
  have sel: "w1 v' = a" "w2 v' = b" "w3 v' = c" "saverunofffromGW f' = s"
    "ws1 v' = ws1 v" "ws2 v' = ws2 v" "ws3 v' = ws3 v"
    by (simp_all add: V F)
  have c': "c = min (ws3 v) (w3 v + capillar f)" using c o3 by (simp add: min_def max_def)
  have b': "b = min (ws2 v) (w2 v + o3)" using b o2 by (simp add: min_def max_def)
  have a': "a = min (ws1 v) (w1 v + o2)" using a s by (simp add: min_def max_def)
  have 1: "a + b + c + s = w1 v + w2 v + w3 v + capillar f" using a b c by simp
  have 2: "a \<le> ws1 v" "b \<le> ws2 v" "c \<le> ws3 v" using a' b' c' by simp_all
  have 3: "w3 v = ws3 v \<and> capillar f = 0.005 \<longrightarrow>
            c = ws3 v \<and> b = min (ws2 v) (w2 v + 0.005) \<and>
            (w2 v + 0.005 \<le> ws2 v \<longrightarrow> b = w2 v + 0.005 \<and> a = min (ws1 v) (w1 v))"
  proof (intro impI, elim conjE)
    assume h: "w3 v = ws3 v" "capillar f = 0.005"
    then have o3v: "o3 = 0.005" using o3 by simp
    have "c = ws3 v" using c o3v h by simp
    moreover have bv: "b = min (ws2 v) (w2 v + 0.005)" using b' o3v by simp
    moreover have "w2 v + 0.005 \<le> ws2 v \<longrightarrow> b = w2 v + 0.005 \<and> a = min (ws1 v) (w1 v)"
    proof
      assume r: "w2 v + 0.005 \<le> ws2 v"
      then have "o2 = 0" using o2 o3v by simp
      then show "b = w2 v + 0.005 \<and> a = min (ws1 v) (w1 v)" using bv r a' by simp
    qed
    ultimately show "c = ws3 v \<and> b = min (ws2 v) (w2 v + 0.005) \<and>
            (w2 v + 0.005 \<le> ws2 v \<longrightarrow> b = w2 v + 0.005 \<and> a = min (ws1 v) (w1 v))"
      by blast
  qed
  show ?thesis
    unfolding sel using 1 2 3 c' b'[unfolded o3] a'[unfolded o2 o3] s[unfolded o2 o3]
    by (intro conjI) (assumption | rule refl)+
qed

text \<open>Scenario C with room in the second layer: it ends at 0.075.\<close>

theorem capillar_cascade_conserves_witness:
  "capillar_cascade scenario_c_cell scenario_c_frame =
     Inr (scenario_c_cell\<lparr>w1 := 0.01, w2 := 0.075, w3 := 0.1\<rparr>,
          scenario_c_frame\<lparr>saverunofffromGW := 0\<rparr>) \<and>
   bioarea scenario_c_cell \<and>
   w3 scenario_c_cell = ws3 scenario_c_cell \<and> capillar scenario_c_frame = 0.005 \<and>
   w2 scenario_c_cell + 0.005 \<le> ws2 scenario_c_cell \<and>
   w3 (scenario_c_cell\<lparr>w1 := 0.01, w2 := 0.075, w3 := 0.1\<rparr>) = ws3 scenario_c_cell \<and>
   w2 (scenario_c_cell\<lparr>w1 := 0.01, w2 := 0.075, w3 := 0.1\<rparr>) = w2 scenario_c_cell + 0.005"
proof -
  have r: "capillar_cascade scenario_c_cell scenario_c_frame =
     Inr (scenario_c_cell\<lparr>w1 := 0.01, w2 := 0.075, w3 := 0.1\<rparr>,
          scenario_c_frame\<lparr>saverunofffromGW := 0\<rparr>)"
    by (simp add: capillar_cascade_def scenario_c_cell_def scenario_c_frame_def cell0_sel
        init_frame_sel mask_defs Let_def min_def max_def)
  have b: "bioarea scenario_c_cell"
    by (simp add: bioarea_def scenario_c_cell_def cell0_sel)
  have h: "w3 scenario_c_cell = ws3 scenario_c_cell" "capillar scenario_c_frame = 0.005"
    "w2 scenario_c_cell + 0.005 \<le> ws2 scenario_c_cell"
    by (simp_all add: scenario_c_cell_def scenario_c_frame_def cell0_sel init_frame_sel)
  from capillar_cascade_conserves[OF r b] h r b show ?thesis by simp
qed

text \<open>
  Claim C4 as stated fails where the second layer is full as well: layer 3 is at its
  capacity and receives 0.005, yet layer 2 keeps its 0.1 and the 0.005 arrive in layer 1.
\<close>

theorem capillar_cascade_counterexample:
  "bioarea full_column_cell \<and> w3 full_column_cell = ws3 full_column_cell \<and>
   capillar scenario_c_frame = 0.005 \<and>
   capillar_cascade full_column_cell scenario_c_frame =
     Inr (full_column_cell\<lparr>w1 := 0.015, w2 := 0.1, w3 := 0.1\<rparr>,
          scenario_c_frame\<lparr>saverunofffromGW := 0\<rparr>) \<and>
   w2 (full_column_cell\<lparr>w1 := 0.015, w2 := 0.1, w3 := 0.1\<rparr>) = w2 full_column_cell \<and>
   w2 (full_column_cell\<lparr>w1 := 0.015, w2 := 0.1, w3 := 0.1\<rparr>) \<noteq> w2 full_column_cell + 0.005 \<and>
   w1 (full_column_cell\<lparr>w1 := 0.015, w2 := 0.1, w3 := 0.1\<rparr>) = w1 full_column_cell + 0.005"
  by (simp add: capillar_cascade_def full_column_cell_def scenario_c_frame_def cell0_sel
      init_frame_sel mask_defs Let_def min_def max_def)

subsection \<open>Paddy cells\<close>

text \<open>
  Claim C5, as amended. For a paddy cell with a crop coefficient above 0.75 the incoming
  water is added to \<^verbatim>\<open>topwater\<close>, the open water evaporation is the smaller of that
  ponded water and \<^verbatim>\<open>EWRef\<close> and is taken from it, and what is offered to infiltration is
  the ponded water that is left. The direct runoff that the step returns is the excess of
  the ponded water above \<^verbatim>\<open>maxtopwater\<close>, after the infiltration has been taken from it,
  plus \<^verbatim>\<open>saverunofffromGW\<close>, the overflow of the capillary rise (line 374). With
  \<open>topwater = 0.04\<close>, \<open>maxtopwater = 0.05\<close>, 0.02 of incoming water and no evaporation the
  ponded water is 0.06 and the direct runoff is
  \<open>max 0 (0.06 - infiltration - 0.05) + saverunofffromGW\<close>.
\<close>

theorem paddy_flooded_runoff:
  assumes run: "dynamic_cell g v a = Inr (v', f')"
    and aw: "avail_water v = Inr aw"
    and paddy: "paddy_irrigated_land v"
    and kc: "cropKC v > 0.75"
  shows "openWaterEvap f' = min (topwater v + aw) (EWRef v) \<and>
         (\<exists>f1. paddy_ponding v (init_frame a aw) =
                 Inr (v\<lparr>topwater := topwater v + aw - openWaterEvap f'\<rparr>, f1)) \<and>
         availWaterInfiltration f' = topwater v + aw - openWaterEvap f' \<and>
         directRunoff f' =
           max 0 (max 0 (topwater v + aw - openWaterEvap f' - infiltration f') - maxtopwater g)
           + saverunofffromGW f' \<and>
         topwater v' =
           max 0 (max 0 (topwater v + aw - openWaterEvap f' - infiltration f')
                  - (directRunoff f' - saverunofffromGW f')) \<and>
         (topwater v = 0.04 \<and> maxtopwater g = 0.05 \<and> aw = 0.02 \<and> EWRef v = 0 \<longrightarrow>
            availWaterInfiltration f' = 0.06 \<and>
            directRunoff f' = max 0 (0.06 - infiltration f' - 0.05) + saverunofffromGW f')"
proof -
  have bio: "bioarea v" using paddy by (rule paddy_bio)
  from dynamic_cell_bio[OF run bio] obtain
    aw' tw owe awi pb s t1 t2 t3 e tw5 a5 b5 c2 pf infl dr r1 r2 p12 p23 p3g where
    aw': "avail_water v = Inr aw'" and
    p1: "paddy_ponding v (init_frame a aw') =
       Inr (v\<lparr>topwater := tw\<rparr>,
            (init_frame a aw')\<lparr>openWaterEvap := owe, availWaterInfiltration := awi,
                              potBareSoilEvap := pb\<rparr>)" and
    V: "v' = v\<lparr>topwater := tw5, w1 := a5 + r1 - p12, w2 := b5 - r1 + r2 + p12 - p23,
            w3 := c2 - t3 - r2 + p23 - p3g, actTransTotal := t1 + t2 + t3,
            actBareSoilEvap := e, actualET := actualET v + e + owe + (t1 + t2 + t3)\<rparr>" and
    F: "f' = (init_frame a aw')\<lparr>openWaterEvap := owe, availWaterInfiltration := awi,
            potBareSoilEvap := pb, saverunofffromGW := s, ta1 := t1, ta2 := t2, ta3 := t3,
            prefFlow := pf, infiltration := infl, directRunoff := dr + s,
            perc1to2 := p12, perc2to3 := p23, perc3toGW := p3g,
            interflow := percolationImp v * (p3g + pf),
            groundwater_recharge := (1 - percolationImp v) * (p3g + pf)\<rparr>" and
    tw0: "tw \<ge> 0" and
    c_fl: "paddy_irrigated_land v \<and> cropKC v > 0.75 \<longrightarrow>
        owe = min (max 0 (topwater v + aw')) (EWRef v) \<and>
        tw = topwater v + aw' - owe \<and> awi = tw" and
    d_fl: "paddy_irrigated_land v \<and> cropKC v > 0.75 \<longrightarrow>
        dr = max 0 (max 0 (tw - infl) - maxtopwater g) \<and>
        tw5 = max 0 (max 0 (tw - infl) - dr)"
    by (elim exE conjE) (rule that; assumption)
  have [simp]: "aw' = aw" using aw aw' by simp
  from c_fl paddy kc have owe: "owe = min (max 0 (topwater v + aw)) (EWRef v)"
    and tw: "tw = topwater v + aw - owe" and awi: "awi = tw" by simp_all
  from d_fl paddy kc have dr: "dr = max 0 (max 0 (tw - infl) - maxtopwater g)"
    and tw5: "tw5 = max 0 (max 0 (tw - infl) - dr)" by simp_all
  have owe': "owe = min (topwater v + aw) (EWRef v)"
    using owe tw tw0 by (simp add: min_def max_def split: if_splits)
  have sel: "openWaterEvap f' = owe" "availWaterInfiltration f' = awi" "infiltration f' = infl"
    "directRunoff f' = dr + s" "saverunofffromGW f' = s" "topwater v' = tw5"
    by (simp_all add: V F)
  have 1: "openWaterEvap f' = min (topwater v + aw) (EWRef v)"
    using owe' by (simp add: sel)
  have 2: "\<exists>f1. paddy_ponding v (init_frame a aw) =
                 Inr (v\<lparr>topwater := topwater v + aw - openWaterEvap f'\<rparr>, f1)"
    using p1 tw by (simp add: sel)
  have 3: "availWaterInfiltration f' = topwater v + aw - openWaterEvap f'"
    using awi tw by (simp add: sel)
  have 4: "directRunoff f' =
           max 0 (max 0 (topwater v + aw - openWaterEvap f' - infiltration f') - maxtopwater g)
           + saverunofffromGW f'"
    using dr tw unfolding sel by simp
  have 5: "topwater v' =
           max 0 (max 0 (topwater v + aw - openWaterEvap f' - infiltration f')
                  - (directRunoff f' - saverunofffromGW f'))"
    using tw5 tw unfolding sel by simp
  have 6: "topwater v = 0.04 \<and> maxtopwater g = 0.05 \<and> aw = 0.02 \<and> EWRef v = 0 \<longrightarrow>
            availWaterInfiltration f' = 0.06 \<and>
            directRunoff f' = max 0 (0.06 - infiltration f' - 0.05) + saverunofffromGW f'"
  proof (intro impI, elim conjE)
    assume h: "topwater v = 0.04" "maxtopwater g = 0.05" "aw = 0.02" "EWRef v = 0"
    from 1 h have o: "openWaterEvap f' = 0" by simp
    from 3 h o have a6: "availWaterInfiltration f' = 0.06" by simp
    from 4 h o have "directRunoff f' =
        max 0 (max 0 (0.06 - infiltration f') - 0.05) + saverunofffromGW f'" by simp
    moreover have "max 0 (max 0 (0.06 - infiltration f') - 0.05) =
        max (0::real) (0.06 - infiltration f' - 0.05)" by (simp add: max_def)
    ultimately show "availWaterInfiltration f' = 0.06 \<and>
            directRunoff f' = max 0 (0.06 - infiltration f' - 0.05) + saverunofffromGW f'"
      using a6 by simp
  qed
  from 1 2 3 4 5 6 show ?thesis by blast
qed

text \<open>The flooded paddy cell.\<close>

theorem paddy_flooded_runoff_witness:
  "dynamic_cell g0 flooded_cell flooded_args = Inr (flooded_cell8, flooded_frame8) \<and>
   avail_water flooded_cell = Inr 0.02 \<and> paddy_irrigated_land flooded_cell \<and>
   cropKC flooded_cell > 0.75 \<and>
   topwater flooded_cell = 0.04 \<and> maxtopwater g0 = 0.05 \<and> EWRef flooded_cell = 0 \<and>
   availWaterInfiltration flooded_frame8 = 0.06 \<and>
   directRunoff flooded_frame8 =
     max 0 (0.06 - infiltration flooded_frame8 - 0.05) + saverunofffromGW flooded_frame8"
proof -
  have r: "dynamic_cell g0 flooded_cell flooded_args = Inr (flooded_cell8, flooded_frame8)"
    by (rule flooded_run)
  have a: "avail_water flooded_cell = Inr 0.02" using flooded_avail by simp
  have p: "paddy_irrigated_land flooded_cell"
    by (simp add: paddy_irrigated_land_def flooded_cell_def cell0_sel)
  have k: "cropKC flooded_cell > 0.75" by (simp add: flooded_cell_def cell0_sel)
  have h: "topwater flooded_cell = 0.04" "maxtopwater g0 = 0.05" "EWRef flooded_cell = 0"
    by (simp_all add: flooded_cell_def cell0_sel g0_sel)
  from paddy_flooded_runoff[OF r a p k] h r a p k show ?thesis by simp
qed

text \<open>
  Claim C5 as stated fails where the capillary rise overflows the column. The flooded
  paddy cell has a saturated column and receives 0.01 of capillary rise: nothing
  infiltrates, the excess of the ponded water above \<^verbatim>\<open>maxtopwater\<close> is 0.01, and the direct
  runoff that the step returns is 0.02.
\<close>

theorem paddy_flooded_runoff_counterexample:
  "paddy_irrigated_land flooded_cell \<and> cropKC flooded_cell > 0.75 \<and>
   dynamic_cell g0 flooded_cell flooded_args = Inr (flooded_cell8, flooded_frame8) \<and>
   topwater flooded_cell = 0.04 \<and> maxtopwater g0 = 0.05 \<and> EWRef flooded_cell = 0 \<and>
   avail_water flooded_cell = Inr 0.02 \<and>
   infiltration flooded_frame8 = 0 \<and> directRunoff flooded_frame8 = 0.02 \<and>
   directRunoff flooded_frame8 \<noteq> max 0 (0.06 - infiltration flooded_frame8 - 0.05)"
proof -
  have r: "dynamic_cell g0 flooded_cell flooded_args = Inr (flooded_cell8, flooded_frame8)"
    by (rule flooded_run)
  have a: "avail_water flooded_cell = Inr 0.02" using flooded_avail by simp
  have h: "paddy_irrigated_land flooded_cell" "cropKC flooded_cell > 0.75"
    "topwater flooded_cell = 0.04" "maxtopwater g0 = 0.05" "EWRef flooded_cell = 0"
    by (simp_all add: paddy_irrigated_land_def flooded_cell_def cell0_sel g0_sel)
  have f: "infiltration flooded_frame8 = 0" "directRunoff flooded_frame8 = 0.02"
    by (simp_all add: flooded_defs init_frame_sel)
  show ?thesis using r a h by (simp add: f)
qed

text \<open>
  Claim C10. For a paddy cell with a crop coefficient of at most 0.75 the open water
  evaporation is taken from \<^verbatim>\<open>topwater\<close>, which is not set back to 0 there; what is offered
  to the split into infiltration and runoff is that ponded water plus the incoming water.
  Afterwards \<^verbatim>\<open>topwater\<close> is reduced by the infiltration and floored at 0, then reduced by
  the direct runoff of line 369 (the returned direct runoff less \<^verbatim>\<open>saverunofffromGW\<close>,
  which line 374 adds later) and floored at 0 again.
\<close>

theorem paddy_unflooded_topwater:
  assumes run: "dynamic_cell g v a = Inr (v', f')"
    and aw: "avail_water v = Inr aw"
    and paddy: "paddy_irrigated_land v"
    and kc: "cropKC v \<le> 0.75"
  shows "openWaterEvap f' = min (max 0 (topwater v)) (EWRef v) \<and>
         (\<exists>f1. paddy_ponding v (init_frame a aw) =
                 Inr (v\<lparr>topwater := topwater v - openWaterEvap f'\<rparr>, f1) \<and>
               availWaterInfiltration f1 = (topwater v - openWaterEvap f') + aw) \<and>
         availWaterInfiltration f' = (topwater v - openWaterEvap f') + aw \<and>
         directRunoff f' - saverunofffromGW f' =
           max 0 (availWaterInfiltration f' - infiltration f') \<and>
         topwater v' =
           max 0 (max 0 (topwater v - openWaterEvap f' - infiltration f')
                  - (directRunoff f' - saverunofffromGW f'))"
proof -
  have bio: "bioarea v" using paddy by (rule paddy_bio)
  from dynamic_cell_bio[OF run bio] obtain
    aw' tw owe awi pb s t1 t2 t3 e tw5 a5 b5 c2 pf infl dr r1 r2 p12 p23 p3g where
    aw': "avail_water v = Inr aw'" and
    p1: "paddy_ponding v (init_frame a aw') =
       Inr (v\<lparr>topwater := tw\<rparr>,
            (init_frame a aw')\<lparr>openWaterEvap := owe, availWaterInfiltration := awi,
                              potBareSoilEvap := pb\<rparr>)" and
    V: "v' = v\<lparr>topwater := tw5, w1 := a5 + r1 - p12, w2 := b5 - r1 + r2 + p12 - p23,
            w3 := c2 - t3 - r2 + p23 - p3g, actTransTotal := t1 + t2 + t3,
            actBareSoilEvap := e, actualET := actualET v + e + owe + (t1 + t2 + t3)\<rparr>" and
    F: "f' = (init_frame a aw')\<lparr>openWaterEvap := owe, availWaterInfiltration := awi,
            potBareSoilEvap := pb, saverunofffromGW := s, ta1 := t1, ta2 := t2, ta3 := t3,
            prefFlow := pf, infiltration := infl, directRunoff := dr + s,
            perc1to2 := p12, perc2to3 := p23, perc3toGW := p3g,
            interflow := percolationImp v * (p3g + pf),
            groundwater_recharge := (1 - percolationImp v) * (p3g + pf)\<rparr>" and
    c_uf: "paddy_irrigated_land v \<and> \<not> cropKC v > 0.75 \<longrightarrow>
        owe = min (max 0 (topwater v)) (EWRef v) \<and> tw = topwater v - owe \<and> awi = tw + aw'" and
    d_uf: "paddy_irrigated_land v \<and> \<not> cropKC v > 0.75 \<longrightarrow>
        dr = max 0 (awi - infl) \<and> tw5 = max 0 (max 0 (tw - infl) - dr)"
    by (elim exE conjE) (rule that; assumption)
  have [simp]: "aw' = aw" using aw aw' by simp
  have nkc: "\<not> cropKC v > 0.75" using kc by simp
  from c_uf paddy nkc have owe: "owe = min (max 0 (topwater v)) (EWRef v)"
    and tw: "tw = topwater v - owe" and awi: "awi = tw + aw" by simp_all
  from d_uf paddy nkc have dr: "dr = max 0 (awi - infl)"
    and tw5: "tw5 = max 0 (max 0 (tw - infl) - dr)" by simp_all
  have sel: "openWaterEvap f' = owe" "availWaterInfiltration f' = awi" "infiltration f' = infl"
    "directRunoff f' = dr + s" "saverunofffromGW f' = s" "topwater v' = tw5"
    by (simp_all add: V F)
  have 1: "openWaterEvap f' = min (max 0 (topwater v)) (EWRef v)"
    using owe by (simp add: sel)
  have 2: "\<exists>f1. paddy_ponding v (init_frame a aw) =
                 Inr (v\<lparr>topwater := topwater v - openWaterEvap f'\<rparr>, f1) \<and>
               availWaterInfiltration f1 = (topwater v - openWaterEvap f') + aw"
    using p1 tw awi by (simp add: sel)
  have 3: "availWaterInfiltration f' = (topwater v - openWaterEvap f') + aw"
    using awi tw by (simp add: sel)
  have 4: "directRunoff f' - saverunofffromGW f' =
           max 0 (availWaterInfiltration f' - infiltration f')"
    using dr unfolding sel by simp
  have 5: "topwater v' =
           max 0 (max 0 (topwater v - openWaterEvap f' - infiltration f')
                  - (directRunoff f' - saverunofffromGW f'))"
    using tw5 tw unfolding sel by simp
  from 1 2 3 4 5 show ?thesis by blast
qed

text \<open>The paddy cell that is not flooded.\<close>

theorem paddy_unflooded_topwater_witness:
  "dynamic_cell g0 unflooded_cell unflooded_args = Inr (unflooded_cell8, unflooded_frame8) \<and>
   avail_water unflooded_cell = Inr 0.02 \<and> paddy_irrigated_land unflooded_cell \<and>
   cropKC unflooded_cell \<le> 0.75 \<and>
   openWaterEvap unflooded_frame8 = 0.003 \<and>
   availWaterInfiltration unflooded_frame8 = 0.057 \<and>
   directRunoff unflooded_frame8 - saverunofffromGW unflooded_frame8 =
     max 0 (availWaterInfiltration unflooded_frame8 - infiltration unflooded_frame8) \<and>
   topwater unflooded_cell8 =
     max 0 (max 0 (topwater unflooded_cell - openWaterEvap unflooded_frame8
                   - infiltration unflooded_frame8)
            - (directRunoff unflooded_frame8 - saverunofffromGW unflooded_frame8))"
proof -
  have r: "dynamic_cell g0 unflooded_cell unflooded_args =
      Inr (unflooded_cell8, unflooded_frame8)"
    by (rule unflooded_run)
  have a: "avail_water unflooded_cell = Inr 0.02" using unflooded_avail by simp
  have p: "paddy_irrigated_land unflooded_cell"
    by (simp add: paddy_irrigated_land_def unflooded_cell_def cell0_sel)
  have k: "cropKC unflooded_cell \<le> 0.75" by (simp add: unflooded_cell_def cell0_sel)
  have h: "topwater unflooded_cell = 0.04" "EWRef unflooded_cell = 0.003"
    by (simp_all add: unflooded_cell_def cell0_sel)
  from paddy_unflooded_topwater[OF r a p k] h r a p k show ?thesis by simp
qed

subsection \<open>Negative incoming water\<close>

text \<open>
  Claim C8. If the incoming water of a cell (natural available water plus irrigation
  consumption) is below \<open>-10\<^sup>-\<^sup>6\<close>, the step halts with an assertion failure, for the cell
  and for the array that holds it, before any phase. If it is negative but not below
  \<open>-10\<^sup>-\<^sup>6\<close>, the phases run on 0 in its place; if it is not negative, they run on it as it
  is. The state and the five arguments of the caller reach the phases unchanged.
\<close>

theorem negative_available_water:
  "(c \<in> set cells \<and>
      natural_available_water_infiltration (fst c) + actual_irrigation_consumption (fst c)
        < - 0.000001 \<longrightarrow>
      dynamic g cells = Inl AssertionError) \<and>
   (natural_available_water_infiltration vn + actual_irrigation_consumption vn < - 0.000001 \<longrightarrow>
      dynamic_cell g vn an = Inl AssertionError) \<and>
   (- 0.000001 \<le> natural_available_water_infiltration vz + actual_irrigation_consumption vz \<and>
    natural_available_water_infiltration vz + actual_irrigation_consumption vz < 0 \<longrightarrow>
      avail_water vz = Inr 0 \<and> dynamic_cell g vz az = phases g vz (init_frame az 0)) \<and>
   (0 \<le> natural_available_water_infiltration vp + actual_irrigation_consumption vp \<longrightarrow>
      dynamic_cell g vp ap =
        phases g vp
          (init_frame ap
             (natural_available_water_infiltration vp + actual_irrigation_consumption vp))) \<and>
   capillar (init_frame a aw) = capillar a \<and>
   openWaterEvap (init_frame a aw) = openWaterEvap a \<and>
   potTranspiration (init_frame a aw) = potTranspiration a \<and>
   potBareSoilEvap (init_frame a aw) = potBareSoilEvap a \<and>
   totalPotET (init_frame a aw) = totalPotET a"
proof -
  have neg: "dynamic_cell g v a = Inl AssertionError"
    if "natural_available_water_infiltration v + actual_irrigation_consumption v < - 0.000001"
    for v a
    using that by (simp add: dynamic_cell_def avail_water_def bind_err_def Let_def)
  have 1: "c \<in> set cells \<and>
      natural_available_water_infiltration (fst c) + actual_irrigation_consumption (fst c)
        < - 0.000001 \<longrightarrow>
      dynamic g cells = Inl AssertionError"
  proof (intro impI, elim conjE)
    assume c: "c \<in> set cells" and
      n: "natural_available_water_infiltration (fst c) + actual_irrigation_consumption (fst c)
        < - 0.000001"
    from neg[OF n] have "dynamic_cell g (fst c) (snd c) = Inl AssertionError" .
    with c have "Inl AssertionError \<in> set (map (\<lambda>c. dynamic_cell g (fst c) (snd c)) cells)"
      by force
    then show "dynamic g cells = Inl AssertionError"
      unfolding dynamic_def by (rule all_cells_Inl)
  qed
  have 3: "- 0.000001 \<le> natural_available_water_infiltration vz + actual_irrigation_consumption vz \<and>
    natural_available_water_infiltration vz + actual_irrigation_consumption vz < 0 \<longrightarrow>
      avail_water vz = Inr 0 \<and> dynamic_cell g vz az = phases g vz (init_frame az 0)"
    by (simp add: dynamic_cell_def avail_water_def bind_err_def Let_def)
  have 4: "0 \<le> natural_available_water_infiltration vp + actual_irrigation_consumption vp \<longrightarrow>
      dynamic_cell g vp ap =
        phases g vp
          (init_frame ap
             (natural_available_water_infiltration vp + actual_irrigation_consumption vp))"
    by (simp add: dynamic_cell_def avail_water_def bind_err_def Let_def)
  show ?thesis using 1 neg[of vn an] 3 4 by (simp add: init_frame_sel)
qed

text \<open>A cell with -0.001 of incoming water, a cell with -0.0000005 and the frozen forest
  cell with 0.004.\<close>

theorem negative_available_water_witness:
  "(negative_cell, negative_args) \<in> set [(frozen_cell, frozen_args 0),
                                          (negative_cell, negative_args)] \<and>
   natural_available_water_infiltration negative_cell
     + actual_irrigation_consumption negative_cell < - 0.000001 \<and>
   dynamic g0 [(frozen_cell, frozen_args 0), (negative_cell, negative_args)]
     = Inl AssertionError \<and>
   dynamic_cell g0 negative_cell negative_args = Inl AssertionError \<and>
   - 0.000001 \<le> natural_available_water_infiltration noise_cell
                  + actual_irrigation_consumption noise_cell \<and>
   natural_available_water_infiltration noise_cell
     + actual_irrigation_consumption noise_cell < 0 \<and>
   avail_water noise_cell = Inr 0 \<and>
   dynamic_cell g0 noise_cell negative_args = phases g0 noise_cell (init_frame negative_args 0) \<and>
   0 \<le> natural_available_water_infiltration frozen_cell
        + actual_irrigation_consumption frozen_cell \<and>
   dynamic_cell g0 frozen_cell (frozen_args 0) =
     phases g0 frozen_cell (init_frame (frozen_args 0) 0.004)"
proof -
  have n: "natural_available_water_infiltration negative_cell
     + actual_irrigation_consumption negative_cell < - 0.000001"
    by (simp add: negative_cell_def cell0_sel)
  have z: "- 0.000001 \<le> natural_available_water_infiltration noise_cell
                  + actual_irrigation_consumption noise_cell"
    "natural_available_water_infiltration noise_cell
     + actual_irrigation_consumption noise_cell < 0"
    by (simp_all add: noise_cell_def cell0_sel)
  have p: "natural_available_water_infiltration frozen_cell
        + actual_irrigation_consumption frozen_cell = 0.004"
    by (simp add: frozen_cell_def cell0_sel)
  from negative_available_water[of "(negative_cell, negative_args)"
      "[(frozen_cell, frozen_args 0), (negative_cell, negative_args)]" g0
      negative_cell negative_args noise_cell negative_args frozen_cell "frozen_args 0"]
    n z p
  show ?thesis by simp
qed

subsection \<open>Cells outside the soil physics\<close>

text \<open>
  Claim C9. When a step over an array of cells succeeds, a cell whose land use type is 4
  or more keeps its state, so \<open>w1\<close>, \<open>w2\<close>, \<open>w3\<close> and \<^verbatim>\<open>topwater\<close> are unchanged, and its
  entries of the returned interflow, direct runoff, groundwater recharge, percolation to
  groundwater and preferential flow are 0.
\<close>

theorem nonparticipating_unchanged:
  assumes run: "dynamic g cells = Inr outs"
    and i: "i < length cells"
    and lut: "land_use_type (fst (cells ! i)) \<ge> 4"
  shows "i < length outs \<and> fst (outs ! i) = fst (cells ! i) \<and>
         w1 (fst (outs ! i)) = w1 (fst (cells ! i)) \<and>
         w2 (fst (outs ! i)) = w2 (fst (cells ! i)) \<and>
         w3 (fst (outs ! i)) = w3 (fst (cells ! i)) \<and>
         topwater (fst (outs ! i)) = topwater (fst (cells ! i)) \<and>
         interflow (snd (outs ! i)) = 0 \<and> directRunoff (snd (outs ! i)) = 0 \<and>
         groundwater_recharge (snd (outs ! i)) = 0 \<and> perc3toGW (snd (outs ! i)) = 0 \<and>
         prefFlow (snd (outs ! i)) = 0"
proof -
  let ?rs = "map (\<lambda>c. dynamic_cell g (fst c) (snd c)) cells"
  from run have "all_cells ?rs = Inr outs" by (simp add: dynamic_def)
  from all_cells_Inr[OF this] have len: "length outs = length cells"
    and nth: "\<forall>j < length ?rs. ?rs ! j = Inr (outs ! j)" by simp_all
  from nth i have "dynamic_cell g (fst (cells ! i)) (snd (cells ! i)) = Inr (outs ! i)" by simp
  then have r: "dynamic_cell g (fst (cells ! i)) (snd (cells ! i)) =
      Inr (fst (outs ! i), snd (outs ! i))" by simp
  have nb: "\<not> bioarea (fst (cells ! i))" using lut by (simp add: bioarea_def)
  from dynamic_cell_nonbio[OF r nb] obtain aw where
    v: "fst (outs ! i) = fst (cells ! i)" and f: "snd (outs ! i) = init_frame (snd (cells ! i)) aw"
    by blast
  show ?thesis using i len v by (simp add: f init_frame_sel)
qed

text \<open>The frozen forest cell and a cell of land use type 5.\<close>

theorem nonparticipating_unchanged_witness:
  "dynamic g0 [(frozen_cell, frozen_args 0), (water_cell, water_args)] =
     Inr [(frozen_cell8 0, frozen_frame8 0), (water_cell, water_frame)] \<and>
   (1 :: nat) < length [(frozen_cell, frozen_args 0), (water_cell, water_args)] \<and>
   land_use_type water_cell \<ge> 4 \<and>
   fst ([(frozen_cell8 0, frozen_frame8 0), (water_cell, water_frame)] ! 1) = water_cell \<and>
   interflow water_frame = 0 \<and> directRunoff water_frame = 0 \<and>
   groundwater_recharge water_frame = 0 \<and> perc3toGW water_frame = 0 \<and>
   prefFlow water_frame = 0"
proof -
  have r: "dynamic g0 [(frozen_cell, frozen_args 0), (water_cell, water_args)] =
     Inr [(frozen_cell8 0, frozen_frame8 0), (water_cell, water_frame)]"
    by (simp add: dynamic_def frozen_run water_run)
  have i: "(1 :: nat) < length [(frozen_cell, frozen_args 0), (water_cell, water_args)]"
    by simp
  have l: "land_use_type (fst ([(frozen_cell, frozen_args 0), (water_cell, water_args)] ! 1))
      \<ge> 4"
    by (simp add: water_cell_def cell0_sel)
  from nonparticipating_unchanged[OF r i l] r l show ?thesis by simp
qed

end
